theory Spec2Isabelle
  imports Complex_Main "HOL-Library.State_Monad"
begin

section \<open>Scene objects\<close>

text \<open>
  The program builds a three.js scene graph. Every \<^verbatim>\<open>new THREE.X(...)\<close> of the source
  yields an object with an identity of its own; the model records that identity as a
  number drawn from an allocation counter (\<open>fresh\<close> below), so that sharing between two
  objects is visible as equal identities. JavaScript numbers are modelled as reals:
  the claims depend on comparisons with literals and on signs only.
\<close>

type_synonym vec3 = "real \<times> real \<times> real"
type_synonym quat = "real \<times> real \<times> real \<times> real"

datatype side = FrontSide | BackSide | DoubleSide

datatype material_type =
  MeshStandardMaterial | MeshBasicMaterial | LineBasicMaterial | SpriteMaterial

text \<open>A canvas texture; the model keeps the text drawn on the canvas.\<close>

datatype texture = CanvasTexture (tid: nat) (canvas_text: string)

text \<open>
  The material parameters the source sets. A field the source does not pass keeps the
  default of three.js (\<open>material_defaults\<close>): white, opaque, not transparent, front side,
  no wireframe, depth test on, no texture.
\<close>

record material =
  mid :: nat
  mtype :: material_type
  color :: nat
  roughness :: real
  metalness :: real
  opacity :: real
  transparent :: bool
  side :: side
  wireframe :: bool
  depthTest :: bool
  map_tex :: "texture option"

definition material_defaults :: "material_type \<Rightarrow> material" where
  "material_defaults ty =
     \<lparr>mid = 0, mtype = ty, color = 0xffffff, roughness = 1, metalness = 0, opacity = 1,
      transparent = False, side = FrontSide, wireframe = False, depthTest = True,
      map_tex = None\<rparr>"

datatype shape =
    BoxGeometry real real real
  | CylinderGeometry real real real nat
  | SphereGeometry real nat nat
  | ConeGeometry real real nat
  | PlaneGeometry real real
  | TubeGeometry "vec3 list" nat real nat bool
  | BufferGeometry "vec3 list" "nat list"
  | EdgesGeometry shape

text \<open>
  \<open>TubeGeometry pts n r m c\<close> stands for
  \<^verbatim>\<open>new THREE.TubeGeometry(new THREE.CatmullRomCurve3(pts), n, r, m, c)\<close>;
  \<open>BufferGeometry verts idx\<close> for a buffer geometry with that position attribute and index.
\<close>

datatype geometry = Geometry (gid: nat) (shape: shape)

datatype body =
    GroupB
  | MeshB geometry material
  | LineSegmentsB geometry material
  | SpriteB material
  | LightB
  | GridHelperB

record node =
  oid :: nat
  body :: body
  name :: string
  visible :: bool
  isLabel :: bool
  isNappe :: bool
  position :: vec3
  rotation :: vec3
  quaternion :: quat
  scale :: vec3
  castShadow :: bool
  receiveShadow :: bool

datatype obj = Obj (attrs: node) (children: "obj list")

text \<open>The defaults of \<^verbatim>\<open>THREE.Object3D\<close>: visible, at the origin, unrotated, unit scale.\<close>

definition object3d :: "nat \<Rightarrow> body \<Rightarrow> node" where
  "object3d i b =
     \<lparr>oid = i, body = b, name = [], visible = True, isLabel = False, isNappe = False,
      position = (0, 0, 0), rotation = (0, 0, 0), quaternion = (0, 0, 0, 1),
      scale = (1, 1, 1),
      castShadow = False, receiveShadow = False\<rparr>"

fun isMesh :: "node \<Rightarrow> bool" where
  "isMesh n = (case body n of MeshB g m \<Rightarrow> True | _ \<Rightarrow> False)"

section \<open>Building a group\<close>

text \<open>
  Every builder of the source adds to one parent, the group under construction. The
  builder state is the allocation counter and the children added so far to that parent,
  newest first.
\<close>

record bstate =
  next_id :: nat
  kids :: "obj list"

type_synonym 'a build = "(bstate, 'a) state"

definition fresh :: "nat build" where
  "fresh = State (\<lambda>s. (next_id s, s\<lparr>next_id := Suc (next_id s)\<rparr>))"

definition add :: "obj \<Rightarrow> unit build" where
  "add ob = State (\<lambda>s. ((), s\<lparr>kids := ob # kids s\<rparr>))"

text \<open>Mutating an object that is already a child of the parent: found by its identity.\<close>

fun upd_obj :: "nat \<Rightarrow> (node \<Rightarrow> node) \<Rightarrow> obj list \<Rightarrow> obj list" where
  "upd_obj i f [] = []"
| "upd_obj i f (ob # obs) =
     (if oid (attrs ob) = i then Obj (f (attrs ob)) (children ob) # obs
      else ob # upd_obj i f obs)"

definition modify :: "obj \<Rightarrow> (node \<Rightarrow> node) \<Rightarrow> obj build" where
  "modify ob f =
     State (\<lambda>s. (Obj (f (attrs ob)) (children ob),
                  s\<lparr>kids := upd_obj (oid (attrs ob)) f (kids s)\<rparr>))"

definition new_material :: "material \<Rightarrow> material build" where
  "new_material m = do { i \<leftarrow> fresh; State_Monad.return (m\<lparr>mid := i\<rparr>) }"

definition new_geometry :: "shape \<Rightarrow> geometry build" where
  "new_geometry sh = do { i \<leftarrow> fresh; State_Monad.return (Geometry i sh) }"

section \<open>Materials\<close>

text \<open>
  \<^verbatim>\<open>mat(color, {roughness = 0.7, metalness = 0.1, opacity = 1} = {})\<close> is defined with the
  same body in sorbant.js, peltier.js, filtration.js and assemblage.js. The model takes the
  three options as arguments; a call that omits one is written with its default.
\<close>

definition mat_params :: "nat \<Rightarrow> real \<Rightarrow> real \<Rightarrow> real \<Rightarrow> material" where
  "mat_params c r m opac =
     (let t = (opac < 0.99)
      in (material_defaults MeshStandardMaterial)
           \<lparr>color := c, roughness := r, metalness := m, opacity := opac, transparent := t,
            side := (if t then DoubleSide else FrontSide)\<rparr>)"

definition mat :: "nat \<Rightarrow> real \<Rightarrow> real \<Rightarrow> real \<Rightarrow> material build" where
  "mat c r m opac = new_material (mat_params c r m opac)"

text \<open>The options of \<^verbatim>\<open>box\<close> and \<^verbatim>\<open>cyl\<close> of helpers.js, with their defaults.\<close>

record box_opts =
  bo_w :: real  bo_h :: real  bo_d :: real
  bo_x :: real  bo_y :: real  bo_z :: real
  bo_rx :: real  bo_ry :: real  bo_rz :: real
  bo_color :: nat
  bo_opacity :: real
  bo_roughness :: real
  bo_metalness :: real
  bo_side :: side
  bo_castShadow :: bool
  bo_receiveShadow :: bool

definition box_defaults :: box_opts where
  "box_defaults =
     \<lparr>bo_w = 1, bo_h = 1, bo_d = 1, bo_x = 0, bo_y = 0, bo_z = 0,
      bo_rx = 0, bo_ry = 0, bo_rz = 0, bo_color = 0xffffff, bo_opacity = 1,
      bo_roughness = 0.7, bo_metalness = 0.1, bo_side = FrontSide,
      bo_castShadow = True, bo_receiveShadow = True\<rparr>"

definition box_material :: "box_opts \<Rightarrow> material" where
  "box_material opts =
     (let transparent = (bo_opacity opts < 0.99)
      in (material_defaults MeshStandardMaterial)
           \<lparr>color := bo_color opts, opacity := bo_opacity opts, transparent := transparent,
            roughness := bo_roughness opts, metalness := bo_metalness opts,
            side := (if transparent then DoubleSide else bo_side opts)\<rparr>)"

definition box :: "box_opts \<Rightarrow> obj build" where
  "box opts = do {
     m \<leftarrow> new_material (box_material opts);
     g \<leftarrow> new_geometry (BoxGeometry (bo_w opts) (bo_h opts) (bo_d opts));
     i \<leftarrow> fresh;
     let mesh = Obj ((object3d i (MeshB g m))
                      \<lparr>position := (bo_x opts, bo_y opts, bo_z opts),
                       rotation := (bo_rx opts, bo_ry opts, bo_rz opts),
                       castShadow := bo_castShadow opts,
                       receiveShadow := bo_receiveShadow opts\<rparr>) [];
     add mesh;
     State_Monad.return mesh
   }"

record cyl_opts =
  co_r :: real
  co_rBot :: "real option"
  co_h :: real
  co_x :: real  co_y :: real  co_z :: real
  co_rx :: real  co_ry :: real  co_rz :: real
  co_color :: nat
  co_opacity :: real
  co_roughness :: real
  co_metalness :: real
  co_segments :: nat
  co_castShadow :: bool

definition cyl_defaults :: cyl_opts where
  "cyl_defaults =
     \<lparr>co_r = 1, co_rBot = None, co_h = 1, co_x = 0, co_y = 0, co_z = 0,
      co_rx = 0, co_ry = 0, co_rz = 0, co_color = 0xffffff, co_opacity = 1,
      co_roughness = 0.5, co_metalness = 0.2, co_segments = 32, co_castShadow = True\<rparr>"

definition cyl_material :: "cyl_opts \<Rightarrow> material" where
  "cyl_material opts =
     (let transparent = (co_opacity opts < 0.99)
      in (material_defaults MeshStandardMaterial)
           \<lparr>color := co_color opts, opacity := co_opacity opts, transparent := transparent,
            roughness := co_roughness opts, metalness := co_metalness opts\<rparr>)"

definition cyl :: "cyl_opts \<Rightarrow> obj build" where
  "cyl opts = do {
     m \<leftarrow> new_material (cyl_material opts);
     g \<leftarrow> new_geometry (CylinderGeometry (co_r opts)
            (case co_rBot opts of None \<Rightarrow> co_r opts | Some rb \<Rightarrow> rb)
            (co_h opts) (co_segments opts));
     i \<leftarrow> fresh;
     let mesh = Obj ((object3d i (MeshB g m))
                      \<lparr>position := (co_x opts, co_y opts, co_z opts),
                       rotation := (co_rx opts, co_ry opts, co_rz opts),
                       castShadow := co_castShadow opts\<rparr>) [];
     add mesh;
     State_Monad.return mesh
   }"

section \<open>Helpers of the module files\<close>

text \<open>
  \<^verbatim>\<open>addM\<close>, \<^verbatim>\<open>bx\<close>, \<^verbatim>\<open>cy\<close>, \<^verbatim>\<open>edgeLine\<close> and \<^verbatim>\<open>pipe\<close> are declared with the same body
  in each module file. An argument of the source that is an expression creating a material
  (\<^verbatim>\<open>M.paroi()\<close>) is passed as that computation and run first, as JavaScript evaluates
  arguments before the call; a material created earlier is passed with \<open>return\<close>. Trailing
  arguments that a call omits are written with their defaults (0).
\<close>

fun for_each :: "'a list \<Rightarrow> ('a \<Rightarrow> unit build) \<Rightarrow> unit build" where
  "for_each [] f = State_Monad.return ()"
| "for_each (x # xs) f = do { f x; for_each xs f }"

definition addM :: "geometry \<Rightarrow> material \<Rightarrow> obj build" where
  "addM geo material = do {
     i \<leftarrow> fresh;
     let m = Obj ((object3d i (MeshB geo material))
                   \<lparr>castShadow := True, receiveShadow := True\<rparr>) [];
     add m;
     State_Monad.return m
   }"

definition set_rot_x :: "real \<Rightarrow> node \<Rightarrow> node" where
  "set_rot_x v n = (case rotation n of (rx, ry, rz) \<Rightarrow> n\<lparr>rotation := (v, ry, rz)\<rparr>)"

definition set_rot_z :: "real \<Rightarrow> node \<Rightarrow> node" where
  "set_rot_z v n = (case rotation n of (rx, ry, rz) \<Rightarrow> n\<lparr>rotation := (rx, ry, v)\<rparr>)"

definition bx ::
  "real \<Rightarrow> real \<Rightarrow> real \<Rightarrow> material build \<Rightarrow> real \<Rightarrow> real \<Rightarrow> real \<Rightarrow> real \<Rightarrow> real \<Rightarrow> real
     \<Rightarrow> obj build" where
  "bx w h d material x y z rx ry rz = do {
     mt \<leftarrow> material;
     geo \<leftarrow> new_geometry (BoxGeometry w h d);
     m \<leftarrow> addM geo mt;
     m \<leftarrow> modify m (\<lambda>n. n\<lparr>position := (x, y, z)\<rparr>);
     modify m (\<lambda>n. n\<lparr>rotation := (rx, ry, rz)\<rparr>)
   }"

definition cy ::
  "real \<Rightarrow> real \<Rightarrow> material build \<Rightarrow> real \<Rightarrow> real \<Rightarrow> real \<Rightarrow> real \<Rightarrow> real \<Rightarrow> obj build" where
  "cy r h material x y z rx rz = do {
     mt \<leftarrow> material;
     geo \<leftarrow> new_geometry (CylinderGeometry r r h 32);
     m \<leftarrow> addM geo mt;
     m \<leftarrow> modify m (\<lambda>n. n\<lparr>position := (x, y, z)\<rparr>);
     m \<leftarrow> modify m (set_rot_x rx);
     modify m (set_rot_z rz)
   }"

text \<open>\<^verbatim>\<open>m.geometry\<close> of a mesh or line; the source reads it from meshes only.\<close>

definition geometry_of :: "obj \<Rightarrow> shape" where
  "geometry_of ob =
     (case body (attrs ob) of
        MeshB g m \<Rightarrow> shape g
      | LineSegmentsB g m \<Rightarrow> shape g
      | _ \<Rightarrow> BufferGeometry [] [])"

definition line_material :: "nat \<Rightarrow> real \<Rightarrow> material" where
  "line_material c op =
     (material_defaults LineBasicMaterial)\<lparr>color := c, opacity := op, transparent := True\<rparr>"

definition edgeLine :: "obj \<Rightarrow> nat \<Rightarrow> real \<Rightarrow> unit build" where
  "edgeLine m c op = do {
     geo \<leftarrow> new_geometry (EdgesGeometry (geometry_of m));
     lm \<leftarrow> new_material (line_material c op);
     i \<leftarrow> fresh;
     add (Obj ((object3d i (LineSegmentsB geo lm))
                \<lparr>position := position (attrs m), rotation := rotation (attrs m)\<rparr>) [])
   }"

text \<open>
  \<^verbatim>\<open>pipe(parent, points, r)\<close> of filtration.js and assemblage.js: both sweep 14 path
  segments and 10 radial segments, open, with the material
  \<^verbatim>\<open>mat(0x2e86c1, {roughness: 0.45, metalness: 0.50, opacity: 0.88})\<close> (\<^verbatim>\<open>M.tuyau()\<close> in
  filtration.js). The default radius is 0.55 in filtration.js and 0.60 in assemblage.js.
\<close>

definition pipe :: "vec3 list \<Rightarrow> real \<Rightarrow> unit build" where
  "pipe points r = do {
     geo \<leftarrow> new_geometry (TubeGeometry points 14 r 10 False);
     mt \<leftarrow> mat 0x2e86c1 0.45 0.50 0.88;
     m \<leftarrow> addM geo mt;
     State_Monad.return ()
   }"

text \<open>
  \<^verbatim>\<open>labelSprite\<close> of assemblage.js. The canvas drawing is kept as the text of the
  texture only.
\<close>

definition labelSprite ::
  "string \<Rightarrow> real \<Rightarrow> real \<Rightarrow> real \<Rightarrow> string \<Rightarrow> real \<Rightarrow> unit build" where
  "labelSprite text x y z hex scaleW = do {
     t \<leftarrow> fresh;
     sm \<leftarrow> new_material ((material_defaults SpriteMaterial)
             \<lparr>map_tex := Some (CanvasTexture t text), opacity := 0.92, transparent := True,
              depthTest := False\<rparr>);
     i \<leftarrow> fresh;
     add (Obj ((object3d i (SpriteB sm))
                \<lparr>scale := (scaleW, 6, 1), position := (x, y, z), isLabel := True\<rparr>) [])
   }"

text \<open>
  A builder's group: \<^verbatim>\<open>const g = new THREE.Group(); g.name = ...; ...; return g\<close>. The
  body adds to \<open>g\<close>; the children of the enclosing parent are put back afterwards.
\<close>

definition group :: "string \<Rightarrow> unit build \<Rightarrow> obj build" where
  "group nm build_body = do {
     i \<leftarrow> fresh;
     outer \<leftarrow> State_Monad.get;
     State_Monad.update (\<lambda>s. s\<lparr>kids := []\<rparr>);
     build_body;
     inner \<leftarrow> State_Monad.get;
     State_Monad.update (\<lambda>s. s\<lparr>kids := kids outer\<rparr>);
     State_Monad.return (Obj ((object3d i GroupB)\<lparr>name := nm\<rparr>) (rev (kids inner)))
   }"

section \<open>sorbant.js\<close>

text \<open>
  Dimensions in centimetres. peltier.js declares \<open>W\<close>, \<open>D\<close>, \<open>HW\<close>, \<open>HD\<close> and \<open>T\<close> with
  the same values.
\<close>

definition W :: real where "W = 50"
definition D :: real where "D = 40"
definition HW :: real where "HW = W / 2"
definition HD :: real where "HD = D / 2"
definition T :: real where "T = 2.0"
definition ANGLE :: real where "ANGLE = 12 * pi / 180"
definition H_AV :: real where "H_AV = 18"
definition H_AR :: real where "H_AR = H_AV + D * tan ANGLE"
definition H_MOY :: real where "H_MOY = (H_AV + H_AR) / 2"

definition sorbant_M_paroi :: "material build" where
  "sorbant_M_paroi = mat 0x2a2f3d 0.5 0.3 0.22"
definition sorbant_M_base :: "material build" where
  "sorbant_M_base = mat 0x1e2530 0.8 0.3 1"
definition sorbant_M_nappe :: "material build" where
  "sorbant_M_nappe = mat 0xc0392b 0.9 0.0 1"
definition sorbant_M_grille :: "material build" where
  "sorbant_M_grille = mat 0xbfc9ca 0.3 0.8 1"
definition sorbant_M_tissu :: "material build" where
  "sorbant_M_tissu = mat 0x1e4d2b 0.97 0.0 1"
definition sorbant_M_vapeur :: "material build" where
  "sorbant_M_vapeur = mat 0x5dade2 0.0 0.0 0.06"
definition sorbant_M_vitre :: "material build" where
  "sorbant_M_vitre = mat 0x4ab3e8 0.04 0.0 0.40"
definition sorbant_M_canal :: "material build" where
  "sorbant_M_canal = mat 0x1f8ec2 0.4 0.55 1"
definition sorbant_M_tuyau :: "material build" where
  "sorbant_M_tuyau = mat 0x2e86c1 0.45 0.5 0.85"
definition sorbant_M_volet :: "material build" where
  "sorbant_M_volet = mat 0x3d4454 0.75 0.25 1"
definition sorbant_M_tringle :: "material build" where
  "sorbant_M_tringle = mat 0x7f8c8d 0.4 0.7 1"
definition sorbant_M_servo :: "material build" where
  "sorbant_M_servo = mat 0x212535 0.7 0.2 1"
definition sorbant_M_panneau :: "material build" where
  "sorbant_M_panneau = mat 0x1a1f2b 0.7 0.3 1"
definition sorbant_M_oled :: "material build" where
  "sorbant_M_oled = mat 0x001a2e 0.2 0.1 1"
definition sorbant_M_oledScr :: "material build" where
  "sorbant_M_oledScr = mat 0x00aacc 0.1 0.0 0.92"
definition sorbant_M_ds18 :: "material build" where
  "sorbant_M_ds18 = mat 0x1c1c1c 0.5 0.1 1"
definition sorbant_M_dht22 :: "material build" where
  "sorbant_M_dht22 = mat 0xecf0f1 0.8 0.0 1"
definition sorbant_M_ldr :: "material build" where
  "sorbant_M_ldr = mat 0xd4ac0d 0.3 0.1 0.9"
definition sorbant_M_pin :: "material build" where
  "sorbant_M_pin = mat 0x7f8c8d 0.3 0.9 1"
definition sorbant_M_btnVert :: "material build" where
  "sorbant_M_btnVert = mat 0x27ae60 0.4 0.1 1"
definition sorbant_M_btnRouge :: "material build" where
  "sorbant_M_btnRouge = mat 0xe74c3c 0.4 0.1 1"

text \<open>
  The trapezoidal side wall: the position attribute (8 vertices) and the index
  (6 faces of 2 triangles) of \<^verbatim>\<open>makeTrapWall\<close>.
\<close>

definition trap_x1 :: "real \<Rightarrow> real" where
  "trap_x1 xPos = xPos + T * (if xPos < 0 then 1 else -1)"

definition trap_verts :: "real \<Rightarrow> vec3 list" where
  "trap_verts xPos =
     (let x0 = xPos; x1 = trap_x1 xPos
      in [(x0, 0, - HD), (x0, 0, HD), (x0, H_AR, HD), (x0, H_AV, - HD),
          (x1, 0, - HD), (x1, 0, HD), (x1, H_AR, HD), (x1, H_AV, - HD)])"

definition trap_idx :: "nat list" where
  "trap_idx =
     [0,1,2, 0,2,3,
      5,4,7, 5,7,6,
      4,0,3, 4,3,7,
      1,5,6, 1,6,2,
      4,5,1, 4,1,0,
      3,2,6, 3,6,7]"

definition makeTrapWall :: "real \<Rightarrow> material build \<Rightarrow> obj build" where
  "makeTrapWall xPos material = do {
     mt \<leftarrow> material;
     geo \<leftarrow> new_geometry (BufferGeometry (trap_verts xPos) trap_idx);
     i \<leftarrow> fresh;
     let m = Obj ((object3d i (MeshB geo mt))
                   \<lparr>castShadow := True, receiveShadow := True\<rparr>) [];
     add m;
     State_Monad.return m
   }"

definition buildSorbant :: "obj build" where
  "buildSorbant = group ''sorbant'' (do {
     makeTrapWall (- HW) sorbant_M_paroi;
     makeTrapWall HW sorbant_M_paroi;
     bx W H_AR T sorbant_M_paroi 0 (H_AR / 2) HD 0 0 0;
     bx W T D sorbant_M_base 0 (T / 2) 0 0 0 0;
     let NV = (5::nat);
     let step = (D - 2) / real NV;
     for_each [0..<NV] (\<lambda>i. do {
       let zv = - HD + 1 + step * (real i + 0.5);
       bx (W - T * 2 - 0.5) 1.2 (step - 0.5) sorbant_M_volet 0 (T + 1.5) zv 0 0 0;
       State_Monad.return ()
     });
     cy 0.5 (D - 2) sorbant_M_tringle (HW - T - 1) (T + 1.5) 0 (pi / 2) 0;
     bx 2.5 3 5 sorbant_M_servo (HW - T - 1.5) (T + 3) (HD - 8) 0 0 0;
     nappe \<leftarrow> bx (W - T * 2) 1.5 (D - T * 2) sorbant_M_nappe 0 (T + 3.5) 0 0 0 0;
     modify nappe (\<lambda>n. n\<lparr>isNappe := True\<rparr>);
     bx (W - T * 2) 0.4 (D - T * 2) sorbant_M_grille 0 (T + 5.5) 0 0 0 0;
     for_each [0..<8] (\<lambda>i. do {
       let zf = - HD + T + 1 + ((D - T * 2 - 2) / 7) * real i;
       bx (W - T * 2) 0.18 0.22 sorbant_M_grille 0 (T + 5.9) zf 0 0 0;
       State_Monad.return ()
     });
     for_each [0..<6] (\<lambda>i. do {
       let xf = - HW + T + 1 + ((W - T * 2 - 2) / 5) * real i;
       bx 0.22 0.18 (D - T * 2) sorbant_M_grille xf (T + 5.9) 0 0 0 0;
       State_Monad.return ()
     });
     bx (W - T * 2) 2.5 (D - T * 2) sorbant_M_tissu 0 (T + 7.5) 0 0 0 0;
     bx (W - T * 2) 4.5 (D - T * 2) sorbant_M_vapeur 0 (T + 11.5) 0 0 0 0;
     vgeo \<leftarrow> new_geometry (BoxGeometry W 0.35 (D + T * 2));
     vmat \<leftarrow> sorbant_M_vitre;
     vitreM \<leftarrow> addM vgeo vmat;
     vitreM \<leftarrow> modify vitreM (\<lambda>n. n\<lparr>position := (0, H_MOY, 0)\<rparr>);
     vitreM \<leftarrow> modify vitreM (set_rot_x (- ANGLE));
     edgeLine vitreM 0x88d8ff 0.9;
     for_each [- HW + T / 2, HW - T / 2] (\<lambda>xh. do {
       cy 1.2 (T + 1) sorbant_M_tringle xh H_AR (HD - 1) 0 (pi / 2);
       State_Monad.return ()
     });
     let gutY = H_AV + 0.4;
     let gutZ = - HD - 0.8;
     gout \<leftarrow> bx W 1.2 2.8 sorbant_M_canal 0 gutY gutZ 0 0 0;
     edgeLine gout 0x3bc8f8 0.7;
     let sx = - HW + 5;
     tgeo \<leftarrow> new_geometry (TubeGeometry
        [(sx, gutY - 1, gutZ), (sx, gutY - 6, gutZ - 1), (sx, gutY - 14, gutZ - 0.5)]
        12 1.0 10 False);
     tmat \<leftarrow> sorbant_M_tuyau;
     addM tgeo tmat;
     let panH = 6;
     let panY = gutY - 0.8 - panH / 2;
     let panZ = gutZ - 0.1;
     bx W panH (T * 0.7) sorbant_M_panneau 0 panY panZ 0 0 0;
     tex \<leftarrow> fresh;
     sgeo \<leftarrow> new_geometry (BoxGeometry 9 2.3 0.4);
     smat \<leftarrow> new_material ((material_defaults MeshBasicMaterial)
               \<lparr>map_tex := Some (CanvasTexture tex ''AQUA-ATMOS'')\<rparr>);
     scrMesh \<leftarrow> addM sgeo smat;
     modify scrMesh (\<lambda>n. n\<lparr>position := (16, panY + 0.5, panZ - 0.9)\<rparr>);
     bx 10 2.8 0.8 sorbant_M_oled 16 (panY + 0.3) (panZ - 0.6) 0 0 0;
     cy 1.0 1.5 sorbant_M_btnRouge 7 (panY + 0.5) (panZ - 1.0) (pi / 2) 0;
     cy 1.0 1.5 sorbant_M_btnVert 3 (panY + 0.5) (panZ - 1.0) (pi / 2) 0;
     let svX = HW + T + 0.2;
     let svY = H_AV - 4;
     let svZ = - HD + 6;
     bx 1.5 4 8 sorbant_M_servo svX svY svZ 0 0 0;
     cy 0.6 2 sorbant_M_tringle (svX - 1.0) (svY + 1) svZ 0 (pi / 2);
     bx 4 0.8 0.8 sorbant_M_tringle (svX - 2.5) (svY + 1) svZ 0 0 0.5;
     pgeo \<leftarrow> new_geometry (TubeGeometry
        [(svX - 4.5, svY + 2.5, svZ), (svX - 2, H_AV + 1, - HD + 2),
         (svX - 1.5, H_AV, - HD - 0.5)]
        8 0.4 8 False);
     pmat \<leftarrow> sorbant_M_tringle;
     addM pgeo pmat;
     cy 0.5 7.5 sorbant_M_ds18 (- 10) (T + 12) 3 0 0;
     bgeo \<leftarrow> new_geometry (SphereGeometry 0.7 12 8);
     bmat \<leftarrow> sorbant_M_ds18;
     bulb \<leftarrow> addM bgeo bmat;
     modify bulb (\<lambda>n. n\<lparr>position := (- 10, T + 8.5, 3)\<rparr>);
     bx 4 7 3 sorbant_M_dht22 12 (T + 12) 2 0 0 0;
     cy 0.8 1.2 sorbant_M_ldr (- HW - 0.3) (T + 2.5) (- HD + 4) 0 (pi / 2);
     bx 1.5 4 5 sorbant_M_dht22 (HW + T + 0.1) (H_AV * 0.6) (- HD + 16) 0 0 0;
     State_Monad.return ()
   })"

section \<open>peltier.js\<close>

definition H :: real where "H = 15"

definition peltier_M_boitier :: "material build" where
  "peltier_M_boitier = mat 0xc0cace 0.28 0.88 1"
definition peltier_M_coldFace :: "material build" where
  "peltier_M_coldFace = mat 0x1a7fd4 0.05 0.30 1"
definition peltier_M_hotFace :: "material build" where
  "peltier_M_hotFace = mat 0x3a1a00 0.55 0.10 1"
definition peltier_M_tec :: "material build" where
  "peltier_M_tec = mat 0xffffff 0.38 0.18 1"
definition peltier_M_fin :: "material build" where
  "peltier_M_fin = mat 0xd4dfe8 0.15 0.92 1"
definition peltier_M_fan :: "material build" where
  "peltier_M_fan = mat 0x1a2030 0.6 0.3 1"
definition peltier_M_fanBlade :: "material build" where
  "peltier_M_fanBlade = mat 0x5590cc 0.40 0.35 1"
definition peltier_M_vapeur :: "material build" where
  "peltier_M_vapeur = mat 0x7ad4f0 0.0 0.0 0.05"
definition peltier_M_floor :: "material build" where
  "peltier_M_floor = mat 0x8e9ca8 0.38 0.80 1"
definition peltier_M_canal :: "material build" where
  "peltier_M_canal = mat 0x1f8ec2 0.4 0.55 1"
definition peltier_M_tuyau :: "material build" where
  "peltier_M_tuyau = mat 0x2e86c1 0.45 0.50 0.85"
definition peltier_M_iso :: "material build" where
  "peltier_M_iso = mat 0x5a4a30 0.97 0.0 1"

text \<open>The two segments of one fan blade and one flow arrow of \<^verbatim>\<open>buildPeltier\<close>.\<close>

definition fan_blade :: "real \<Rightarrow> real \<Rightarrow> real \<Rightarrow> nat \<Rightarrow> unit build" where
  "fan_blade fx ifY ifZ i = do {
     let a = (real i / 6) * pi * 2;
     let sk = 0.52;
     rgeo \<leftarrow> new_geometry (BoxGeometry 0.88 1.05 0.20);
     rmat \<leftarrow> peltier_M_fanBlade;
     pr \<leftarrow> addM rgeo rmat;
     pr \<leftarrow> modify pr (\<lambda>n. n\<lparr>position := (fx, ifY + cos a * 1.05, ifZ + sin a * 1.05)\<rparr>);
     pr \<leftarrow> modify pr (set_rot_x (a + 0.28));
     modify pr (\<lambda>n. n\<lparr>castShadow := False\<rparr>);
     tgeo \<leftarrow> new_geometry (BoxGeometry 0.72 0.98 0.18);
     tmat \<leftarrow> peltier_M_fanBlade;
     pt \<leftarrow> addM tgeo tmat;
     pt \<leftarrow> modify pt (\<lambda>n. n\<lparr>position :=
             (fx, ifY + cos (a + sk) * 1.88, ifZ + sin (a + sk) * 1.88)\<rparr>);
     pt \<leftarrow> modify pt (set_rot_x (a + sk + 0.44));
     modify pt (\<lambda>n. n\<lparr>castShadow := False\<rparr>);
     State_Monad.return ()
   }"

definition flow_arrow :: "material \<Rightarrow> real \<Rightarrow> real \<Rightarrow> real \<Rightarrow> real \<Rightarrow> real \<Rightarrow> unit build" where
  "flow_arrow arrowMat fx sX ifR ifY dz = do {
     cgeo \<leftarrow> new_geometry (ConeGeometry 0.50 1.9 8);
     cone \<leftarrow> addM cgeo arrowMat;
     cone \<leftarrow> modify cone (\<lambda>n. n\<lparr>position := (fx - sX * (ifR + 2.0), ifY, dz)\<rparr>);
     cone \<leftarrow> modify cone (set_rot_z (sX * pi / 2));
     modify cone (\<lambda>n. n\<lparr>castShadow := False\<rparr>);
     State_Monad.return ()
   }"

definition peltier_fan :: "material \<Rightarrow> real \<Rightarrow> unit build" where
  "peltier_fan arrowMat sX = do {
     let ifR = 2.8;
     let ifY = T + ifR + 0.5;
     let ifX = HW - T - ifR - 0.4;
     let ifZ = 0;
     let fx = sX * ifX;
     cy (ifR + 0.65) 1.1 peltier_M_fan fx ifY ifZ 0 (pi / 2);
     cy (ifR + 0.65) 0.28 peltier_M_fan (fx - sX * 0.58) ifY ifZ 0 (pi / 2);
     cy (ifR + 0.65) 0.28 peltier_M_fan (fx + sX * 0.58) ifY ifZ 0 (pi / 2);
     cy 0.52 1.6 peltier_M_fan fx ifY ifZ 0 (pi / 2);
     for_each [0..<6] (fan_blade fx ifY ifZ);
     bx 1.5 0.45 (ifR * 2 + 1.2) peltier_M_fan fx (T + 0.22) ifZ 0 0 0;
     let legH = ifY - T - 0.45;
     let legY = T + 0.45 + legH / 2;
     bx 0.95 legH 0.50 peltier_M_fan fx legY (ifZ - ifR + 0.3) 0 0 0;
     bx 0.95 legH 0.50 peltier_M_fan fx legY (ifZ + ifR - 0.3) 0 0 0;
     for_each [- ifR * 0.65, 0, ifR * 0.65] (flow_arrow arrowMat fx sX ifR ifY)
   }"

definition peltier_tec :: "real \<Rightarrow> real \<Rightarrow> real \<Rightarrow> real \<Rightarrow> unit build" where
  "peltier_tec tecSz tecT tecY tz = do {
     tl \<leftarrow> bx tecT tecSz tecSz peltier_M_tec (- HW + T / 2) tecY tz 0 0 0;
     edgeLine tl 0xff6020 1.0;
     cfl \<leftarrow> bx 0.30 tecSz tecSz peltier_M_coldFace (- HW + T + 0.15) tecY tz 0 0 0;
     edgeLine cfl 0x1a7fd4 1.0;
     bx 0.25 tecSz tecSz peltier_M_hotFace (- HW + 0.12) tecY tz 0 0 0;
     bx 0.5 (tecSz + 0.5) (tecSz + 0.5) peltier_M_iso (- HW + T + 0.5) tecY tz 0 0 0;
     tr \<leftarrow> bx tecT tecSz tecSz peltier_M_tec (HW - T / 2) tecY tz 0 0 0;
     edgeLine tr 0xff6020 1.0;
     cfr \<leftarrow> bx 0.30 tecSz tecSz peltier_M_coldFace (HW - T - 0.15) tecY tz 0 0 0;
     edgeLine cfr 0x1a7fd4 1.0;
     bx 0.25 tecSz tecSz peltier_M_hotFace (HW - 0.12) tecY tz 0 0 0;
     bx 0.5 (tecSz + 0.5) (tecSz + 0.5) peltier_M_iso (HW - T - 0.5) tecY tz 0 0 0;
     State_Monad.return ()
   }"

definition peltier_fin :: "real \<Rightarrow> real \<Rightarrow> real \<Rightarrow> nat \<Rightarrow> unit build" where
  "peltier_fin finLen finBaseY finStep i = do {
     let zf = - HD + finStep * (real i + 0.5);
     bx finLen 0.28 0.28 peltier_M_fin (- (HW + 0.5 + finLen / 2)) (finBaseY + finLen / 2) zf
        0 0 (pi / 2);
     bx finLen 0.28 0.28 peltier_M_fin (HW + 0.5 + finLen / 2) (finBaseY + finLen / 2) zf
        0 0 (pi / 2);
     State_Monad.return ()
   }"

definition buildPeltier :: "obj build" where
  "buildPeltier = group ''peltier'' (do {
     base \<leftarrow> bx W T D peltier_M_floor 0 (T / 2) 0 0 0 0;
     edgeLine base 0x809ab0 0.55;
     bx W H T peltier_M_boitier 0 (H / 2) HD 0 0 0;
     bx T H D peltier_M_boitier (- HW + T / 2) (H / 2) 0 0 0 0;
     bx T H D peltier_M_boitier (HW - T / 2) (H / 2) 0 0 0 0;
     let tecSz = 5.5;
     let tecT = 1.4;
     let tecY = T + H * 0.38;
     let tecZs = [- HD * 0.42, HD * 0.42];
     for_each tecZs (peltier_tec tecSz tecT tecY);
     let N_FIN = (10::nat);
     let finLen = H * 0.65;
     let finBaseY = T + H * 0.18;
     let finStep = D / real N_FIN;
     for_each [0..<N_FIN] (peltier_fin finLen finBaseY finStep);
     bx 0.5 finLen D peltier_M_fin (- (HW + 0.35)) (finBaseY + finLen / 2) 0 0 0 0;
     bx 0.5 finLen D peltier_M_fin (HW + 0.35) (finBaseY + finLen / 2) 0 0 0 0;
     arrowMat \<leftarrow> new_material ((material_defaults MeshStandardMaterial)
                  \<lparr>color := 0x60c0ee, opacity := 0.60, transparent := True,
                   depthTest := False\<rparr>);
     for_each [- 1, 1] (peltier_fan arrowMat);
     bx (W - T * 2) (H - 1.5) (D - T * 2) peltier_M_vapeur 0 (T + (H - 1.5) / 2) 0 0 0 0;
     let gutW = W - T * 2;
     let gutY = T + 0.45;
     let gutZ = 0;
     gout \<leftarrow> bx gutW 0.85 (D - T * 2) peltier_M_canal 0 gutY gutZ 0 0 0;
     edgeLine gout 0x3bc8f8 0.55;
     slope \<leftarrow> bx (gutW / 2) 0.18 (D - T * 2 - 0.5) peltier_M_canal (- gutW / 4) (gutY - 0.28)
                gutZ 0 0 0;
     modify slope (set_rot_z 0.1);
     let sx = - HW + 5;
     tgeo \<leftarrow> new_geometry (TubeGeometry
        [(sx, gutY - 0.3, - HD + 3), (sx, gutY - 0.8, - HD - 1), (sx, gutY - 1.6, - HD - 4)]
        8 0.8 10 False);
     tmat \<leftarrow> peltier_M_tuyau;
     addM tgeo tmat;
     State_Monad.return ()
   })"

section \<open>filtration.js\<close>

definition filtration_M_base :: "material build" where
  "filtration_M_base = mat 0xb0bec5 0.55 0.65 1"
definition filtration_M_canBlc :: "material build" where
  "filtration_M_canBlc = mat 0xdce8f0 0.50 0.05 1"
definition filtration_M_canNoir :: "material build" where
  "filtration_M_canNoir = mat 0x2a2a2a 0.88 0.05 1"
definition filtration_M_canBei :: "material build" where
  "filtration_M_canBei = mat 0xe8dcc8 0.60 0.05 1"
definition filtration_M_cap :: "material build" where
  "filtration_M_cap = mat 0x8aaabb 0.35 0.65 1"
definition filtration_M_tuyau :: "material build" where
  "filtration_M_tuyau = mat 0x2e86c1 0.45 0.50 0.88"
definition filtration_M_tds :: "material build" where
  "filtration_M_tds = mat 0x1a1a1a 0.50 0.20 1"
definition filtration_M_tdsProbe :: "material build" where
  "filtration_M_tdsProbe = mat 0xd4af37 0.25 0.80 1"
definition filtration_M_flowMeter :: "material build" where
  "filtration_M_flowMeter = mat 0x2980b9 0.40 0.55 1"
definition filtration_M_uvInox :: "material build" where
  "filtration_M_uvInox = mat 0xd4dfe8 0.22 0.78 1"
definition filtration_M_uvWin :: "material build" where
  "filtration_M_uvWin = mat 0x7ec8e3 0.05 0.05 0.55"
definition filtration_M_uvLed :: "material build" where
  "filtration_M_uvLed = mat 0xbbdefb 0.10 0.00 0.92"
definition filtration_M_reserBody :: "material build" where
  "filtration_M_reserBody = mat 0x80cbc4 0.08 0.05 0.38"
definition filtration_M_reserEdge :: "material build" where
  "filtration_M_reserEdge = mat 0x4db6ac 0.12 0.08 0.58"
definition filtration_M_eau :: "material build" where
  "filtration_M_eau = mat 0x1565c0 0.00 0.00 0.28"
definition filtration_M_couv :: "material build" where
  "filtration_M_couv = mat 0x78909c 0.50 0.60 1"
definition filtration_M_hcPcb :: "material build" where
  "filtration_M_hcPcb = mat 0x1565c0 0.60 0.15 1"
definition filtration_M_hcCyl :: "material build" where
  "filtration_M_hcCyl = mat 0xf5f5f5 0.70 0.05 1"
definition filtration_M_robinet :: "material build" where
  "filtration_M_robinet = mat 0xc0c0c0 0.28 0.80 1"
definition filtration_M_label :: "material build" where
  "filtration_M_label = mat 0xffffff 0.95 0.00 1"
definition filtration_M_collier :: "material build" where
  "filtration_M_collier = mat 0x8e9ca8 0.30 0.80 1"

record can =
  can_x :: real
  can_baseY :: real
  can_H :: real
  can_R :: real
  raccordY :: real

definition mkCan :: "real \<Rightarrow> material build \<Rightarrow> can build" where
  "mkCan x bodyMat = do {
     let R = 1.6; let H = 9.0; let BY = 1.2;
     body \<leftarrow> cy R H bodyMat x (BY + H / 2) 0 0 0;
     edgeLine body 0x78909c 0.60;
     cap \<leftarrow> cy (R + 0.25) 0.7 filtration_M_cap x (BY + H + 0.35) 0 0 0;
     edgeLine cap 0x546e7a 0.60;
     cy (R + 0.25) 0.7 filtration_M_cap x (BY - 0.35) 0 0 0;
     cy 0.48 1.8 filtration_M_cap (x - 0.9) (BY + H + 1.25) 0 0 0;
     cy 0.48 1.8 filtration_M_cap (x + 0.9) (BY + H + 1.25) 0 0 0;
     bx (R * 1.5) (H * 0.35) 0.15 filtration_M_label x (BY + H * 0.55) (- R + 0.08) 0 0 0;
     State_Monad.return
       \<lparr>can_x = x, can_baseY = BY, can_H = H, can_R = R, raccordY = BY + H + 2.15\<rparr>
   }"

definition mkUVC :: "real \<Rightarrow> real \<Rightarrow> real build" where
  "mkUVC x pipeY = do {
     let L = 6.5; let R = 1.2;
     inox \<leftarrow> cy R L filtration_M_uvInox x pipeY 0 0 (pi / 2);
     edgeLine inox 0x607d8b 0.72;
     cy (R + 0.04) (L * 0.50) filtration_M_uvWin x pipeY 0 0 (pi / 2);
     cy 0.42 (L * 0.45) filtration_M_uvLed x pipeY 0 0 (pi / 2);
     cy (R + 0.10) 0.8 filtration_M_cap (x - L / 2 - 0.4) pipeY 0 0 (pi / 2);
     cy (R + 0.10) 0.8 filtration_M_cap (x + L / 2 + 0.4) pipeY 0 0 (pi / 2);
     State_Monad.return (x + L / 2 + 0.9)
   }"

definition filtration_foot :: "real \<times> real \<Rightarrow> unit build" where
  "filtration_foot = (\<lambda>(sx, sz). do {
     cy 0.5 2.8 filtration_M_base (sx * 23) 1.4 (sz * 16) 0 0;
     State_Monad.return ()
   })"

definition filtration_hc :: "real \<Rightarrow> real \<Rightarrow> real \<Rightarrow> real \<Rightarrow> real \<Rightarrow> unit build" where
  "filtration_hc RX BY RH RZ dz = do {
     cy 0.65 1.0 filtration_M_hcCyl (RX + 2.2) (BY + RH + 1.5) (RZ + dz) 0 0;
     cy 0.65 1.0 filtration_M_hcCyl (RX + 3.8) (BY + RH + 1.5) (RZ + dz) 0 0;
     State_Monad.return ()
   }"

definition buildFiltration :: "obj build" where
  "buildFiltration = group ''filtration'' (do {
     plate \<leftarrow> bx 50 1.2 36 filtration_M_base 0 0.6 0 0 0 0;
     edgeLine plate 0x546e7a 0.55;
     for_each [(- 1, - 1), (1, - 1), (- 1, 1), (1, 1)] filtration_foot;
     let pipeY = 12.5;
     let fmX = - 22;
     fm \<leftarrow> cy 1.4 4.0 filtration_M_flowMeter fmX pipeY 0 0 (pi / 2);
     edgeLine fm 0x1a5f8a 0.80;
     cy 0.6 3.2 filtration_M_tuyau fmX pipeY 0 0 (pi / 2);
     let tdsX = - 17;
     tds \<leftarrow> cy 1.2 4.5 filtration_M_tds tdsX pipeY 0 0 (pi / 2);
     edgeLine tds 0x333333 0.80;
     for_each [- 0.7, 0.7] (\<lambda>ex. do {
       cy 1.08 0.28 filtration_M_tdsProbe (tdsX + ex) pipeY 0 0 (pi / 2);
       State_Monad.return ()
     });
     c1 \<leftarrow> mkCan (- 12) filtration_M_canBlc;
     c2 \<leftarrow> mkCan (- 6) filtration_M_canNoir;
     c3 \<leftarrow> mkCan 0 filtration_M_canBei;
     uvcExitX \<leftarrow> mkUVC 6 pipeY;
     let RX = 16; let RW = 16; let RH = 13; let RD = 14; let RZ = - 11; let BY = 1.2;
     bx RW RH RD filtration_M_reserBody RX (BY + RH / 2) RZ 0 0 0;
     redge \<leftarrow> bx RW RH RD filtration_M_reserEdge RX (BY + RH / 2) RZ 0 0 0;
     edgeLine redge 0x26a69a 0.72;
     bx (RW - 0.5) (RH * 0.60) (RD - 0.5) filtration_M_eau RX (BY + RH * 0.30) RZ 0 0 0;
     couv \<leftarrow> bx RW 0.6 RD filtration_M_couv RX (BY + RH + 0.3) RZ 0 0 0;
     edgeLine couv 0x546e7a 0.60;
     cy 0.52 1.6 filtration_M_cap (RX - RW / 2 + 1.5) (BY + RH + 1.1) RZ 0 0;
     pcb \<leftarrow> bx 3.6 0.35 1.5 filtration_M_hcPcb (RX + 3) (BY + RH + 0.7) RZ 0 0 0;
     edgeLine pcb 0x0d47a1 0.75;
     for_each [- 0.5, 0.5] (filtration_hc RX BY RH RZ);
     let robZ = RZ - RD / 2 - 1.5;
     let robY = BY + 3.0;
     cy 0.80 3.0 filtration_M_robinet RX robY robZ (pi / 2) 0;
     bx 0.45 3.5 0.45 filtration_M_robinet RX (robY + 1.5) (robZ - 0.8) 0 0 0.4;
     pipe [(RX, robY, robZ - 1.6), (RX, robY - 1.2, robZ - 3.2), (RX, robY - 3.0, robZ - 4.8)]
       0.48;
     pipe [(- 25, pipeY, 0), (fmX - 2.1, pipeY, 0)] 0.55;
     pipe [(fmX + 2.1, pipeY, 0), (tdsX - 1.5, pipeY, 0)] 0.55;
     pipe [(tdsX + 1.5, pipeY, 0), (can_x c1 - 0.9, pipeY, 0),
           (can_x c1 - 0.9, raccordY c1, 0)] 0.55;
     pipe [(can_x c1 + 0.9, raccordY c1, 0), (can_x c1 + 0.9, pipeY + 1.4, 0),
           (can_x c2 - 0.9, pipeY + 1.4, 0), (can_x c2 - 0.9, raccordY c2, 0)] 0.55;
     pipe [(can_x c2 + 0.9, raccordY c2, 0), (can_x c2 + 0.9, pipeY + 1.4, 0),
           (can_x c3 - 0.9, pipeY + 1.4, 0), (can_x c3 - 0.9, raccordY c3, 0)] 0.55;
     pipe [(can_x c3 + 0.9, raccordY c3, 0), (can_x c3 + 0.9, pipeY, 0),
           (6 - 3.7, pipeY, 0)] 0.55;
     let entryX = RX - RW / 2 + 1.5;
     pipe [(uvcExitX, pipeY, 0), (entryX + 4, pipeY, RZ * 0.4),
           (entryX + 4, BY + RH + 2.0, RZ), (entryX, BY + RH + 1.1, RZ)] 0.55;
     for_each [- 24, - 19, - 14, - 8, - 2, 4, 12] (\<lambda>cx. do {
       cy 1.1 0.6 filtration_M_collier cx pipeY 0 0 (pi / 2);
       State_Monad.return ()
     })
   })"

section \<open>assemblage.js\<close>

definition Y_ELEC :: real where "Y_ELEC = 0"
definition Y_FILTR :: real where "Y_FILTR = 11"
definition Y_PELTIER :: real where "Y_PELTIER = 33"
definition Y_SORBANT :: real where "Y_SORBANT = 50"

text \<open>A field assignment on an object that is not yet a child of any parent.\<close>

definition set_attrs :: "(node \<Rightarrow> node) \<Rightarrow> obj \<Rightarrow> obj" where
  "set_attrs f ob = Obj (f (attrs ob)) (children ob)"

definition buildElec :: "unit build" where
  "buildElec = do {
     let EW = 50; let EH = 10; let ED = 40;
     let EY = EH / 2;
     let T = 0.5;
     acryl \<leftarrow> mat 0xc8dff0 0.04 0.00 0.13;
     acrylFront \<leftarrow> mat 0xc8dff0 0.04 0.00 0.10;
     front \<leftarrow> bx EW EH T (State_Monad.return acrylFront) 0 EY (- ED / 2) 0 0 0;
     edgeLine front 0x90a4ae 0.95;
     back \<leftarrow> bx EW EH T (State_Monad.return acryl) 0 EY (ED / 2) 0 0 0;
     edgeLine back 0x90a4ae 0.70;
     bx T EH ED (State_Monad.return acryl) (- EW / 2) EY 0 0 0 0;
     bx T EH ED (State_Monad.return acryl) (EW / 2) EY 0 0 0 0;
     bx EW T ED (mat 0x37474f 0.65 0.70 1) 0 (T / 2) 0 0 0 0;
     bx EW T ED (State_Monad.return acryl) 0 (EH - T / 2) 0 0 0 0;
     pipeMat \<leftarrow> new_material ((material_defaults MeshStandardMaterial)
                 \<lparr>color := 0xf4d03f, roughness := 0.5, metalness := 0.4\<rparr>);
     sgeo \<leftarrow> new_geometry (TubeGeometry
        [(- EW / 2 + 1, EY + 2, 2), (- 18, EY + 2.5, 2), (- 10, EY + 2.5, - 4),
         (4, EY + 1.5, - 7)]
        12 0.28 8 False);
     si \<leftarrow> fresh;
     add (Obj (object3d si (MeshB sgeo pipeMat)) []);
     batt \<leftarrow> bx 15 8 6.5 (mat 0x1a1a1a 0.88 0.05 1) (- 13) EY 0 0 0 0;
     edgeLine batt 0x424242 0.65;
     cy 0.55 1.0 (mat 0xd4af37 0.22 0.85 1) (- 15.5) (EH - 0.2) 0 (pi / 2) 0;
     cy 0.55 1.0 (mat 0xc0392b 0.22 0.85 1) (- 10.5) (EH - 0.2) 0 (pi / 2) 0;
     pcb \<leftarrow> bx 20 0.35 13 (mat 0x2e7d32 0.65 0.15 1) 8 (EY + 1.5) 0 0 0 0;
     edgeLine pcb 0x388e3c 0.70;
     for_each [0..<4] (\<lambda>i. do {
       bx 1.6 1.2 1.2 (mat 0x01579b 0.55 0.30 1) (- 2 + real i * 3.5) (EY + 2.4) 2.5 0 0 0;
       State_Monad.return ()
     });
     bx 5.5 0.4 3.3 (mat 0x37474f 0.55 0.50 1) 10 (EY + 2.3) (- 3.0) 0 0 0;
     mppt \<leftarrow> bx 7 4.5 5 (mat 0xb71c1c 0.65 0.20 1) 4 EY (- 8) 0 0 0;
     edgeLine mppt 0xe53935 0.70;
     for_each [0..<3] (\<lambda>i. do {
       bx 0.7 0.7 0.3 (mat ([0x43a047, 0xfdd835, 0xef5350] ! i) 0.10 0.00 0.95)
          (- 8 + real i * 3.0) EY (- (ED / 2 - 0.4)) 0 0 0;
       State_Monad.return ()
     });
     pipe [(0, 0, - 14), (2, - 2, - 16), (4, - 3.5, - 18)] 0.32
   }"

definition buildPanneau :: "unit build" where
  "buildPanneau = do {
     let PX = - 68; let PY = Y_ELEC + 8; let PZ = 0;
     frame \<leftarrow> bx 54 34 1.5 (mat 0xb0bec5 0.40 0.80 1) PX (PY + 17) PZ 0 0 0;
     edgeLine frame 0x78909c 0.70;
     for_each [0..<3] (\<lambda>row. for_each [0..<5] (\<lambda>col. do {
       bx 9.5 6.0 0.4 (mat 0x1a237e 0.15 0.20 1)
          (PX - 18 + real col * 10.2) (PY + 5 + real row * 8.0) (PZ - 0.6) 0 0 0;
       State_Monad.return ()
     }));
     bx 5 2.5 1.8 (mat 0x212121 0.80 0.10 1) PX PY (PZ - 1.2) 0 0 0;
     pipe [(PX + 27, PY + 10, PZ), (PX + 42, PY + 4, 6), (- 22, Y_ELEC + 4, 8),
           (- 22, Y_ELEC + 2, 0)] 0.35;
     for_each [1, - 1] (\<lambda>sx. do {
       bx 1.5 20 1.5 (mat 0x9eaab5 0.50 0.70 1) (PX + sx * 20) (PY + 8) (PZ + 0.8) 0.3 0 0;
       State_Monad.return ()
     })
   }"

definition R_INTER :: real where "R_INTER = 0.60"

definition buildFluxEau :: "unit build" where
  "buildFluxEau = do {
     let SX = - 20; let SY = Y_SORBANT + 4.4; let SZ = - 21.3;
     let PX = - 20; let PY = Y_PELTIER + 0.85; let PZ = - 24;
     let JX = - 24; let JY = Y_PELTIER - 8; let JZ = - 20;
     let FX = - 25; let FY = Y_FILTR + 12.5; let FZ = 0;
     pipe [(SX, SY, SZ), (SX, Y_PELTIER + 8, SZ), (SX, PY + 2, SZ), (JX, JY, JZ)] R_INTER;
     pipe [(PX, PY, PZ), (PX, PY, JZ + 2), (JX, JY, JZ)] R_INTER;
     fitMat \<leftarrow> mat 0xcfd8dc 0.18 0.90 1;
     colMat \<leftarrow> mat 0x90a4ae 0.22 0.85 1;
     let R_FIT = R_INTER * 1.55;
     let R_IN = R_INTER * 0.85;
     vgeo \<leftarrow> new_geometry (CylinderGeometry R_FIT R_FIT (R_INTER * 6) 16);
     vi \<leftarrow> fresh;
     add (Obj ((object3d vi (MeshB vgeo fitMat))\<lparr>position := (JX, JY, JZ)\<rparr>) []);
     for_each [- R_INTER * 2.8, R_INTER * 2.8] (\<lambda>dy. do {
       cgeo \<leftarrow> new_geometry (CylinderGeometry (R_FIT + 0.3) (R_FIT + 0.3) 0.7 16);
       ci \<leftarrow> fresh;
       add (Obj ((object3d ci (MeshB cgeo colMat))\<lparr>position := (JX, JY + dy, JZ)\<rparr>) [])
     });
     hgeo \<leftarrow> new_geometry (CylinderGeometry R_FIT R_FIT (R_INTER * 5) 16);
     hi \<leftarrow> fresh;
     add (Obj ((set_rot_z (pi / 2) (object3d hi (MeshB hgeo fitMat)))
               \<lparr>position := (JX + R_INTER * 2, JY, JZ)\<rparr>) []);
     bgeo \<leftarrow> new_geometry (CylinderGeometry (R_FIT + 0.3) (R_FIT + 0.3) 0.7 16);
     bi \<leftarrow> fresh;
     add (Obj ((set_rot_z (pi / 2) (object3d bi (MeshB bgeo colMat)))
               \<lparr>position := (JX + R_INTER * 4, JY, JZ)\<rparr>) []);
     lgeo \<leftarrow> new_geometry (CylinderGeometry R_IN R_IN (R_INTER * 7) 12);
     lmat \<leftarrow> mat 0x1a3a4a 0.1 0.0 0.40;
     li \<leftarrow> fresh;
     add (Obj ((object3d li (MeshB lgeo lmat))\<lparr>position := (JX, JY, JZ)\<rparr>) []);
     pipe [(JX, JY, JZ), (FX, FY + 4, JZ * 0.4), (FX, FY, FZ)] R_INTER
   }"

text \<open>
  The accented capital E of the two label texts is written as its two UTF-8 bytes.
\<close>

definition buildAssemblage :: "obj build" where
  "buildAssemblage = group ''assemblage'' (do {
     buildElec;
     filtr \<leftarrow> buildFiltration;
     add (set_attrs (\<lambda>n. n\<lparr>position := (0, Y_FILTR, 0)\<rparr>) filtr);
     peltier \<leftarrow> buildPeltier;
     add (set_attrs (\<lambda>n. n\<lparr>position := (0, Y_PELTIER, 0)\<rparr>) peltier);
     sorbant \<leftarrow> buildSorbant;
     add (set_attrs (\<lambda>n. n\<lparr>position := (0, Y_SORBANT, 0)\<rparr>) sorbant);
     buildPanneau;
     buildFluxEau;
     labelSprite ''SORBANT'' 0 (Y_SORBANT + 30) 32 ''#d4a843'' 32;
     labelSprite ''PELTIER TEC'' 0 (Y_PELTIER + 22) 32 ''#4ab8e8'' 32;
     labelSprite (''FILTRATION + R'' @ [CHR 0xC3, CHR 0x89] @ ''SERVOIR'')
       0 (Y_FILTR + 22) 28 ''#4db6ac'' 50;
     labelSprite ([CHR 0xC3, CHR 0x89] @ ''LECTRONIQUE'') 0 (Y_ELEC + 8) 28 ''#78909c'' 32
   })"

section \<open>main.js: the scene and the view controller\<close>

text \<open>
  The camera and its \<^verbatim>\<open>OrbitControls\<close>. \<^verbatim>\<open>controls.update()\<close> and \<^verbatim>\<open>camera.lookAt\<close> belong
  to three.js; the model takes them as the parameters \<open>update\<close> and \<open>lookAt\<close>.
\<close>

record controls =
  cam_position :: vec3
  cam_quaternion :: quat
  target :: vec3
  enableDamping :: bool
  dampingFactor :: real
  minDistance :: real
  maxDistance :: real
  maxPolarAngle :: real
  autoRotate :: bool
  autoRotateSpeed :: real

record lib =
  update :: "controls \<Rightarrow> controls"
  lookAt :: "vec3 \<Rightarrow> vec3 \<Rightarrow> quat"

text \<open>
  The controller state. The scene's children are \<open>scene_rest\<close> (lights, ground, grid)
  followed by the four module groups; a module group is kept once, under its key in
  \<open>modules\<close>, which stands for both \<^verbatim>\<open>scene.children\<close> and the \<^verbatim>\<open>modules\<close> object
  that refer to the same groups. \<open>proto_visible\<close> is the property \<^verbatim>\<open>visible\<close> of
  \<^verbatim>\<open>Object.prototype\<close> (absent when the page loads) and \<open>builtin_visible\<close> the methods of
  \<^verbatim>\<open>Object.prototype\<close> that carry a property \<^verbatim>\<open>visible\<close>: \<^verbatim>\<open>switchModule\<close> can write both.
  Writes to the host page (button classes, legend panels) are outside the state.
\<close>

record view_state =
  scene_rest :: "obj list"
  modules :: "(string \<times> obj) list"
  activeModule :: string
  wireOn :: bool
  autoRot :: bool
  controls :: controls
  t :: real
  proto_visible :: "bool option"
  builtin_visible :: "string set"

definition light :: "vec3 \<Rightarrow> bool \<Rightarrow> unit build" where
  "light pos shadow = do {
     i \<leftarrow> fresh;
     add (Obj ((object3d i LightB)\<lparr>position := pos, castShadow := shadow\<rparr>) [])
   }"

definition SOL_SIZE :: real where "SOL_SIZE = 2000"

definition main_scene :: "lib \<Rightarrow> view_state build" where
  "main_scene l = do {
     let camera = \<lparr>cam_position = (95, 55, 95),
                   cam_quaternion = lookAt l (95, 55, 95) (0, 7, 0),
                   target = (0, 7, 0), enableDamping = True, dampingFactor = 0.07,
                   minDistance = 40, maxDistance = 500, maxPolarAngle = pi * 0.88,
                   autoRotate = False, autoRotateSpeed = 2.0\<rparr>;
     let ctl = update l camera;
     light (0, 0, 0) False;
     light (120, 200, 120) True;
     light (- 100, 80, - 80) False;
     light (0, 20, - 200) False;
     light (0, 5, - 120) False;
     light (0, 30, 80) False;
     light (0, 7, 0) False;
     sgeo \<leftarrow> new_geometry (PlaneGeometry SOL_SIZE SOL_SIZE);
     smat \<leftarrow> new_material ((material_defaults MeshStandardMaterial)
              \<lparr>color := 0xd0d8e4, roughness := 0.95, metalness := 0.0\<rparr>);
     si \<leftarrow> fresh;
     add (Obj ((set_rot_x (- pi / 2) (object3d si (MeshB sgeo smat)))
               \<lparr>position := (0, - 0.5, 0), receiveShadow := True\<rparr>) []);
     gi \<leftarrow> fresh;
     add (Obj ((object3d gi GridHelperB)\<lparr>position := (0, - 0.48, 0)\<rparr>) []);
     peltier \<leftarrow> buildPeltier;
     let peltier = set_attrs (\<lambda>n. n\<lparr>position := (0, 0, 0)\<rparr>) peltier;
     sorbant \<leftarrow> buildSorbant;
     let sorbant = set_attrs (\<lambda>n. n\<lparr>position := (0, 0, 0)\<rparr>) sorbant;
     let sorbant = set_attrs (\<lambda>n. n\<lparr>visible := False\<rparr>) sorbant;
     filtration \<leftarrow> buildFiltration;
     let filtration = set_attrs (\<lambda>n. n\<lparr>position := (0, 0, 0)\<rparr>) filtration;
     let filtration = set_attrs (\<lambda>n. n\<lparr>visible := False\<rparr>) filtration;
     assemblage \<leftarrow> buildAssemblage;
     let assemblage = set_attrs (\<lambda>n. n\<lparr>position := (0, 0, 0)\<rparr>) assemblage;
     let assemblage = set_attrs (\<lambda>n. n\<lparr>visible := False\<rparr>) assemblage;
     rest \<leftarrow> State_Monad.get;
     State_Monad.return
       \<lparr>scene_rest = rev (kids rest),
        modules = [(''peltier'', peltier), (''sorbant'', sorbant),
                   (''filtration'', filtration), (''assemblage'', assemblage)],
        activeModule = ''peltier'', wireOn = False, autoRot = False, controls = ctl, t = 0,
        proto_visible = None, builtin_visible = {}\<rparr>
   }"

definition init :: "lib \<Rightarrow> view_state" where
  "init l = fst (run_state (main_scene l) \<lparr>next_id = 0, kids = []\<rparr>)"

text \<open>
  \<^verbatim>\<open>modules[name]\<close>. \<^verbatim>\<open>modules\<close> is an object literal, so a name that is not one of its
  own keys is looked up on \<^verbatim>\<open>Object.prototype\<close>: \<^verbatim>\<open>__proto__\<close> gives the prototype object
  itself, the name of one of its methods gives that function, \<^verbatim>\<open>visible\<close> gives what
  \<^verbatim>\<open>switchModule\<close> has stored there, and any other name gives \<^verbatim>\<open>undefined\<close>.
\<close>

definition object_prototype_props :: "string list" where
  "object_prototype_props =
     [''constructor'', ''__defineGetter__'', ''__defineSetter__'', ''hasOwnProperty'',
      ''__lookupGetter__'', ''__lookupSetter__'', ''isPrototypeOf'',
      ''propertyIsEnumerable'', ''toString'', ''valueOf'', ''__proto__'',
      ''toLocaleString'']"

datatype js_value = Own obj | ObjectPrototype | Builtin string | Boolean bool | Undefined

definition get_prop :: "(string \<times> obj) list \<Rightarrow> bool option \<Rightarrow> string \<Rightarrow> js_value" where
  "get_prop ms pv nm =
     (case map_of ms nm of
        Some ob \<Rightarrow> Own ob
      | None \<Rightarrow>
          if nm = ''__proto__'' then ObjectPrototype
          else if nm \<in> set object_prototype_props then Builtin nm
          else if nm = ''visible'' then (case pv of Some b \<Rightarrow> Boolean b | None \<Rightarrow> Undefined)
          else Undefined)"

datatype js_error = TypeError

text \<open>
  \<^verbatim>\<open>o.traverse(callback)\<close> for a callback that assigns fields of the visited object:
  the object itself, then its children in order.
\<close>

fun traverse :: "(node \<Rightarrow> node) \<Rightarrow> obj \<Rightarrow> obj" where
  "traverse f (Obj n cs) = Obj (f n) (map (traverse f) cs)"

fun set_wireframe :: "bool \<Rightarrow> body \<Rightarrow> body" where
  "set_wireframe w (MeshB g m) = MeshB g (m\<lparr>wireframe := w\<rparr>)"
| "set_wireframe w b = b"

definition apply_wire :: "bool \<Rightarrow> node \<Rightarrow> node" where
  "apply_wire w n = (if isMesh n \<and> \<not> isLabel n then n\<lparr>body := set_wireframe w (body n)\<rparr> else n)"

definition map_modules :: "(obj \<Rightarrow> obj) \<Rightarrow> (string \<times> obj) list \<Rightarrow> (string \<times> obj) list" where
  "map_modules f ms = map (\<lambda>(k, ob). (k, f ob)) ms"

definition upd_module ::
  "string \<Rightarrow> (obj \<Rightarrow> obj) \<Rightarrow> (string \<times> obj) list \<Rightarrow> (string \<times> obj) list" where
  "upd_module nm f ms = map (\<lambda>(k, ob). if k = nm then (k, f ob) else (k, ob)) ms"

text \<open>
  \<^verbatim>\<open>switchModule(name)\<close>. The guard returns for a falsy \<^verbatim>\<open>modules[name]\<close>. Otherwise every
  module group is hidden, then \<^verbatim>\<open>modules[name].visible = true\<close> is written to whatever the
  lookup gave: a module group, \<^verbatim>\<open>Object.prototype\<close>, one of its methods, or the boolean
  \<^verbatim>\<open>true\<close>, on which the assignment throws (the file is a module, hence strict code).
  For a value that is not a module group, \<^verbatim>\<open>modules[name].traverse\<close> is not a function and
  the call throws there, before the camera is touched.
\<close>

definition switchModule :: "lib \<Rightarrow> view_state \<Rightarrow> string \<Rightarrow> view_state \<times> js_error option" where
  "switchModule l s nm =
     (case get_prop (modules s) (proto_visible s) nm of
        Undefined \<Rightarrow> (s, None)
      | Boolean b \<Rightarrow>
          if b
          then (s\<lparr>modules := map_modules (set_attrs (\<lambda>n. n\<lparr>visible := False\<rparr>)) (modules s)\<rparr>,
                Some TypeError)
          else (s, None)
      | ObjectPrototype \<Rightarrow>
          (s\<lparr>modules := map_modules (set_attrs (\<lambda>n. n\<lparr>visible := False\<rparr>)) (modules s),
             activeModule := nm, proto_visible := Some True\<rparr>,
           Some TypeError)
      | Builtin f \<Rightarrow>
          (s\<lparr>modules := map_modules (set_attrs (\<lambda>n. n\<lparr>visible := False\<rparr>)) (modules s),
             activeModule := nm, builtin_visible := insert f (builtin_visible s)\<rparr>,
           Some TypeError)
      | Own _ \<Rightarrow>
          (let ms1 = map_modules (set_attrs (\<lambda>n. n\<lparr>visible := False\<rparr>)) (modules s);
               ms2 = upd_module nm (set_attrs (\<lambda>n. n\<lparr>visible := True\<rparr>)) ms1;
               ms3 = upd_module nm (traverse (apply_wire (wireOn s))) ms2;
               c = (if nm = ''assemblage''
                    then (controls s)\<lparr>cam_position := (170, 105, 170), target := (0, 40, 0)\<rparr>
                    else (controls s)\<lparr>cam_position := (95, 55, 95), target := (0, 7, 0)\<rparr>)
           in (s\<lparr>modules := ms3, activeModule := nm, controls := update l c\<rparr>, None)))"

definition toggleWire :: "view_state \<Rightarrow> view_state" where
  "toggleWire s =
     (let w = \<not> wireOn s
      in s\<lparr>wireOn := w,
           scene_rest := map (traverse (apply_wire w)) (scene_rest s),
           modules := map_modules (traverse (apply_wire w)) (modules s)\<rparr>)"

definition toggleRot :: "view_state \<Rightarrow> view_state" where
  "toggleRot s =
     (let a = \<not> autoRot s
      in s\<lparr>autoRot := a,
           controls := (controls s)\<lparr>autoRotate := a, autoRotateSpeed := 1.2\<rparr>\<rparr>)"

definition resetView :: "lib \<Rightarrow> view_state \<Rightarrow> view_state" where
  "resetView l s =
     s\<lparr>controls := update l ((controls s)\<lparr>cam_position := (100, 60, 100), target := (0, 7, 0)\<rparr>)\<rparr>"

text \<open>One frame of \<^verbatim>\<open>animate\<close>; the light pulsation and the draw call are not in the state.\<close>

definition face_camera :: "quat \<Rightarrow> node \<Rightarrow> node" where
  "face_camera q n = (if isLabel n then n\<lparr>quaternion := q\<rparr> else n)"

definition animate :: "lib \<Rightarrow> view_state \<Rightarrow> view_state" where
  "animate l s =
     (let q = cam_quaternion (controls s)
      in s\<lparr>t := t s + 0.016,
           scene_rest := map (traverse (face_camera q)) (scene_rest s),
           modules := map_modules (traverse (face_camera q)) (modules s),
           controls := update l (controls s)\<rparr>)"

text \<open>
  A pointer or wheel gesture on the canvas: \<^verbatim>\<open>OrbitControls\<close> moves the camera and the
  orbit target.
\<close>

definition gesture :: "vec3 \<Rightarrow> quat \<Rightarrow> vec3 \<Rightarrow> view_state \<Rightarrow> view_state" where
  "gesture p q tg s =
     s\<lparr>controls := (controls s)\<lparr>cam_position := p, cam_quaternion := q, target := tg\<rparr>\<rparr>"

text \<open>
  The states the page can reach: the four entry points, with any argument, frames, and
  gestures on the canvas.
\<close>

inductive reachable :: "lib \<Rightarrow> view_state \<Rightarrow> bool" for l :: lib where
  reach_init: "reachable l (init l)"
| reach_switch: "reachable l s \<Longrightarrow> reachable l (fst (switchModule l s nm))"
| reach_wire: "reachable l s \<Longrightarrow> reachable l (toggleWire s)"
| reach_rot: "reachable l s \<Longrightarrow> reachable l (toggleRot s)"
| reach_reset: "reachable l s \<Longrightarrow> reachable l (resetView l s)"
| reach_frame: "reachable l s \<Longrightarrow> reachable l (animate l s)"
| reach_gesture: "reachable l s \<Longrightarrow> reachable l (gesture p q tg s)"

section \<open>Observations used by the properties\<close>

text \<open>The keys of the module groups that are visible, in key order.\<close>

definition visible_modules :: "view_state \<Rightarrow> string list" where
  "visible_modules s = map fst (filter (\<lambda>(k, ob). visible (attrs ob)) (modules s))"

text \<open>The objects a traversal visits, in visiting order, and those of the whole scene.\<close>

fun nodes :: "obj \<Rightarrow> node list" where
  "nodes (Obj n cs) = n # concat (map nodes cs)"

definition scene_nodes :: "view_state \<Rightarrow> node list" where
  "scene_nodes s = concat (map nodes (scene_rest s @ map snd (modules s)))"

text \<open>A drawable primitive that is not a label, and its material's wireframe flag.\<close>

definition drawable :: "node \<Rightarrow> bool" where
  "drawable n = (isMesh n \<and> \<not> isLabel n)"

definition wireframe_of :: "node \<Rightarrow> bool option" where
  "wireframe_of n = (case body n of MeshB g m \<Rightarrow> Some (wireframe m) | _ \<Rightarrow> None)"

definition wire_flags :: "view_state \<Rightarrow> bool option list" where
  "wire_flags s = map wireframe_of (filter drawable (scene_nodes s))"

text \<open>What a label shows: its body (geometry and material), or nothing for other objects.\<close>

definition label_body :: "node \<Rightarrow> body option" where
  "label_body n = (if isLabel n then Some (body n) else None)"

text \<open>
  Winding of an indexed triangle mesh: a triangle \<open>(a, b, c)\<close> faces away from an
  interior point \<open>p\<close> when its normal \<open>(b - a) \<times> (c - a)\<close> has a positive component
  along \<open>a - p\<close>. For the trapezoidal wall the interior point is the mean of the 8 vertices.
\<close>

fun vsub :: "vec3 \<Rightarrow> vec3 \<Rightarrow> vec3" where
  "vsub (a, b, c) (x, y, z) = (a - x, b - y, c - z)"

fun cross :: "vec3 \<Rightarrow> vec3 \<Rightarrow> vec3" where
  "cross (a, b, c) (x, y, z) = (b * z - c * y, c * x - a * z, a * y - b * x)"

fun dot :: "vec3 \<Rightarrow> vec3 \<Rightarrow> real" where
  "dot (a, b, c) (x, y, z) = a * x + b * y + c * z"

fun triangles :: "nat list \<Rightarrow> (nat \<times> nat \<times> nat) list" where
  "triangles (a # b # c # rest) = (a, b, c) # triangles rest"
| "triangles _ = []"

definition facing :: "vec3 list \<Rightarrow> vec3 \<Rightarrow> nat \<times> nat \<times> nat \<Rightarrow> real" where
  "facing vs p = (\<lambda>(a, b, c).
     dot (cross (vsub (vs ! b) (vs ! a)) (vsub (vs ! c) (vs ! a))) (vsub (vs ! a) p))"

definition trap_centre :: "real \<Rightarrow> vec3" where
  "trap_centre xPos = ((xPos + trap_x1 xPos) / 2, (H_AV + H_AR) / 4, 0)"

definition outward_faces :: "real \<Rightarrow> bool" where
  "outward_faces xPos =
     list_all (\<lambda>tr. 0 < facing (trap_verts xPos) (trap_centre xPos) tr) (triangles trap_idx)"

definition inward_faces :: "real \<Rightarrow> bool" where
  "inward_faces xPos =
     list_all (\<lambda>tr. facing (trap_verts xPos) (trap_centre xPos) tr < 0) (triangles trap_idx)"

text \<open>The keys of \<^verbatim>\<open>modules\<close> (main.js, line 132).\<close>

definition module_names :: "string list" where
  "module_names = [''peltier'', ''sorbant'', ''filtration'', ''assemblage'']"

text \<open>
  A small scene for trying the controller: one solid box and one label sprite outside the
  modules, no module groups.
\<close>

definition sample_box :: obj where
  "sample_box =
     Obj (object3d 2 (MeshB (Geometry 1 (BoxGeometry 1 1 1))
                        ((mat_params 0xffffff 0.7 0.1 1)\<lparr>mid := 0\<rparr>))) []"

definition sample_label :: obj where
  "sample_label =
     Obj ((object3d 4 (SpriteB ((material_defaults SpriteMaterial)\<lparr>mid := 3\<rparr>)))
            \<lparr>isLabel := True\<rparr>) []"

definition sample_state :: view_state where
  "sample_state =
     \<lparr>scene_rest = [sample_box, sample_label], modules = [], activeModule = ''peltier'',
      wireOn = False, autoRot = False,
      controls = \<lparr>cam_position = (95, 55, 95), cam_quaternion = (0, 0, 0, 1),
                  target = (0, 7, 0), enableDamping = True, dampingFactor = 0.07,
                  minDistance = 40, maxDistance = 500, maxPolarAngle = pi * 0.88,
                  autoRotate = False, autoRotateSpeed = 2.0\<rparr>,
      t = 0, proto_visible = None, builtin_visible = {}\<rparr>"

text \<open>A stand-in for the library: \<open>update\<close> leaves the controls as they are.\<close>

definition sample_lib :: lib where
  "sample_lib = \<lparr>update = (\<lambda>c. c), lookAt = (\<lambda>p q. (0, 0, 0, 1))\<rparr>"

section \<open>Identities and allocation\<close>

text \<open>
  The identities an object carries: its own, and those of the geometry, material and
  texture of every object of its subtree.
\<close>

fun mat_ids :: "material \<Rightarrow> nat list" where
  "mat_ids m = mid m # (case map_tex m of None \<Rightarrow> [] | Some tx \<Rightarrow> [tid tx])"

fun body_ids :: "body \<Rightarrow> nat list" where
  "body_ids (MeshB g m) = gid g # mat_ids m"
| "body_ids (LineSegmentsB g m) = gid g # mat_ids m"
| "body_ids (SpriteB m) = mat_ids m"
| "body_ids b = []"

definition node_ids :: "node \<Rightarrow> nat list" where
  "node_ids n = oid n # body_ids (body n)"

definition obj_ids :: "obj \<Rightarrow> nat list" where
  "obj_ids ob = concat (map node_ids (nodes ob))"

text \<open>No mesh of the subtree has its wireframe flag set.\<close>

definition wire_off :: "obj \<Rightarrow> bool" where
  "wire_off ob = list_all (\<lambda>n. wireframe_of n \<noteq> Some True) (nodes ob)"

definition is_group :: "obj \<Rightarrow> bool" where
  "is_group ob = (body (attrs ob) = GroupB)"

text \<open>
  A value is good between \<open>n0\<close> and \<open>k\<close> when all its identities were allocated at or
  after \<open>n0\<close> and before \<open>k\<close>, and its materials are as constructed (wireframe off).
\<close>

definition good_mat :: "nat \<Rightarrow> nat \<Rightarrow> material \<Rightarrow> bool" where
  "good_mat n0 k m = (list_all (\<lambda>i. n0 \<le> i \<and> i < k) (mat_ids m) \<and> \<not> wireframe m)"

definition good_geo :: "nat \<Rightarrow> nat \<Rightarrow> geometry \<Rightarrow> bool" where
  "good_geo n0 k g = (n0 \<le> gid g \<and> gid g < k)"

definition good_id :: "nat \<Rightarrow> nat \<Rightarrow> nat \<Rightarrow> bool" where
  "good_id n0 k i = (n0 \<le> i \<and> i < k)"

fun good_body :: "nat \<Rightarrow> nat \<Rightarrow> body \<Rightarrow> bool" where
  "good_body n0 k (MeshB g m) = (good_geo n0 k g \<and> good_mat n0 k m)"
| "good_body n0 k (LineSegmentsB g m) = (good_geo n0 k g \<and> good_mat n0 k m)"
| "good_body n0 k (SpriteB m) = good_mat n0 k m"
| "good_body n0 k b = True"

definition good_obj :: "nat \<Rightarrow> nat \<Rightarrow> obj \<Rightarrow> bool" where
  "good_obj n0 k ob = (list_all (\<lambda>i. n0 \<le> i \<and> i < k) (obj_ids ob) \<and> wire_off ob)"

definition new_obj :: "nat \<Rightarrow> nat \<Rightarrow> obj \<Rightarrow> bool" where
  "new_obj n0 k ob = (n0 \<le> oid (attrs ob))"

text \<open>The children of the parent created before, and at or after, the allocation \<open>n0\<close>.\<close>

definition older :: "nat \<Rightarrow> bstate \<Rightarrow> obj list" where
  "older n0 s = filter (\<lambda>ob. oid (attrs ob) < n0) (kids s)"

definition newer :: "nat \<Rightarrow> bstate \<Rightarrow> obj list" where
  "newer n0 s = filter (\<lambda>ob. n0 \<le> oid (attrs ob)) (kids s)"

text \<open>
  The invariant of a builder started at allocation \<open>n0\<close>: the children added since are
  good up to the current counter; with \<open>gr = False\<close>, none of them is a group.
\<close>

definition good_state :: "bool \<Rightarrow> nat \<Rightarrow> bstate \<Rightarrow> bool" where
  "good_state gr n0 s =
     (n0 \<le> next_id s \<and>
      list_all (\<lambda>ob. good_obj n0 (next_id s) ob \<and> (gr \<or> \<not> is_group ob)) (newer n0 s))"

definition any_result :: "nat \<Rightarrow> 'a \<Rightarrow> bool" where
  "any_result k v = True"

text \<open>
  \<open>allocates gr n0 k A m\<close>: run from a state that satisfies the invariant and whose
  counter is at least \<open>k\<close>, the computation \<open>m\<close> keeps the invariant, never lowers the
  counter, leaves the older children as they are, and returns a value that satisfies \<open>A\<close>
  at the new counter.
\<close>

definition allocates :: "bool \<Rightarrow> nat \<Rightarrow> nat \<Rightarrow> (nat \<Rightarrow> 'a \<Rightarrow> bool) \<Rightarrow> 'a build \<Rightarrow> bool" where
  "allocates gr n0 k A m =
     (\<forall>s. good_state gr n0 s \<and> k \<le> next_id s \<longrightarrow>
        (case run_state m s of (v, s') \<Rightarrow>
           good_state gr n0 s' \<and> next_id s \<le> next_id s' \<and> older n0 s' = older n0 s
           \<and> A (next_id s') v))"

text \<open>A field assignment that changes neither the identity nor the body of an object.\<close>

definition keeps :: "(node \<Rightarrow> node) \<Rightarrow> bool" where
  "keeps f = (\<forall>n. oid (f n) = oid n \<and> body (f n) = body n)"

definition good_scene :: "nat \<Rightarrow> nat \<Rightarrow> view_state \<Rightarrow> bool" where
  "good_scene n0 k v = list_all (good_obj n0 k) (scene_rest v @ map snd (modules v))"

section \<open>Invariants of the view controller\<close>

text \<open>
  Every drawable object that is not a label has the wireframe flag \<open>w\<close>; in a controller
  state, the flag is \<open>wireOn\<close> throughout the scene.
\<close>

definition wire_ok :: "bool \<Rightarrow> obj \<Rightarrow> bool" where
  "wire_ok w ob = (\<forall>n \<in> set (nodes ob). drawable n \<longrightarrow> wireframe_of n = Some w)"

definition wire_inv :: "view_state \<Rightarrow> bool" where
  "wire_inv s = (\<forall>n \<in> set (scene_nodes s). drawable n \<longrightarrow> wireframe_of n = Some (wireOn s))"

definition ctrl_inv :: "view_state \<Rightarrow> bool" where
  "ctrl_inv s =
     (map fst (modules s) = module_names \<and> wire_inv s \<and> length (visible_modules s) \<le> 1)"

text \<open>
  A call of \<^verbatim>\<open>switchModule\<close> that does not return at the guard and does not find a module
  group hides every group and leaves the rest of the scene as it is.
\<close>

definition hides_all :: "view_state \<Rightarrow> view_state \<Rightarrow> bool" where
  "hides_all s s' =
     (modules s' = map_modules (set_attrs (\<lambda>n. n\<lparr>visible := False\<rparr>)) (modules s)
      \<and> scene_rest s' = scene_rest s \<and> wireOn s' = wireOn s)"

section \<open>Observations on a group under construction\<close>

text \<open>
  Every child of the parent was created before the current allocation; and the names and
  positions of the children that are groups, newest first.
\<close>

definition bounded_kids :: "bstate \<Rightarrow> bool" where
  "bounded_kids s = list_all (\<lambda>ob. oid (attrs ob) < next_id s) (kids s)"

definition group_kids_at :: "bstate \<Rightarrow> (string \<times> vec3) list" where
  "group_kids_at s = map (\<lambda>c. (name (attrs c), position (attrs c))) (filter is_group (kids s))"


section \<open>The electronics parts of the assembly\<close>

text \<open>
  A box mesh: the dimensions of its geometry, its position and its rotation. The boxes of a
  list of objects, in order, and the vertical extent of a box that is not rotated.
\<close>

definition box_of :: "obj \<Rightarrow> (vec3 \<times> vec3 \<times> vec3) option" where
  "box_of ob =
     (case body (attrs ob) of
        MeshB g m \<Rightarrow>
          (case shape g of
             BoxGeometry w h d \<Rightarrow> Some ((w, h, d), position (attrs ob), rotation (attrs ob))
           | _ \<Rightarrow> None)
      | _ \<Rightarrow> None)"

definition boxes :: "obj list \<Rightarrow> (vec3 \<times> vec3 \<times> vec3) list" where
  "boxes obs = List.map_filter box_of obs"

fun y_span :: "vec3 \<times> vec3 \<times> vec3 \<Rightarrow> real \<times> real" where
  "y_span ((w, h, d), (x, y, z), r) = (y - h / 2, y + h / 2)"

text \<open>
  \<^verbatim>\<open>buildAssemblage\<close> calls \<^verbatim>\<open>buildElec(g)\<close> first, so the electronics parts are the children
  of the assembly group that come before its first module group.
\<close>

definition elec_parts :: "obj \<Rightarrow> obj list" where
  "elec_parts g = takeWhile (\<lambda>c. \<not> is_group c) (children g)"

text \<open>
  A computation that only puts new children in front of those the parent has:
  \<open>appends\<close>; one that leaves the children as they are: \<open>quiet\<close>; and one whose new
  children are no groups and have the boxes \<open>xs\<close>, oldest first, and whose result
  satisfies \<open>Q\<close>: \<open>places xs Q\<close>.
\<close>

definition appends :: "'a build \<Rightarrow> bool" where
  "appends m = (\<forall>s. \<exists>new. kids (snd (run_state m s)) = new @ kids s)"

definition quiet :: "'a build \<Rightarrow> bool" where
  "quiet m = (\<forall>s. kids (snd (run_state m s)) = kids s)"

definition places :: "(vec3 \<times> vec3 \<times> vec3) list \<Rightarrow> ('a \<Rightarrow> bool) \<Rightarrow> 'a build \<Rightarrow> bool" where
  "places xs Q m =
     (\<forall>s. \<exists>new. kids (snd (run_state m s)) = new @ kids s
              \<and> list_all (\<lambda>c. \<not> is_group c) new \<and> boxes new = rev xs
              \<and> Q (fst (run_state m s)))"

section \<open>The orbit controls\<close>





section \<open>Two calls of a module assembler\<close>

text \<open>
  The identities of the second call's objects, materials, geometries and textures are
  those of the first call moved by the number of identities the first call allocated:
  \<open>shift_obj k\<close> adds \<open>k\<close> to every identity of an object tree, and \<open>renames k\<close> relates a
  computation run in a state with the same computation run in the state moved by \<open>k\<close>.
\<close>

definition shift_tex :: "nat \<Rightarrow> texture \<Rightarrow> texture" where
  "shift_tex k tx = CanvasTexture (tid tx + k) (canvas_text tx)"

definition shift_mat :: "nat \<Rightarrow> material \<Rightarrow> material" where
  "shift_mat k m = m\<lparr>mid := mid m + k, map_tex := map_option (shift_tex k) (map_tex m)\<rparr>"

definition shift_geo :: "nat \<Rightarrow> geometry \<Rightarrow> geometry" where
  "shift_geo k g = Geometry (gid g + k) (shape g)"

fun shift_body :: "nat \<Rightarrow> body \<Rightarrow> body" where
  "shift_body k (MeshB g m) = MeshB (shift_geo k g) (shift_mat k m)"
| "shift_body k (LineSegmentsB g m) = LineSegmentsB (shift_geo k g) (shift_mat k m)"
| "shift_body k (SpriteB m) = SpriteB (shift_mat k m)"
| "shift_body k b = b"

definition shift_node :: "nat \<Rightarrow> node \<Rightarrow> node" where
  "shift_node k n = n\<lparr>oid := oid n + k, body := shift_body k (body n)\<rparr>"

definition shift_obj :: "nat \<Rightarrow> obj \<Rightarrow> obj" where
  "shift_obj k = traverse (shift_node k)"

definition shift_state :: "nat \<Rightarrow> bstate \<Rightarrow> bstate" where
  "shift_state k s = \<lparr>next_id = next_id s + k, kids = map (shift_obj k) (kids s)\<rparr>"

definition renames :: "nat \<Rightarrow> (nat \<Rightarrow> 'a \<Rightarrow> 'a) \<Rightarrow> 'a build \<Rightarrow> 'a build \<Rightarrow> bool" where
  "renames k sh m1 m2 =
     (\<forall>s. run_state m2 (shift_state k s)
            = (case run_state m1 s of (v, s') \<Rightarrow> (sh k v, shift_state k s')))"

definition commutes :: "(node \<Rightarrow> node) \<Rightarrow> bool" where
  "commutes f = (\<forall>k n. f (shift_node k n) = shift_node k (f n))"

text \<open>
  What two modules are compared by: an object tree with its identities forgotten keeps
  the kind of every object, its geometry, its material parameters and its transform.
\<close>

definition erase_tex :: "texture \<Rightarrow> texture" where
  "erase_tex tx = CanvasTexture 0 (canvas_text tx)"

definition erase_mat :: "material \<Rightarrow> material" where
  "erase_mat m = m\<lparr>mid := 0, map_tex := map_option erase_tex (map_tex m)\<rparr>"

definition erase_geo :: "geometry \<Rightarrow> geometry" where
  "erase_geo g = Geometry 0 (shape g)"

fun erase_body :: "body \<Rightarrow> body" where
  "erase_body (MeshB g m) = MeshB (erase_geo g) (erase_mat m)"
| "erase_body (LineSegmentsB g m) = LineSegmentsB (erase_geo g) (erase_mat m)"
| "erase_body (SpriteB m) = SpriteB (erase_mat m)"
| "erase_body b = b"

definition erase_node :: "node \<Rightarrow> node" where
  "erase_node n = n\<lparr>oid := 0, body := erase_body (body n)\<rparr>"

definition erase_ids :: "obj \<Rightarrow> obj" where
  "erase_ids = traverse erase_node"

definition congruent :: "obj \<Rightarrow> obj \<Rightarrow> bool" where
  "congruent a b = (erase_ids a = erase_ids b)"

text \<open>
  \<^verbatim>\<open>o.visible = v\<close> for the object with identity \<open>i\<close>, and \<^verbatim>\<open>o.material.wireframe = w\<close>
  for the material with identity \<open>i\<close>, seen from an object tree: every reference to that
  object or material in the tree shows the new value.
\<close>

definition set_visible_at :: "nat \<Rightarrow> bool \<Rightarrow> obj \<Rightarrow> obj" where
  "set_visible_at i v = traverse (\<lambda>n. if oid n = i then n\<lparr>visible := v\<rparr> else n)"

definition mat_wireframe_at :: "nat \<Rightarrow> bool \<Rightarrow> material \<Rightarrow> material" where
  "mat_wireframe_at i w m = (if mid m = i then m\<lparr>wireframe := w\<rparr> else m)"

fun body_wireframe_at :: "nat \<Rightarrow> bool \<Rightarrow> body \<Rightarrow> body" where
  "body_wireframe_at i w (MeshB g m) = MeshB g (mat_wireframe_at i w m)"
| "body_wireframe_at i w (LineSegmentsB g m) = LineSegmentsB g (mat_wireframe_at i w m)"
| "body_wireframe_at i w (SpriteB m) = SpriteB (mat_wireframe_at i w m)"
| "body_wireframe_at i w b = b"

definition set_wireframe_at :: "nat \<Rightarrow> bool \<Rightarrow> obj \<Rightarrow> obj" where
  "set_wireframe_at i w = traverse (\<lambda>n. n\<lparr>body := body_wireframe_at i w (body n)\<rparr>)"

text \<open>Calling an assembler twice in succession; the four module assemblers.\<close>

definition twice :: "obj build \<Rightarrow> (obj \<times> obj) build" where
  "twice b = do { g1 \<leftarrow> b; g2 \<leftarrow> b; State_Monad.return (g1, g2) }"

definition first_build :: "obj build \<Rightarrow> bstate \<Rightarrow> obj" where
  "first_build b s = fst (fst (run_state (twice b) s))"

definition second_build :: "obj build \<Rightarrow> bstate \<Rightarrow> obj" where
  "second_build b s = snd (fst (run_state (twice b) s))"

definition assemblers :: "obj build list" where
  "assemblers = [buildSorbant, buildPeltier, buildFiltration, buildAssemblage]"


section \<open>Properties of the materials\<close>

lemma run_mat:
  "run_state (mat c r m opac) s =
     ((mat_params c r m opac)\<lparr>mid := next_id s\<rparr>, s\<lparr>next_id := Suc (next_id s)\<rparr>)"
  by (simp add: mat_def new_material_def fresh_def)

text \<open>
  C10, as the code has it. A mesh material made by \<^verbatim>\<open>mat\<close> (module files) or by
  \<^verbatim>\<open>box\<close> and \<^verbatim>\<open>cyl\<close> (helpers.js) is marked transparent exactly when the opacity is
  below 0.99. \<^verbatim>\<open>mat\<close> makes it double-sided exactly then and front-sided otherwise;
  \<^verbatim>\<open>box\<close> makes it double-sided when transparent and otherwise gives it the caller's
  \<^verbatim>\<open>side\<close> option. So for an opacity in [0.99, 1) a material of \<^verbatim>\<open>mat\<close>, or of \<^verbatim>\<open>box\<close>
  with the default side, is opaque and front-side-only.
\<close>

theorem material_transparency:
  "fst (run_state (mat c r m opac) s) = (mat_params c r m opac)\<lparr>mid := next_id s\<rparr>
   \<and> transparent (mat_params c r m opac) = (opac < 0.99)
   \<and> side (mat_params c r m opac) = (if opac < 0.99 then DoubleSide else FrontSide)
   \<and> transparent (box_material opts) = (bo_opacity opts < 0.99)
   \<and> side (box_material opts) = (if bo_opacity opts < 0.99 then DoubleSide else bo_side opts)
   \<and> transparent (cyl_material copts) = (co_opacity copts < 0.99)
   \<and> (0.99 \<le> opac \<and> opac < 1 \<longrightarrow>
        \<not> transparent (mat_params c r m opac) \<and> side (mat_params c r m opac) = FrontSide)
   \<and> (0.99 \<le> bo_opacity opts \<and> bo_opacity opts < 1 \<and> bo_side opts = FrontSide \<longrightarrow>
        \<not> transparent (box_material opts) \<and> side (box_material opts) = FrontSide)"
  by (simp add: run_mat mat_params_def box_material_def cyl_material_def Let_def
        material_defaults_def)

theorem material_transparency_witness:
  "(0.99::real) \<le> 0.995 \<and> (0.995::real) < 1
   \<and> \<not> transparent (mat_params 0xffffff 0.7 0.1 0.995)
   \<and> side (mat_params 0xffffff 0.7 0.1 0.995) = FrontSide
   \<and> bo_side (box_defaults\<lparr>bo_opacity := 0.995\<rparr>) = FrontSide
   \<and> side (box_material (box_defaults\<lparr>bo_opacity := 0.995\<rparr>)) = FrontSide
   \<and> transparent (mat_params 0x2a2f3d 0.5 0.3 0.22)
   \<and> side (mat_params 0x2a2f3d 0.5 0.3 0.22) = DoubleSide"
  using material_transparency [of "0xffffff" "0.7" "0.1" "0.995" "\<lparr>next_id = 0, kids = []\<rparr>"
      "box_defaults\<lparr>bo_opacity := 0.995\<rparr>" cyl_defaults]
    material_transparency [of "0x2a2f3d" "0.5" "0.3" "0.22" "\<lparr>next_id = 0, kids = []\<rparr>"
      box_defaults cyl_defaults]
  by (simp add: box_defaults_def)

text \<open>
  C10 as stated fails: \<^verbatim>\<open>box\<close> with opacity 0.995 and \<^verbatim>\<open>side: DoubleSide\<close> gives an
  opaque double-sided material; \<^verbatim>\<open>cyl\<close> with opacity 0.5 gives a transparent material
  that is front-sided; and the line material of \<^verbatim>\<open>edgeLine\<close> is marked transparent at
  opacity 1.0.
\<close>

theorem material_transparency_counterexample:
  "0.99 \<le> opacity (box_material (box_defaults\<lparr>bo_opacity := 0.995, bo_side := DoubleSide\<rparr>))
   \<and> opacity (box_material (box_defaults\<lparr>bo_opacity := 0.995, bo_side := DoubleSide\<rparr>)) < 1
   \<and> side (box_material (box_defaults\<lparr>bo_opacity := 0.995, bo_side := DoubleSide\<rparr>))
       = DoubleSide
   \<and> opacity (cyl_material (cyl_defaults\<lparr>co_opacity := 0.5\<rparr>)) < 0.99
   \<and> transparent (cyl_material (cyl_defaults\<lparr>co_opacity := 0.5\<rparr>))
   \<and> side (cyl_material (cyl_defaults\<lparr>co_opacity := 0.5\<rparr>)) = FrontSide
   \<and> \<not> opacity (line_material 0xff6020 1.0) < 0.99
   \<and> transparent (line_material 0xff6020 1.0)"
  by (simp add: box_material_def cyl_material_def line_material_def box_defaults_def
        cyl_defaults_def material_defaults_def Let_def)

section \<open>The trapezoidal wall\<close>

lemma tan_ANGLE_pos: "0 < tan ANGLE"
  unfolding ANGLE_def
  by (rule tan_gt_zero) (use pi_gt_zero in \<open>simp_all\<close>)

lemma H_AR_gt: "H_AV < H_AR"
  using tan_ANGLE_pos by (simp add: H_AR_def D_def)

text \<open>
  The wall is an indexed mesh of 8 vertices and 12 triangles whose indices are all valid;
  its front edge has height \<open>H_AV\<close> and its rear edge the greater height \<open>H_AR\<close>; the
  interior point used for the winding is the mean of the vertices.
\<close>

lemma trap_wall_mesh:
  "length (trap_verts x) = 8 \<and> length (triangles trap_idx) = 12
   \<and> list_all (\<lambda>i. i < 8) trap_idx
   \<and> trap_verts x ! 3 = (x, H_AV, - HD) \<and> trap_verts x ! 2 = (x, H_AR, HD) \<and> H_AV < H_AR"
  using H_AR_gt by (simp add: trap_verts_def trap_idx_def Let_def)

lemma trap_centre_mean:
  "trap_centre x =
     (case foldr (\<lambda>(a, b, c) (p, q, r). (a + p, b + q, c + r)) (trap_verts x) (0, 0, 0)
      of (p, q, r) \<Rightarrow> (p / 8, q / 8, r / 8))"
  by (simp add: trap_centre_def trap_verts_def Let_def)

lemma run_makeTrapWall:
  "run_state (makeTrapWall x (mat c r m opac)) s =
     (Obj ((object3d (next_id s + 2)
             (MeshB (Geometry (next_id s + 1) (BufferGeometry (trap_verts x) trap_idx))
                    ((mat_params c r m opac)\<lparr>mid := next_id s\<rparr>)))
            \<lparr>castShadow := True, receiveShadow := True\<rparr>) [],
      s\<lparr>next_id := next_id s + 3,
        kids := Obj ((object3d (next_id s + 2)
             (MeshB (Geometry (next_id s + 1) (BufferGeometry (trap_verts x) trap_idx))
                    ((mat_params c r m opac)\<lparr>mid := next_id s\<rparr>)))
            \<lparr>castShadow := True, receiveShadow := True\<rparr>) [] # kids s\<rparr>)"
  by (simp add: makeTrapWall_def run_mat new_geometry_def fresh_def add_def Let_def)

text \<open>The left wall, \<^verbatim>\<open>makeTrapWall(g, -HW, ...)\<close>: every triangle faces outward.\<close>

lemma left_wall_outward: "outward_faces (- HW)"
  using H_AR_gt
  by (simp add: outward_faces_def facing_def trap_idx_def trap_verts_def trap_centre_def
        trap_x1_def HW_def HD_def W_def D_def T_def H_AV_def Let_def)
     (simp add: field_simps)

text \<open>
  C8 at the right wall, \<^verbatim>\<open>makeTrapWall(g, HW, ...)\<close> (sorbant.js, line 174): the vertex
  \<open>x\<close> coordinates are mirrored and the index is not, so every one of the 12 triangles
  faces the interior of the wall; the winding is not outward.
\<close>

theorem right_wall_winding: "inward_faces HW \<and> \<not> outward_faces HW"
  using H_AR_gt
  by (simp add: inward_faces_def outward_faces_def facing_def trap_idx_def trap_verts_def
        trap_centre_def trap_x1_def HW_def HD_def W_def D_def T_def H_AV_def Let_def)
     (simp add: field_simps)

section \<open>Properties of the view controller\<close>

lemma nodes_traverse: "nodes (traverse f ob) = map f (nodes ob)"
  by (induction f ob rule: traverse.induct) (simp add: map_concat comp_def cong: map_cong)

lemma label_body_apply_wire: "label_body (apply_wire w n) = label_body n"
  by (simp add: label_body_def apply_wire_def)

lemma drawable_apply_wire: "drawable (apply_wire w n) = drawable n"
  by (cases "body n") (simp_all add: drawable_def apply_wire_def)

lemma wireframe_of_apply_wire: "drawable n \<Longrightarrow> wireframe_of (apply_wire w n) = Some w"
  by (cases "body n") (simp_all add: drawable_def apply_wire_def wireframe_of_def)

lemma scene_nodes_toggleWire:
  "scene_nodes (toggleWire s) = map (apply_wire (\<not> wireOn s)) (scene_nodes s)"
  by (simp add: scene_nodes_def toggleWire_def Let_def map_modules_def map_concat nodes_traverse
        comp_def split_def)

lemma label_body_toggleWire:
  "map label_body (scene_nodes (toggleWire s)) = map label_body (scene_nodes s)"
  by (simp add: scene_nodes_toggleWire comp_def label_body_apply_wire)

text \<open>
  C4. After any number of \<^verbatim>\<open>toggleWire()\<close> calls every label of the scene has the body
  (geometry and material, wireframe flag included) it had before, and after one call
  every drawable object of the scene that is not a label, in any module, has the new
  wireframe value.
\<close>

theorem toggleWire_labels_exempt:
  "map label_body (scene_nodes ((toggleWire ^^ k) s)) = map label_body (scene_nodes s)
   \<and> (\<forall>n \<in> set (scene_nodes (toggleWire s)).
        drawable n \<longrightarrow> wireframe_of n = Some (\<not> wireOn s))"
proof
  show "map label_body (scene_nodes ((toggleWire ^^ k) s)) = map label_body (scene_nodes s)"
    by (induction k) (simp_all add: label_body_toggleWire)
  show "\<forall>n \<in> set (scene_nodes (toggleWire s)).
          drawable n \<longrightarrow> wireframe_of n = Some (\<not> wireOn s)"
    by (auto simp: scene_nodes_toggleWire drawable_apply_wire wireframe_of_apply_wire)
qed

theorem toggleWire_labels_exempt_witness:
  "attrs sample_label \<in> set (scene_nodes ((toggleWire ^^ 3) sample_state))
   \<and> label_body (attrs sample_label)
       = Some (SpriteB ((material_defaults SpriteMaterial)\<lparr>mid := 3\<rparr>))
   \<and> (\<exists>n \<in> set (scene_nodes (toggleWire sample_state)).
         drawable n \<and> wireframe_of n = Some True)"
  using toggleWire_labels_exempt [of 3 sample_state]
  by (simp add: sample_state_def sample_box_def sample_label_def scene_nodes_def toggleWire_def
        Let_def map_modules_def apply_wire_def object3d_def drawable_def wireframe_of_def
        label_body_def numeral_3_eq_3)

section \<open>The builders allocate fresh identities\<close>

lemma allocatesI:
  assumes "\<And>s v s'. good_state gr n0 s \<Longrightarrow> k \<le> next_id s \<Longrightarrow> run_state m s = (v, s') \<Longrightarrow>
     good_state gr n0 s' \<and> next_id s \<le> next_id s' \<and> older n0 s' = older n0 s \<and> A (next_id s') v"
  shows "allocates gr n0 k A m"
  using assms by (auto simp: allocates_def split: prod.splits)

lemma allocatesD:
  assumes "allocates gr n0 k A m" "good_state gr n0 s" "k \<le> next_id s" "run_state m s = (v, s')"
  shows "good_state gr n0 s'" "next_id s \<le> next_id s'" "older n0 s' = older n0 s" "A (next_id s') v"
  using assms by (auto simp: allocates_def split: prod.splits)

lemma good_obj_mono: "good_obj n0 k ob \<Longrightarrow> k \<le> k' \<Longrightarrow> good_obj n0 k' ob"
  by (auto simp: good_obj_def list_all_iff)

lemma good_mat_mono: "good_mat n0 k m \<Longrightarrow> k \<le> k' \<Longrightarrow> good_mat n0 k' m"
  by (auto simp: good_mat_def list_all_iff)

lemma good_geo_mono: "good_geo n0 k m \<Longrightarrow> k \<le> k' \<Longrightarrow> good_geo n0 k' m"
  by (auto simp: good_geo_def)

lemma good_id_mono: "good_id n0 k i \<Longrightarrow> k \<le> k' \<Longrightarrow> good_id n0 k' i"
  by (auto simp: good_id_def)

lemmas good_monos = good_mat_mono good_geo_mono good_id_mono good_obj_mono

lemma good_state_next:
  "good_state gr n0 s \<Longrightarrow> next_id s \<le> k' \<Longrightarrow> good_state gr n0 (s\<lparr>next_id := k'\<rparr>)"
  by (auto simp: good_state_def newer_def list_all_iff intro: good_obj_mono)

lemma older_next [simp]: "older n0 (s\<lparr>next_id := k'\<rparr>) = older n0 s"
  by (simp add: older_def)

lemma allocates_bind:
  assumes "allocates gr n0 k A m"
    and "\<And>x k'. k \<le> k' \<Longrightarrow> A k' x \<Longrightarrow> allocates gr n0 k' B (f x)"
  shows "allocates gr n0 k B (State_Monad.bind m f)"
proof (rule allocatesI)
  fix s v s' assume s: "good_state gr n0 s" "k \<le> next_id s"
    and r: "run_state (State_Monad.bind m f) s = (v, s')"
  obtain x s1 where m: "run_state m s = (x, s1)" by (cases "run_state m s")
  from allocatesD [OF assms(1) s m]
  have 1: "good_state gr n0 s1" "next_id s \<le> next_id s1" "older n0 s1 = older n0 s"
    "A (next_id s1) x" .
  from r m have f: "run_state (f x) s1 = (v, s')" by simp
  have "allocates gr n0 (next_id s1) B (f x)"
    using assms(2) 1 s by simp
  from allocatesD [OF this 1(1) order_refl f] 1(2,3)
  show "good_state gr n0 s' \<and> next_id s \<le> next_id s' \<and> older n0 s' = older n0 s
        \<and> B (next_id s') v" by simp
qed

lemma good_state_le: "good_state gr n0 s \<Longrightarrow> n0 \<le> next_id s"
  by (simp add: good_state_def)

lemma good_state_Suc:
  "good_state gr n0 s \<Longrightarrow> good_state gr n0 (s\<lparr>next_id := Suc (next_id s)\<rparr>)"
  by (rule good_state_next) simp_all

lemma good_obj_oid: "good_obj n0 k ob \<Longrightarrow> n0 \<le> oid (attrs ob) \<and> oid (attrs ob) < k"
  by (cases ob) (simp add: good_obj_def obj_ids_def node_ids_def)

lemma allocates_return_any: "allocates gr n0 k any_result (State_Monad.return x)"
  by (rule allocatesI) (auto simp: any_result_def)

lemma allocates_fresh: "allocates gr n0 k (good_id n0) fresh"
  by (rule allocatesI)
     (auto simp: fresh_def good_id_def dest: good_state_le intro: good_state_Suc)

lemma allocates_new_geometry: "allocates gr n0 k (good_geo n0) (new_geometry sh)"
  by (rule allocatesI)
     (auto simp: new_geometry_def fresh_def good_geo_def dest: good_state_le
           intro: good_state_Suc)

lemma allocates_new_material:
  assumes "\<not> wireframe m"
    and "case map_tex m of None \<Rightarrow> True | Some tx \<Rightarrow> good_id n0 k (tid tx)"
  shows "allocates gr n0 k (good_mat n0) (new_material m)"
proof (rule allocatesI)
  fix s v s'
  assume s: "good_state gr n0 s" "k \<le> next_id s"
    and r: "run_state (new_material m) s = (v, s')"
  from r have v: "v = m\<lparr>mid := next_id s\<rparr>" and s': "s' = s\<lparr>next_id := Suc (next_id s)\<rparr>"
    by (auto simp: new_material_def fresh_def)
  have "good_mat n0 (Suc (next_id s)) v"
    using assms s good_state_le [OF s(1)]
    by (auto simp: v good_mat_def good_id_def split: option.splits)
  then show "good_state gr n0 s' \<and> next_id s \<le> next_id s' \<and> older n0 s' = older n0 s
        \<and> good_mat n0 (next_id s') v"
    using s by (simp add: s' good_state_Suc)
qed

lemma allocates_mat: "allocates gr n0 k (good_mat n0) (mat c r m opac)"
  unfolding mat_def
  by (rule allocates_new_material) (simp_all add: mat_params_def material_defaults_def Let_def)

lemma allocates_return_mat:
  "good_mat n0 k mt \<Longrightarrow> allocates gr n0 k (good_mat n0) (State_Monad.return mt)"
  by (rule allocatesI) (auto intro: good_mat_mono)

lemma allocates_add:
  assumes "good_obj n0 k ob" and "gr \<or> \<not> is_group ob"
  shows "allocates gr n0 k any_result (add ob)"
proof (rule allocatesI)
  fix s v s'
  assume s: "good_state gr n0 s" "k \<le> next_id s" and r: "run_state (add ob) s = (v, s')"
  from r have s': "s' = s\<lparr>kids := ob # kids s\<rparr>" by (simp add: add_def)
  from good_obj_oid [OF assms(1)] have o: "n0 \<le> oid (attrs ob)" by simp
  have "good_obj n0 (next_id s) ob" using assms(1) s(2) by (rule good_obj_mono)
  then have "good_state gr n0 s'"
    using s(1) assms(2) o by (simp add: s' good_state_def newer_def)
  moreover have "older n0 s' = older n0 s" using o by (simp add: s' older_def)
  ultimately show "good_state gr n0 s' \<and> next_id s \<le> next_id s' \<and> older n0 s' = older n0 s
        \<and> any_result (next_id s') v"
    by (simp add: s' any_result_def)
qed

lemma good_obj_keeps:
  "keeps f \<Longrightarrow> good_obj n0 k (Obj (f (attrs ob)) (children ob)) = good_obj n0 k ob"
  by (cases ob)
     (simp add: good_obj_def obj_ids_def wire_off_def keeps_def node_ids_def wireframe_of_def)

lemma is_group_keeps: "keeps f \<Longrightarrow> is_group (Obj (f (attrs ob)) (children ob)) = is_group ob"
  by (simp add: is_group_def keeps_def)

lemma upd_obj_filter_other:
  "keeps f \<Longrightarrow> \<not> P i \<Longrightarrow>
   filter (\<lambda>ob. P (oid (attrs ob))) (upd_obj i f obs) = filter (\<lambda>ob. P (oid (attrs ob))) obs"
  by (induction obs) (auto simp: keeps_def)

lemma upd_obj_filter_all:
  "keeps f \<Longrightarrow>
   list_all (\<lambda>ob. good_obj n0 k ob \<and> (gr \<or> \<not> is_group ob))
     (filter (\<lambda>ob. P (oid (attrs ob))) obs) \<Longrightarrow>
   list_all (\<lambda>ob. good_obj n0 k ob \<and> (gr \<or> \<not> is_group ob))
     (filter (\<lambda>ob. P (oid (attrs ob))) (upd_obj i f obs))"
proof (induction obs)
  case Nil
  then show ?case by simp
next
  case (Cons a obs)
  then show ?case
    by (cases "oid (attrs a) = i")
       (auto simp: good_obj_keeps is_group_keeps keeps_def)
qed

lemma allocates_modify:
  assumes "keeps f" and "new_obj n0 j ob"
  shows "allocates gr n0 k (new_obj n0) (modify ob f)"
proof (rule allocatesI)
  fix s v s'
  assume s: "good_state gr n0 s" "k \<le> next_id s" and r: "run_state (modify ob f) s = (v, s')"
  from r have v: "v = Obj (f (attrs ob)) (children ob)"
    and s': "s' = s\<lparr>kids := upd_obj (oid (attrs ob)) f (kids s)\<rparr>"
    by (simp_all add: modify_def)
  from assms(2) have o: "n0 \<le> oid (attrs ob)" by (simp add: new_obj_def)
  have "older n0 s' = older n0 s"
    unfolding s' older_def using o
    by (simp add: upd_obj_filter_other [OF assms(1), where P = "\<lambda>i. i < n0"])
  moreover have "good_state gr n0 s'"
    using s(1) unfolding s' good_state_def newer_def
    by (simp add: upd_obj_filter_all [OF assms(1), where P = "\<lambda>i. n0 \<le> i"])
  moreover have "new_obj n0 (next_id s') v"
    using o assms(1) by (simp add: v new_obj_def keeps_def)
  ultimately show "good_state gr n0 s' \<and> next_id s \<le> next_id s' \<and> older n0 s' = older n0 s
        \<and> new_obj n0 (next_id s') v"
    by (simp add: s')
qed

lemma keeps_simps [simp]:
  "keeps (\<lambda>n. n\<lparr>position := p\<rparr>)" "keeps (\<lambda>n. n\<lparr>rotation := q\<rparr>)"
  "keeps (\<lambda>n. n\<lparr>castShadow := b\<rparr>)" "keeps (\<lambda>n. n\<lparr>isNappe := b\<rparr>)"
  "keeps (\<lambda>n. n\<lparr>visible := b\<rparr>)"
  "keeps (set_rot_x v)" "keeps (set_rot_z v)"
  by (simp_all add: keeps_def set_rot_x_def set_rot_z_def split_def)

lemma good_obj_leaf:
  "good_id n0 k (oid n) \<Longrightarrow> good_body n0 k (body n) \<Longrightarrow> good_obj n0 k (Obj n [])"
  by (cases "body n")
     (auto simp: good_obj_def obj_ids_def wire_off_def node_ids_def good_id_def good_geo_def
        good_mat_def wireframe_of_def)

lemma object3d_sel [simp]: "oid (object3d i b) = i" "body (object3d i b) = b"
  by (simp_all add: object3d_def)

lemma set_rot_sel [simp]:
  "oid (set_rot_x v n) = oid n" "body (set_rot_x v n) = body n"
  "oid (set_rot_z v n) = oid n" "body (set_rot_z v n) = body n"
  by (simp_all add: set_rot_x_def set_rot_z_def split_def)

lemma new_obj_leaf [simp]: "new_obj n0 k (Obj n cs) = (n0 \<le> oid n)"
  by (simp add: new_obj_def)

lemma allocates_return_obj:
  "new_obj n0 j ob \<Longrightarrow> allocates gr n0 k (new_obj n0) (State_Monad.return ob)"
  by (rule allocatesI) (auto simp: new_obj_def)

lemmas alloc_intros = allocates_bind allocates_return_any allocates_fresh
  allocates_new_geometry allocates_mat allocates_modify allocates_add allocates_return_obj

lemma allocates_addM:
  "good_geo n0 k geo \<Longrightarrow> good_mat n0 k mt \<Longrightarrow> allocates gr n0 k (new_obj n0) (addM geo mt)"
  unfolding addM_def Let_def
  by ((rule alloc_intros
       | fastforce simp: is_group_def good_id_def intro!: good_obj_leaf intro: good_monos)+)

lemma allocates_bx:
  "allocates gr n0 k (good_mat n0) mc \<Longrightarrow>
   allocates gr n0 k (new_obj n0) (bx w h d mc x y z rx ry rz)"
  unfolding bx_def
  by ((rule alloc_intros allocates_addM | assumption | (simp; fail)
       | fastforce intro: good_monos)+)

lemma allocates_cy:
  "allocates gr n0 k (good_mat n0) mc \<Longrightarrow>
   allocates gr n0 k (new_obj n0) (cy r h mc x y z rx rz)"
  unfolding cy_def
  by ((rule alloc_intros allocates_addM | assumption | (simp; fail)
       | fastforce intro: good_monos)+)

lemma allocates_edgeLine: "allocates gr n0 k any_result (edgeLine m c op)"
  unfolding edgeLine_def
  by ((rule alloc_intros allocates_new_material
        | fastforce simp: line_material_def material_defaults_def is_group_def
            intro!: good_obj_leaf intro: good_monos)+)

lemma allocates_pipe: "allocates gr n0 k any_result (pipe pts r)"
  unfolding pipe_def
  by ((rule alloc_intros allocates_addM | fastforce intro: good_monos)+)

lemma allocates_labelSprite: "allocates gr n0 k any_result (labelSprite text x y z hex sw)"
  unfolding labelSprite_def
  by ((rule alloc_intros allocates_new_material
        | fastforce simp: material_defaults_def is_group_def
            intro!: good_obj_leaf intro: good_monos)+)

lemma allocates_makeTrapWall:
  "allocates gr n0 k (good_mat n0) mc \<Longrightarrow>
   allocates gr n0 k (new_obj n0) (makeTrapWall x mc)"
  unfolding makeTrapWall_def Let_def
  by ((rule alloc_intros | assumption
        | fastforce simp: is_group_def good_id_def intro!: good_obj_leaf intro: good_monos)+)

lemma allocates_for_each:
  "(\<And>x j. k \<le> j \<Longrightarrow> allocates gr n0 j any_result (f x)) \<Longrightarrow>
   allocates gr n0 k any_result (for_each xs f)"
proof (induction xs arbitrary: k)
  case Nil
  show ?case by (simp add: allocates_return_any)
next
  case (Cons x xs)
  show ?case
    unfolding for_each.simps
    by (rule allocates_bind [where A = any_result]) (auto intro!: Cons)
qed

lemma good_obj_group:
  "good_id n0 k i \<Longrightarrow> list_all (good_obj n0 k) cs \<Longrightarrow>
   good_obj n0 k (Obj ((object3d i GroupB)\<lparr>name := nm\<rparr>) cs)"
  by (auto simp: good_obj_def obj_ids_def wire_off_def node_ids_def good_id_def
        wireframe_of_def list_all_iff)

lemma newer_all: "older n0 s = [] \<Longrightarrow> newer n0 s = kids s"
  by (auto simp: older_def newer_def filter_empty_conv not_less intro: filter_True)

lemma run_group:
  "run_state (group nm bd) s =
     (Obj ((object3d (next_id s) GroupB)\<lparr>name := nm\<rparr>)
        (rev (kids (snd (run_state bd (s\<lparr>next_id := Suc (next_id s), kids := []\<rparr>))))),
      (snd (run_state bd (s\<lparr>next_id := Suc (next_id s), kids := []\<rparr>)))\<lparr>kids := kids s\<rparr>)"
  by (simp add: group_def fresh_def State_Monad.update_def State_Monad.get_def
        State_Monad.set_def split_def)

lemma allocates_group:
  assumes "allocates True n0 k any_result bd"
  shows "allocates gr n0 k (good_obj n0) (group nm bd)"
proof (rule allocatesI)
  fix s v s'
  assume s: "good_state gr n0 s" "k \<le> next_id s" and r: "run_state (group nm bd) s = (v, s')"
  let ?s1 = "s\<lparr>next_id := Suc (next_id s), kids := []\<rparr>"
  obtain u s2 where b: "run_state bd ?s1 = (u, s2)" by (cases "run_state bd ?s1")
  have g1: "good_state True n0 ?s1" using s(1) by (simp add: good_state_def newer_def)
  have k1: "k \<le> next_id ?s1" using s(2) by simp
  from allocatesD [OF assms g1 k1 b]
  have 2: "good_state True n0 s2" "Suc (next_id s) \<le> next_id s2" "older n0 s2 = []"
    by (simp_all add: older_def)
  from r b have v: "v = Obj ((object3d (next_id s) GroupB)\<lparr>name := nm\<rparr>) (rev (kids s2))"
    and s': "s' = s2\<lparr>kids := kids s\<rparr>"
    by (simp_all add: run_group)
  have "list_all (good_obj n0 (next_id s2)) (kids s2)"
    using 2(1) newer_all [OF 2(3)] by (simp add: good_state_def list_all_iff)
  then have "good_obj n0 (next_id s2) v"
    unfolding v using 2(2) good_state_le [OF s(1)]
    by (intro good_obj_group) (auto simp: good_id_def)
  moreover have "good_state gr n0 s'"
    unfolding s' using 2 s(1)
    by (auto simp: good_state_def newer_def list_all_iff intro: good_obj_mono)
  moreover have "older n0 s' = older n0 s" by (simp add: s' older_def)
  ultimately show "good_state gr n0 s' \<and> next_id s \<le> next_id s' \<and> older n0 s' = older n0 s
        \<and> good_obj n0 (next_id s') v"
    using 2 by (simp add: s')
qed

lemma good_obj_set_attrs [simp]: "keeps f \<Longrightarrow> good_obj n0 k (set_attrs f ob) = good_obj n0 k ob"
  by (simp add: set_attrs_def good_obj_keeps)

lemmas alloc_rules = alloc_intros allocates_addM allocates_bx allocates_cy allocates_edgeLine
  allocates_pipe allocates_labelSprite allocates_makeTrapWall allocates_for_each
  allocates_return_mat allocates_new_material

lemmas peltier_M_defs = peltier_M_boitier_def peltier_M_coldFace_def peltier_M_hotFace_def
  peltier_M_tec_def peltier_M_fin_def peltier_M_fan_def peltier_M_fanBlade_def
  peltier_M_vapeur_def peltier_M_floor_def peltier_M_canal_def peltier_M_tuyau_def
  peltier_M_iso_def

lemma allocates_peltier_tec: "allocates gr n0 k any_result (peltier_tec a b c d)"
  unfolding peltier_tec_def peltier_M_defs
  by ((rule alloc_rules | assumption | (simp; fail) | fastforce intro: good_monos)+)

lemma allocates_peltier_fin: "allocates gr n0 k any_result (peltier_fin a b c i)"
  unfolding peltier_fin_def peltier_M_defs Let_def
  by ((rule alloc_rules | assumption | (simp; fail) | fastforce intro: good_monos)+)

lemma allocates_fan_blade: "allocates gr n0 k any_result (fan_blade a b c i)"
  unfolding fan_blade_def peltier_M_defs Let_def
  by ((rule alloc_rules | assumption | (simp; fail) | fastforce intro: good_monos)+)

lemma allocates_flow_arrow:
  "good_mat n0 k am \<Longrightarrow> allocates gr n0 k any_result (flow_arrow am a b c d e)"
  unfolding flow_arrow_def
  by ((rule alloc_rules | assumption | (simp; fail) | fastforce intro: good_monos)+)

lemma allocates_peltier_fan:
  "good_mat n0 k am \<Longrightarrow> allocates gr n0 k any_result (peltier_fan am sX)"
  unfolding peltier_fan_def peltier_M_defs Let_def
  by ((rule alloc_rules allocates_fan_blade allocates_flow_arrow | assumption | (simp; fail)
        | fastforce intro: good_monos)+)

lemma allocates_buildPeltier: "allocates gr n0 k (good_obj n0) buildPeltier"
  unfolding buildPeltier_def peltier_M_defs Let_def
  by (rule allocates_group)
     ((rule alloc_rules allocates_peltier_tec allocates_peltier_fin allocates_peltier_fan
        | assumption | (simp; fail)
        | fastforce simp: material_defaults_def intro: good_monos)+)

lemmas sorbant_M_defs = sorbant_M_paroi_def sorbant_M_base_def sorbant_M_nappe_def
  sorbant_M_grille_def sorbant_M_tissu_def sorbant_M_vapeur_def sorbant_M_vitre_def
  sorbant_M_canal_def sorbant_M_tuyau_def sorbant_M_volet_def sorbant_M_tringle_def
  sorbant_M_servo_def sorbant_M_panneau_def sorbant_M_oled_def sorbant_M_ds18_def
  sorbant_M_dht22_def sorbant_M_ldr_def sorbant_M_btnVert_def sorbant_M_btnRouge_def

lemmas filtration_M_defs = filtration_M_base_def filtration_M_canBlc_def
  filtration_M_canNoir_def filtration_M_canBei_def filtration_M_cap_def
  filtration_M_tuyau_def filtration_M_tds_def filtration_M_tdsProbe_def
  filtration_M_flowMeter_def filtration_M_uvInox_def filtration_M_uvWin_def
  filtration_M_uvLed_def filtration_M_reserBody_def filtration_M_reserEdge_def
  filtration_M_eau_def filtration_M_couv_def filtration_M_hcPcb_def filtration_M_hcCyl_def
  filtration_M_robinet_def filtration_M_label_def filtration_M_collier_def

lemma allocates_buildSorbant: "allocates gr n0 k (good_obj n0) buildSorbant"
  unfolding buildSorbant_def sorbant_M_defs Let_def
  by (rule allocates_group)
     ((rule alloc_rules | assumption | (simp; fail)
        | fastforce simp: material_defaults_def is_group_def
            intro!: good_obj_leaf intro: good_monos)+)

lemma allocates_mkCan:
  "allocates gr n0 k (good_mat n0) mc \<Longrightarrow> allocates gr n0 k any_result (mkCan x mc)"
  unfolding mkCan_def filtration_M_defs Let_def
  by ((rule alloc_rules | assumption | (simp; fail) | fastforce intro: good_monos)+)

lemma allocates_mkUVC: "allocates gr n0 k any_result (mkUVC x y)"
  unfolding mkUVC_def filtration_M_defs Let_def
  by ((rule alloc_rules | assumption | (simp; fail) | fastforce intro: good_monos)+)

lemma allocates_filtration_foot: "allocates gr n0 k any_result (filtration_foot p)"
  unfolding filtration_foot_def filtration_M_defs split_def
  by ((rule alloc_rules | assumption | (simp; fail) | fastforce intro: good_monos)+)

lemma allocates_filtration_hc: "allocates gr n0 k any_result (filtration_hc a b c d e)"
  unfolding filtration_hc_def filtration_M_defs
  by ((rule alloc_rules | assumption | (simp; fail) | fastforce intro: good_monos)+)

lemma allocates_buildFiltration: "allocates gr n0 k (good_obj n0) buildFiltration"
  unfolding buildFiltration_def filtration_M_defs Let_def
  by (rule allocates_group)
     ((rule alloc_rules allocates_mkCan allocates_mkUVC allocates_filtration_foot
          allocates_filtration_hc
        | assumption | (simp; fail) | fastforce intro: good_monos)+)

lemma allocates_buildElec: "allocates gr n0 k any_result buildElec"
  unfolding buildElec_def Let_def
  by ((rule alloc_rules | assumption | (simp; fail)
        | fastforce simp: material_defaults_def is_group_def
            intro!: good_obj_leaf intro: good_monos)+)

lemma allocates_buildPanneau: "allocates gr n0 k any_result buildPanneau"
  unfolding buildPanneau_def Let_def
  by ((rule alloc_rules | assumption | (simp; fail) | fastforce intro: good_monos)+)

lemma allocates_buildFluxEau: "allocates gr n0 k any_result buildFluxEau"
  unfolding buildFluxEau_def Let_def
  by ((rule alloc_rules | assumption | (simp; fail)
        | fastforce simp: is_group_def intro!: good_obj_leaf intro: good_monos)+)

lemma allocates_buildAssemblage: "allocates gr n0 k (good_obj n0) buildAssemblage"
  unfolding buildAssemblage_def
  by (rule allocates_group)
     ((rule alloc_rules allocates_buildElec allocates_buildPanneau allocates_buildFluxEau
          allocates_buildFiltration allocates_buildPeltier allocates_buildSorbant
        | assumption | (simp; fail) | fastforce intro: good_monos)+)

lemma allocates_return_mono:
  "(\<And>j. k \<le> j \<Longrightarrow> A j x) \<Longrightarrow> allocates gr n0 k A (State_Monad.return x)"
  by (rule allocatesI) auto

section \<open>The initial scene\<close>

lemma allocates_get:
  "allocates gr n0 k (\<lambda>j v. good_state gr n0 v \<and> next_id v \<le> j) State_Monad.get"
  by (rule allocatesI) auto

lemma allocates_light: "allocates gr n0 k any_result (light p b)"
  unfolding light_def
  by ((rule alloc_rules | assumption | (simp; fail)
        | fastforce simp: is_group_def intro!: good_obj_leaf intro: good_monos)+)

lemma good_state_all: "good_state gr 0 s \<Longrightarrow> k \<ge> next_id s \<Longrightarrow> list_all (good_obj 0 k) (kids s)"
  by (auto simp: good_state_def newer_def list_all_iff intro: good_obj_mono)

lemma allocates_main_scene: "allocates True 0 0 (good_scene 0) (main_scene l)"
  unfolding main_scene_def Let_def
  apply ((rule alloc_rules allocates_light allocates_get
          allocates_buildFiltration allocates_buildPeltier allocates_buildSorbant
          allocates_buildAssemblage
        | assumption | (simp; fail)
        | fastforce simp: material_defaults_def is_group_def
             intro!: good_obj_leaf intro: good_monos)+)
  apply (rule allocates_return_mono)
  apply (simp add: good_scene_def)
  apply (elim conjE)
  apply (intro conjI)
  apply ((erule good_obj_mono, linarith) | (erule good_state_all, linarith))+
  done

lemma run_main_scene_good: "good_scene 0 (next_id (snd (run_state (main_scene l) \<lparr>next_id = 0, kids = []\<rparr>))) (init l)"
proof -
  obtain v s' where r: "run_state (main_scene l) \<lparr>next_id = 0, kids = []\<rparr> = (v, s')"
    by (cases "run_state (main_scene l) \<lparr>next_id = 0, kids = []\<rparr>")
  have "good_state True 0 \<lparr>next_id = 0, kids = []\<rparr>" by (simp add: good_state_def newer_def)
  from allocatesD(4) [OF allocates_main_scene this _ r]
  show ?thesis by (simp add: init_def r)
qed

lemma wire_off_nodes: "good_obj n0 k ob \<Longrightarrow> n \<in> set (nodes ob) \<Longrightarrow> drawable n \<Longrightarrow> wireframe_of n = Some False"
  by (cases "body n") (auto simp: good_obj_def wire_off_def list_all_iff drawable_def wireframe_of_def)

lemma modules_init:
  "map fst (modules (init l)) = module_names \<and> wireOn (init l) = False
   \<and> activeModule (init l) = ''peltier''"
  by (simp add: init_def main_scene_def Let_def split_def module_names_def
        State_Monad.get_def)

lemma visible_group: "visible (attrs (fst (run_state (group nm bd) s)))"
  by (simp add: run_group object3d_def)

lemma visible_init: "visible_modules (init l) = [''peltier'']"
  by (simp add: init_def main_scene_def Let_def split_def visible_modules_def
        State_Monad.get_def set_attrs_def buildPeltier_def visible_group)

lemma wire_inv_init: "wire_inv (init l)"
  using run_main_scene_good [of l] modules_init [of l]
  by (auto simp: wire_inv_def scene_nodes_def good_scene_def list_all_iff
        dest: wire_off_nodes)

section \<open>The controller keeps its invariants\<close>

lemma wire_inv_alt:
  "wire_inv s = list_all (wire_ok (wireOn s)) (scene_rest s @ map snd (modules s))"
  by (auto simp: wire_inv_def wire_ok_def scene_nodes_def list_all_iff)

lemma wire_ok_traverse: "wire_ok w (traverse (apply_wire w) ob)"
  by (auto simp: wire_ok_def nodes_traverse drawable_apply_wire wireframe_of_apply_wire)

lemma nodes_set_attrs: "nodes (set_attrs f ob) = f (attrs ob) # concat (map nodes (children ob))"
  by (simp add: set_attrs_def)

lemma wire_ok_set_visible: "wire_ok w (set_attrs (\<lambda>n. n\<lparr>visible := b\<rparr>) ob) = wire_ok w ob"
  by (cases ob) (simp add: wire_ok_def set_attrs_def drawable_def wireframe_of_def)

lemma wire_ok_face: "wire_ok w (traverse (face_camera q) ob) = wire_ok w ob"
  by (auto simp: wire_ok_def nodes_traverse face_camera_def drawable_def wireframe_of_def)

lemma apply_wire_twice:
  "(drawable n \<longrightarrow> wireframe_of n = Some w) \<Longrightarrow> apply_wire w (apply_wire (\<not> w) n) = n"
  by (cases "body n") (auto simp: apply_wire_def drawable_def wireframe_of_def)

lemma traverse_id: "(\<forall>n \<in> set (nodes ob). f n = n) \<Longrightarrow> traverse f ob = ob"
  by (induction f ob rule: traverse.induct) (simp add: map_idI)

lemma traverse_traverse: "traverse f (traverse g ob) = traverse (f \<circ> g) ob"
  by (induction g ob rule: traverse.induct) simp

lemma traverse_wire_twice:
  "wire_ok w ob \<Longrightarrow> traverse (apply_wire w) (traverse (apply_wire (\<not> w)) ob) = ob"
  by (simp add: traverse_traverse traverse_id wire_ok_def apply_wire_twice)

lemma toggleWire_twice: "wire_inv s \<Longrightarrow> toggleWire (toggleWire s) = s"
  by (simp add: wire_inv_alt toggleWire_def Let_def map_modules_def list_all_iff
        traverse_wire_twice split_def map_idI)

lemma keys_map_modules [simp]: "map fst (map_modules f ms) = map fst ms"
  by (simp add: map_modules_def split_def comp_def)

lemma keys_upd_module [simp]: "map fst (upd_module nm f ms) = map fst ms"
  by (induction ms) (auto simp: upd_module_def)

lemma modules_shape:
  "map fst ms = module_names \<Longrightarrow>
   \<exists>a b c d. ms = [(''peltier'', a), (''sorbant'', b), (''filtration'', c), (''assemblage'', d)]"
  unfolding module_names_def
  by (clarsimp simp: map_eq_Cons_conv) 

lemma visible_traverse_wire [simp]:
  "visible (attrs (traverse (apply_wire w) ob)) = visible (attrs ob)"
  by (cases ob) (simp add: apply_wire_def)

lemma visible_set_attrs [simp]:
  "visible (attrs (set_attrs (\<lambda>n. n\<lparr>visible := b\<rparr>) ob)) = b"
  by (simp add: set_attrs_def)

lemma switch_visible:
  assumes "map fst (modules s) = module_names" "m \<in> set module_names"
  shows "visible_modules (fst (switchModule l s m)) = [m]"
proof -
  from modules_shape [OF assms(1)] obtain a b c d where
    ms: "modules s = [(''peltier'', a), (''sorbant'', b), (''filtration'', c), (''assemblage'', d)]"
    by blast
  from assms(2) consider "m = ''peltier''" | "m = ''sorbant''" | "m = ''filtration''"
    | "m = ''assemblage''"
    by (auto simp: module_names_def)
  then show ?thesis
  proof cases
    case 1
    then show ?thesis
      by (simp add: ms switchModule_def get_prop_def Let_def visible_modules_def
          map_modules_def upd_module_def)
  next
    case 2
    then show ?thesis
      by (simp add: ms switchModule_def get_prop_def Let_def visible_modules_def
          map_modules_def upd_module_def)
  next
    case 3
    then show ?thesis
      by (simp add: ms switchModule_def get_prop_def Let_def visible_modules_def
          map_modules_def upd_module_def)
  next
    case 4
    then show ?thesis
      by (simp add: ms switchModule_def get_prop_def Let_def visible_modules_def
          map_modules_def upd_module_def)
  qed
qed

lemma visible_traverse_face [simp]:
  "visible (attrs (traverse (face_camera q) ob)) = visible (attrs ob)"
  by (cases ob) (simp add: face_camera_def)

lemma wire_ok_map_modules:
  "(\<And>ob. wire_ok w ob \<Longrightarrow> wire_ok w (f ob)) \<Longrightarrow> list_all (wire_ok w) (map snd ms) \<Longrightarrow>
   list_all (wire_ok w) (map snd (map_modules f ms))"
  by (auto simp: map_modules_def list_all_iff)

lemma wire_ok_upd_module:
  "(\<And>ob. wire_ok w ob \<Longrightarrow> wire_ok w (f ob)) \<Longrightarrow> list_all (wire_ok w) (map snd ms) \<Longrightarrow>
   list_all (wire_ok w) (map snd (upd_module nm f ms))"
  by (auto simp: upd_module_def list_all_iff split: if_splits)

lemma visible_modules_hidden:
  "modules s' = map_modules (set_attrs (\<lambda>n. n\<lparr>visible := False\<rparr>)) ms \<Longrightarrow>
   visible_modules s' = []"
  by (simp add: visible_modules_def map_modules_def filter_empty_conv split_def)

lemma get_prop_cases:
  "get_prop ms pv nm = Undefined \<or> get_prop ms pv nm = ObjectPrototype
   \<or> (\<exists>f. get_prop ms pv nm = Builtin f) \<or> (\<exists>b. get_prop ms pv nm = Boolean b)
   \<or> (\<exists>ob. get_prop ms pv nm = Own ob \<and> nm \<in> set (map fst ms))"
  by (auto simp: get_prop_def split: option.splits dest: map_of_SomeD intro: rev_image_eqI)

lemma ctrl_inv_hides_all:
  assumes "ctrl_inv s" "hides_all s s'"
  shows "ctrl_inv s'"
proof -
  from assms have m: "modules s' = map_modules (set_attrs (\<lambda>n. n\<lparr>visible := False\<rparr>)) (modules s)"
    and r: "scene_rest s' = scene_rest s" "wireOn s' = wireOn s"
    by (simp_all add: hides_all_def)
  from assms(1) have k: "map fst (modules s) = module_names" and w: "wire_inv s"
    by (simp_all add: ctrl_inv_def)
  have "wire_inv s'"
    using w by (simp add: wire_inv_alt m r wire_ok_map_modules wire_ok_set_visible)
  moreover have "visible_modules s' = []" using m by (rule visible_modules_hidden)
  ultimately show ?thesis using k by (simp add: ctrl_inv_def m)
qed

lemma ctrl_inv_switch:
  assumes "ctrl_inv s"
  shows "ctrl_inv (fst (switchModule l s nm))"
proof -
  from assms have k: "map fst (modules s) = module_names" and w: "wire_inv s"
    and v: "length (visible_modules s) \<le> 1"
    by (simp_all add: ctrl_inv_def)
  from get_prop_cases [of "modules s" "proto_visible s" nm] consider
    (u) "get_prop (modules s) (proto_visible s) nm = Undefined"
    | (p) "get_prop (modules s) (proto_visible s) nm = ObjectPrototype"
    | (f) f where "get_prop (modules s) (proto_visible s) nm = Builtin f"
    | (b) b where "get_prop (modules s) (proto_visible s) nm = Boolean b"
    | (o) ob where "get_prop (modules s) (proto_visible s) nm = Own ob"
        "nm \<in> set (map fst (modules s))"
    by blast
  then show ?thesis
  proof cases
    case u
    then show ?thesis using assms by (simp add: switchModule_def)
  next
    case p
    then have "hides_all s (fst (switchModule l s nm))"
      by (simp add: switchModule_def hides_all_def)
    with assms show ?thesis by (rule ctrl_inv_hides_all)
  next
    case f
    then have "hides_all s (fst (switchModule l s nm))"
      by (simp add: switchModule_def hides_all_def)
    with assms show ?thesis by (rule ctrl_inv_hides_all)
  next
    case b
    show ?thesis
    proof (cases b)
      case True
      with b have "hides_all s (fst (switchModule l s nm))"
        by (simp add: switchModule_def hides_all_def)
      with assms show ?thesis by (rule ctrl_inv_hides_all)
    next
      case False
      with b show ?thesis using assms by (simp add: switchModule_def)
    qed
  next
    case o
    have "wire_inv (fst (switchModule l s nm))"
      using w o(1)
      by (simp add: switchModule_def Let_def wire_inv_alt wire_ok_map_modules
            wire_ok_upd_module wire_ok_set_visible wire_ok_traverse)
    moreover have "visible_modules (fst (switchModule l s nm)) = [nm]"
      using o(2) k by (intro switch_visible) simp_all
    ultimately show ?thesis using k o(1) by (simp add: ctrl_inv_def switchModule_def Let_def)
  qed
qed

lemma visible_modules_toggleWire: "visible_modules (toggleWire s) = visible_modules s"
  by (simp add: visible_modules_def toggleWire_def Let_def map_modules_def filter_map comp_def
        split_def)

lemma visible_modules_animate: "visible_modules (animate l s) = visible_modules s"
  by (simp add: visible_modules_def animate_def Let_def map_modules_def filter_map comp_def
        split_def)

lemma wire_inv_toggleWire: "wire_inv (toggleWire s)"
  by (auto simp: wire_inv_alt toggleWire_def Let_def list_all_iff map_modules_def
        wire_ok_traverse)

lemma wire_inv_animate: "wire_inv s \<Longrightarrow> wire_inv (animate l s)"
  by (force simp: wire_inv_alt animate_def Let_def list_all_iff map_modules_def wire_ok_face)

lemma ctrl_inv_toggleWire: "ctrl_inv s \<Longrightarrow> ctrl_inv (toggleWire s)"
  by (simp add: ctrl_inv_def visible_modules_toggleWire wire_inv_toggleWire)
     (simp add: toggleWire_def Let_def)

lemma ctrl_inv_animate: "ctrl_inv s \<Longrightarrow> ctrl_inv (animate l s)"
  by (simp add: ctrl_inv_def visible_modules_animate wire_inv_animate)
     (simp add: animate_def Let_def)

lemma ctrl_inv_toggleRot: "ctrl_inv s \<Longrightarrow> ctrl_inv (toggleRot s)"
  by (simp add: ctrl_inv_def toggleRot_def Let_def wire_inv_alt visible_modules_def)

lemma ctrl_inv_resetView: "ctrl_inv s \<Longrightarrow> ctrl_inv (resetView l s)"
  by (simp add: ctrl_inv_def resetView_def wire_inv_alt visible_modules_def)

lemma ctrl_inv_gesture: "ctrl_inv s \<Longrightarrow> ctrl_inv (gesture p q tg s)"
  by (simp add: ctrl_inv_def gesture_def wire_inv_alt visible_modules_def)

lemma ctrl_inv_init: "ctrl_inv (init l)"
  by (simp add: ctrl_inv_def modules_init wire_inv_init visible_init)

lemma reachable_inv: "reachable l s \<Longrightarrow> ctrl_inv s"
  by (induction rule: reachable.induct)
     (simp_all add: ctrl_inv_init ctrl_inv_switch ctrl_inv_toggleWire ctrl_inv_toggleRot
        ctrl_inv_resetView ctrl_inv_animate ctrl_inv_gesture)

text \<open>
  C1. In every reachable state, \<^verbatim>\<open>switchModule(m)\<close> for a key \<open>m\<close> of \<^verbatim>\<open>modules\<close>
  leaves exactly the module group named \<open>m\<close> visible among the four top-level groups;
  and in every reachable state at most one of them is visible.
\<close>

theorem switchModule_one_visible:
  "reachable l s \<Longrightarrow>
   (\<forall>m \<in> set module_names. visible_modules (fst (switchModule l s m)) = [m])
   \<and> length (visible_modules s) \<le> 1"
  using reachable_inv [of l s] by (simp add: ctrl_inv_def switch_visible)

theorem switchModule_one_visible_witness:
  "reachable sample_lib (init sample_lib) \<and> ''sorbant'' \<in> set module_names
   \<and> visible_modules (fst (switchModule sample_lib (init sample_lib) ''sorbant'')) = [''sorbant'']
   \<and> length (visible_modules (init sample_lib)) \<le> 1"
  using switchModule_one_visible [OF reach_init, of sample_lib]
  by (simp add: reach_init module_names_def)

text \<open>
  C3. In every reachable state two \<^verbatim>\<open>toggleWire()\<close> calls in succession give back the
  state they started from: the wireframe flag of every drawable object that is not a
  label, and \<^verbatim>\<open>wireOn\<close>. One call gives every such object the negated flag.
\<close>

theorem toggleWire_involution:
  "reachable l s \<Longrightarrow>
   toggleWire (toggleWire s) = s
   \<and> wire_flags (toggleWire (toggleWire s)) = wire_flags s
   \<and> wireOn (toggleWire (toggleWire s)) = wireOn s
   \<and> wire_flags (toggleWire s) = map (\<lambda>f. Some (\<not> wireOn s)) (wire_flags s)"
proof -
  assume "reachable l s"
  then have "wire_inv s" using reachable_inv by (simp add: ctrl_inv_def)
  then have "toggleWire (toggleWire s) = s" by (rule toggleWire_twice)
  moreover have "wire_flags (toggleWire s) = map (\<lambda>f. Some (\<not> wireOn s)) (wire_flags s)"
    by (simp add: wire_flags_def scene_nodes_toggleWire filter_map comp_def drawable_apply_wire
          wireframe_of_apply_wire cong: map_cong)
  ultimately show ?thesis by simp
qed

theorem toggleWire_involution_witness:
  "reachable sample_lib (init sample_lib)
   \<and> toggleWire (toggleWire (init sample_lib)) = init sample_lib
   \<and> wireOn (toggleWire (init sample_lib))
   \<and> \<not> wireOn (toggleWire (toggleWire (init sample_lib)))"
  using toggleWire_involution [OF reach_init, of sample_lib] modules_init [of sample_lib]
  by (simp add: reach_init) (simp add: toggleWire_def Let_def)

text \<open>
  A name that is neither a key of \<^verbatim>\<open>modules\<close> nor a property of \<^verbatim>\<open>Object.prototype\<close>
  (as the page loads it, or \<^verbatim>\<open>visible\<close> once that has been stored there) leaves the state
  as it is.
\<close>

lemma switchModule_unknown:
  "nm \<notin> set (map fst (modules s)) \<Longrightarrow> nm \<notin> set object_prototype_props \<Longrightarrow>
   nm \<noteq> ''visible'' \<or> proto_visible s = None \<Longrightarrow>
   switchModule l s nm = (s, None)"
  by (auto simp: switchModule_def get_prop_def map_of_eq_None_iff [THEN iffD2]
        object_prototype_props_def)

lemma get_prop_constructor:
  assumes "map fst ms = module_names"
  shows "get_prop ms pv ''constructor'' = Builtin ''constructor''"
proof -
  from modules_shape [OF assms] obtain a b c d where
    "ms = [(''peltier'', a), (''sorbant'', b), (''filtration'', c), (''assemblage'', d)]"
    by blast
  then show ?thesis
    by (simp add: get_prop_def object_prototype_props_def)
qed


text \<open>
  C2 at the name \<^verbatim>\<open>"constructor"\<close>, which is not a key of \<^verbatim>\<open>modules\<close>: the guard
  \<^verbatim>\<open>if (!modules[name]) return\<close> finds the inherited \<^verbatim>\<open>Object.prototype.constructor\<close>,
  so the call hides every module, stores the name in \<^verbatim>\<open>activeModule\<close> and then throws a
  \<^verbatim>\<open>TypeError\<close> at \<^verbatim>\<open>modules[name].traverse\<close>. From the initial state, where the Peltier
  module is shown, no module is visible afterwards.
\<close>

theorem switchModule_inherited_name:
  "''constructor'' \<notin> set module_names
   \<and> visible_modules (init l) = [''peltier'']
   \<and> activeModule (init l) = ''peltier''
   \<and> visible_modules (fst (switchModule l (init l) ''constructor'')) = []
   \<and> activeModule (fst (switchModule l (init l) ''constructor'')) = ''constructor''
   \<and> snd (switchModule l (init l) ''constructor'') = Some TypeError"
  using modules_init [of l] get_prop_constructor [of "modules (init l)" "proto_visible (init l)"]
  by (simp add: module_names_def visible_init switchModule_def visible_modules_hidden)












section \<open>The assembly\<close>

lemma filter_filter_imp:
  "(\<And>x. x \<in> set xs \<Longrightarrow> P x \<Longrightarrow> Q x) \<Longrightarrow> filter P (filter Q xs) = filter P xs"
  by (induction xs) auto

lemma group_attrs:
  "attrs (fst (run_state (group nm bd) s)) = (object3d (next_id s) GroupB)\<lparr>name := nm\<rparr>"
  by (simp add: run_group)

lemma group_kids: "kids (snd (run_state (group nm bd) s)) = kids s"
  by (simp add: run_group)

lemma allocates_state:
  assumes "allocates gr n0 k A m" "good_state gr n0 s" "k \<le> next_id s"
  shows "good_state gr n0 (snd (run_state m s))" "next_id s \<le> next_id (snd (run_state m s))"
    "older n0 (snd (run_state m s)) = older n0 s" "A (next_id (snd (run_state m s))) (fst (run_state m s))"
  using allocatesD [OF assms, of "fst (run_state m s)" "snd (run_state m s)"] by simp_all

lemma good_state_kids:
  assumes "good_state gr n0 s" "older n0 s = []"
  shows "list_all (\<lambda>ob. oid (attrs ob) < next_id s \<and> (gr \<or> \<not> is_group ob)) (kids s)"
  using assms newer_all [OF assms(2)]
  by (auto simp: good_state_def list_all_iff dest: good_obj_oid)

lemma good_state_start:
  "list_all (\<lambda>ob. oid (attrs ob) < next_id s) (kids s) \<Longrightarrow> good_state gr (next_id s) s"
  by (auto simp: good_state_def newer_def list_all_iff filter_empty_conv)

lemma older_start:
  "list_all (\<lambda>ob. oid (attrs ob) < next_id s) (kids s) \<Longrightarrow> older (next_id s) s = kids s"
  by (auto simp: older_def list_all_iff)

text \<open>A computation that adds no group leaves the groups among the children as they are.\<close>

lemma groups_unchanged:
  assumes a: "allocates False (next_id s) (next_id s) A m"
    and b: "list_all (\<lambda>ob. oid (attrs ob) < next_id s) (kids s)"
  shows "filter is_group (kids (snd (run_state m s))) = filter is_group (kids s)"
    and "list_all (\<lambda>ob. oid (attrs ob) < next_id (snd (run_state m s))) (kids (snd (run_state m s)))"
    and "next_id s \<le> next_id (snd (run_state m s))"
proof -
  let ?s' = "snd (run_state m s)"
  note st = allocates_state [OF a good_state_start [OF b] order_refl]
  have old: "older (next_id s) ?s' = kids s" using st(3) older_start [OF b] by simp
  have new: "list_all (\<lambda>ob. good_obj (next_id s) (next_id ?s') ob \<and> \<not> is_group ob) (newer (next_id s) ?s')"
    using st(1) by (simp add: good_state_def)
  have "filter is_group (filter (\<lambda>ob. oid (attrs ob) < next_id s) (kids ?s')) = filter is_group (kids ?s')"
  proof (rule filter_filter_imp)
    fix x assume "x \<in> set (kids ?s')" "is_group x"
    then show "oid (attrs x) < next_id s"
      using new by (auto simp: newer_def list_all_iff not_le [symmetric])
  qed
  then have "filter is_group (kids ?s') = filter is_group (older (next_id s) ?s')"
    by (simp only: older_def)
  then show "filter is_group (kids ?s') = filter is_group (kids s)"
    by (simp only: old)
  show "next_id s \<le> next_id ?s'" by (rule st(2))
  show "list_all (\<lambda>ob. oid (attrs ob) < next_id ?s') (kids ?s')"
    unfolding list_all_iff
  proof
    fix x assume x: "x \<in> set (kids ?s')"
    show "oid (attrs x) < next_id ?s'"
    proof (cases "oid (attrs x) < next_id s")
      case True
      then show ?thesis using st(2) by simp
    next
      case False
      then have "x \<in> set (newer (next_id s) ?s')" using x by (simp add: newer_def)
      then show ?thesis using new by (auto simp: list_all_iff dest: good_obj_oid)
    qed
  qed
qed

lemma allocates_assemblage_tail:
  "allocates gr n0 k any_result (do {
     buildPanneau;
     buildFluxEau;
     labelSprite ''SORBANT'' 0 (Y_SORBANT + 30) 32 ''#d4a843'' 32;
     labelSprite ''PELTIER TEC'' 0 (Y_PELTIER + 22) 32 ''#4ab8e8'' 32;
     labelSprite (''FILTRATION + R'' @ [CHR 0xC3, CHR 0x89] @ ''SERVOIR'')
       0 (Y_FILTR + 22) 28 ''#4db6ac'' 50;
     labelSprite ([CHR 0xC3, CHR 0x89] @ ''LECTRONIQUE'') 0 (Y_ELEC + 8) 28 ''#78909c'' 32
   })"
  by ((rule alloc_rules allocates_buildPanneau allocates_buildFluxEau | assumption)+)

lemma no_group_step:
  assumes "\<And>gr n0 k. allocates gr n0 k any_result m" "bounded_kids s"
  shows "bounded_kids (snd (run_state m s))"
    and "group_kids_at (snd (run_state m s)) = group_kids_at s"
  using groups_unchanged [OF assms(1) assms(2) [unfolded bounded_kids_def]]
  by (simp_all add: bounded_kids_def group_kids_at_def)

lemma group_step:
  assumes a: "\<And>gr n0 k. allocates gr n0 k (good_obj n0) b"
    and g: "\<exists>bd. b = group nm bd"
    and k: "bounded_kids s"
  shows "bounded_kids
           (snd (run_state (do { g \<leftarrow> b; add (set_attrs (\<lambda>n. n\<lparr>position := pos\<rparr>) g) }) s))"
    and "group_kids_at
           (snd (run_state (do { g \<leftarrow> b; add (set_attrs (\<lambda>n. n\<lparr>position := pos\<rparr>) g) }) s))
         = (nm, pos) # group_kids_at s"
proof -
  note st = allocates_state [OF a [of False "next_id s" "next_id s"]
      good_state_start [OF k [unfolded bounded_kids_def]] order_refl]
  from g obtain bd where b: "b = group nm bd" by blast
  let ?g = "fst (run_state b s)" and ?s' = "snd (run_state b s)"
  have ks: "kids ?s' = kids s" unfolding b by (rule group_kids)
  have lt: "oid (attrs ?g) < next_id ?s'" using good_obj_oid [OF st(4)] by simp
  have gr: "is_group ?g" unfolding b by (simp add: is_group_def group_attrs)
  have nm: "name (attrs ?g) = nm" unfolding b by (simp add: group_attrs)
  have r: "snd (run_state (do { g \<leftarrow> b; add (set_attrs (\<lambda>n. n\<lparr>position := pos\<rparr>) g) }) s)
           = ?s'\<lparr>kids := set_attrs (\<lambda>n. n\<lparr>position := pos\<rparr>) ?g # kids s\<rparr>"
    by (simp add: split_def add_def ks)
  show "bounded_kids
           (snd (run_state (do { g \<leftarrow> b; add (set_attrs (\<lambda>n. n\<lparr>position := pos\<rparr>) g) }) s))"
    unfolding r using lt k st(2)
    by (auto simp: bounded_kids_def set_attrs_def list_all_iff)
  show "group_kids_at
           (snd (run_state (do { g \<leftarrow> b; add (set_attrs (\<lambda>n. n\<lparr>position := pos\<rparr>) g) }) s))
         = (nm, pos) # group_kids_at s"
    unfolding r using gr nm
    by (simp add: group_kids_at_def set_attrs_def is_group_def)
qed

section \<open>Where the electronics parts are\<close>

lemma appendsI: "(\<And>s. \<exists>new. kids (snd (run_state m s)) = new @ kids s) \<Longrightarrow> appends m"
  by (simp add: appends_def)

lemma appends_bind: "appends m \<Longrightarrow> (\<And>x. appends (f x)) \<Longrightarrow> appends (State_Monad.bind m f)"
proof (rule appendsI)
  fix s
  assume m: "appends m" and f: "\<And>x. appends (f x)"
  obtain x s1 where r: "run_state m s = (x, s1)" by (cases "run_state m s")
  from m obtain n1 where 1: "kids s1 = n1 @ kids s"
    using r by (auto simp: appends_def dest: spec [of _ s])
  from f [of x] obtain n2 where 2: "kids (snd (run_state (f x) s1)) = n2 @ kids s1"
    by (auto simp: appends_def)
  show "\<exists>new. kids (snd (run_state (State_Monad.bind m f) s)) = new @ kids s"
    by (rule exI [of _ "n2 @ n1"]) (simp add: r 1 2)
qed

lemma appends_return: "appends (State_Monad.return x)"
  by (simp add: appends_def)

lemma appends_fresh: "appends fresh"
  by (simp add: appends_def fresh_def)

lemma appends_new_geometry: "appends (new_geometry sh)"
  by (simp add: appends_def new_geometry_def fresh_def)

lemma appends_new_material: "appends (new_material m)"
  by (simp add: appends_def new_material_def fresh_def)

lemma appends_mat: "appends (mat c r m opac)"
  by (simp add: mat_def appends_new_material)

lemma appends_add: "appends (add ob)"
  by (simp add: appends_def add_def)

lemma appends_addM: "appends (addM g m)"
  by (simp add: appends_def addM_def add_def fresh_def Let_def)

text \<open>
  \<^verbatim>\<open>bx\<close> and \<^verbatim>\<open>cy\<close> add the mesh and then set its position and rotation: the mesh is the
  newest child, so it is the one the assignments reach.
\<close>

lemma bx_kids:
  "kids (snd (run_state (bx w h d mb x y z rx ry rz) s))
     = fst (run_state (bx w h d mb x y z rx ry rz) s) # kids (snd (run_state mb s))"
  "box_of (fst (run_state (bx w h d mb x y z rx ry rz) s)) = Some ((w, h, d), (x, y, z), (rx, ry, rz))"
  "\<not> is_group (fst (run_state (bx w h d mb x y z rx ry rz) s))"
  by (simp_all add: bx_def new_geometry_def addM_def modify_def fresh_def add_def split_def
        Let_def box_of_def object3d_def is_group_def)

lemma cy_kids:
  "kids (snd (run_state (cy r h mb x y z rx rz) s))
     = fst (run_state (cy r h mb x y z rx rz) s) # kids (snd (run_state mb s))"
  "box_of (fst (run_state (cy r h mb x y z rx rz) s)) = None"
  "\<not> is_group (fst (run_state (cy r h mb x y z rx rz) s))"
  by (simp_all add: cy_def new_geometry_def addM_def modify_def fresh_def add_def split_def
        Let_def box_of_def object3d_def is_group_def set_rot_x_def set_rot_z_def)

lemma appends_bx: "appends mb \<Longrightarrow> appends (bx w h d mb x y z rx ry rz)"
  unfolding appends_def
proof
  fix s assume "\<forall>s. \<exists>new. kids (snd (run_state mb s)) = new @ kids s"
  then obtain n where "kids (snd (run_state mb s)) = n @ kids s" by blast
  then show "\<exists>new. kids (snd (run_state (bx w h d mb x y z rx ry rz) s)) = new @ kids s"
    by (simp add: bx_kids(1))
qed

lemma appends_cy: "appends mb \<Longrightarrow> appends (cy r h mb x y z rx rz)"
  unfolding appends_def
proof
  fix s assume "\<forall>s. \<exists>new. kids (snd (run_state mb s)) = new @ kids s"
  then obtain n where "kids (snd (run_state mb s)) = n @ kids s" by blast
  then show "\<exists>new. kids (snd (run_state (cy r h mb x y z rx rz) s)) = new @ kids s"
    by (simp add: cy_kids(1))
qed

lemmas appends_intros = appends_bind appends_return appends_fresh appends_new_geometry
  appends_new_material appends_mat appends_add appends_addM appends_bx appends_cy

lemma appends_edgeLine: "appends (edgeLine m c op)"
  unfolding edgeLine_def by (rule appends_intros)+

lemma appends_pipe: "appends (pipe pts r)"
  unfolding pipe_def by (rule appends_intros)+

lemma appends_labelSprite: "appends (labelSprite text x y z hex scaleW)"
  unfolding labelSprite_def by (rule appends_intros)+

lemma appends_for_each: "(\<And>x. appends (f x)) \<Longrightarrow> appends (for_each xs f)"
  by (induction xs) (simp_all add: appends_return appends_bind)

lemmas appends_rules = appends_intros appends_edgeLine appends_pipe appends_labelSprite
  appends_for_each

lemma appends_buildPanneau: "appends buildPanneau"
  unfolding buildPanneau_def Let_def by (rule appends_rules)+

lemma appends_buildFluxEau: "appends buildFluxEau"
  unfolding buildFluxEau_def Let_def by (rule appends_rules)+


lemma boxes_simps [simp]:
  "boxes [] = []"
  "boxes (ob # obs) = (case box_of ob of None \<Rightarrow> boxes obs | Some b \<Rightarrow> b # boxes obs)"
  "boxes (xs @ ys) = boxes xs @ boxes ys"
  by (simp_all add: boxes_def map_filter_simps map_filter_def split: option.splits)

lemma places_bind:
  assumes "places xs Q m" "\<And>x. Q x \<Longrightarrow> places ys R (f x)" "zs = xs @ ys"
  shows "places zs R (State_Monad.bind m f)"
  unfolding places_def
proof
  fix s
  obtain x s1 where r: "run_state m s = (x, s1)" by (cases "run_state m s")
  from assms(1) obtain n1 where 1: "kids s1 = n1 @ kids s"
    "list_all (\<lambda>c. \<not> is_group c) n1" "boxes n1 = rev xs" "Q x"
    using r by (auto simp: places_def dest: spec [of _ s])
  from assms(2) [OF 1(4)] obtain n2 where 2: "kids (snd (run_state (f x) s1)) = n2 @ kids s1"
    "list_all (\<lambda>c. \<not> is_group c) n2" "boxes n2 = rev ys" "R (fst (run_state (f x) s1))"
    by (auto simp: places_def dest: spec [of _ s1])
  show "\<exists>new. kids (snd (run_state (State_Monad.bind m f) s)) = new @ kids s
          \<and> list_all (\<lambda>c. \<not> is_group c) new \<and> boxes new = rev zs
          \<and> R (fst (run_state (State_Monad.bind m f) s))"
    by (rule exI [of _ "n2 @ n1"]) (simp add: r 1 2 assms(3))
qed

lemma places_quiet: "quiet m \<Longrightarrow> places [] (\<lambda>x. True) m"
  by (simp add: places_def quiet_def)

lemma quiet_return: "quiet (State_Monad.return x)"
  by (simp add: quiet_def)

lemma quiet_fresh: "quiet fresh"
  by (simp add: quiet_def fresh_def)

lemma quiet_new_material: "quiet (new_material m)"
  by (simp add: quiet_def new_material_def fresh_def)

lemma quiet_mat: "quiet (mat c r m opac)"
  by (simp add: mat_def quiet_new_material)

lemma places_new_geometry: "places [] (\<lambda>g. shape g = sh) (new_geometry sh)"
  by (simp add: places_def new_geometry_def fresh_def)

lemma places_add:
  "\<not> is_group ob \<Longrightarrow> xs = boxes [ob] \<Longrightarrow> places xs (\<lambda>x. True) (add ob)"
  by (cases "box_of ob") (simp_all add: places_def add_def)

lemma places_bx:
  "quiet mb \<Longrightarrow> places [((w, h, d), (x, y, z), (rx, ry, rz))] (\<lambda>x. True) (bx w h d mb x y z rx ry rz)"
  unfolding places_def quiet_def
  by (intro allI exI [of _ "[fst (run_state (bx w h d mb x y z rx ry rz) _)]"])
     (simp add: bx_kids)

lemma places_cy:
  "quiet mb \<Longrightarrow> places [] (\<lambda>x. True) (cy r h mb x y z rx rz)"
  unfolding places_def quiet_def
  by (intro allI exI [of _ "[fst (run_state (cy r h mb x y z rx rz) _)]"])
     (simp add: cy_kids)

lemma places_edgeLine: "places [] (\<lambda>x. True) (edgeLine m c op)"
  by (simp add: places_def edgeLine_def new_geometry_def new_material_def fresh_def add_def
        split_def is_group_def box_of_def object3d_def)

lemma places_pipe: "places [] (\<lambda>x. True) (pipe pts r)"
  by (simp add: places_def pipe_def new_geometry_def mat_def new_material_def fresh_def
        add_def addM_def Let_def split_def is_group_def box_of_def object3d_def)

lemma places_for_each:
  "(\<And>x. places (g x) (\<lambda>x. True) (f x)) \<Longrightarrow> zs = concat (map g xs) \<Longrightarrow>
   places zs (\<lambda>x. True) (for_each xs f)"
proof (induction xs arbitrary: zs)
  case Nil
  then show ?case by (simp add: places_quiet quiet_return)
next
  case (Cons a xs)
  show ?case
    unfolding for_each.simps
    by (rule places_bind [OF Cons.prems(1) Cons.IH [OF Cons.prems(1) refl]])
       (simp add: Cons.prems(2))
qed

lemmas quiet_rules = quiet_return quiet_fresh quiet_new_material quiet_mat

lemmas places_rules = places_bind places_new_geometry places_bx places_cy places_edgeLine
  places_pipe places_for_each places_add places_quiet quiet_rules

lemma upt_4: "[0..<4] = [0, 1, 2, 3]" "[0..<3] = [0, 1, 2]"
  by (simp_all add: upt_rec)

lemma places_buildElec:
  "places
     [((50, 10, 0.5), (0, 5, - 20), (0, 0, 0)),
      ((50, 10, 0.5), (0, 5, 20), (0, 0, 0)),
      ((0.5, 10, 40), (- 25, 5, 0), (0, 0, 0)),
      ((0.5, 10, 40), (25, 5, 0), (0, 0, 0)),
      ((50, 0.5, 40), (0, 0.25, 0), (0, 0, 0)),
      ((50, 0.5, 40), (0, 9.75, 0), (0, 0, 0)),
      ((15, 8, 6.5), (- 13, 5, 0), (0, 0, 0)),
      ((20, 0.35, 13), (8, 6.5, 0), (0, 0, 0)),
      ((1.6, 1.2, 1.2), (- 2, 7.4, 2.5), (0, 0, 0)),
      ((1.6, 1.2, 1.2), (1.5, 7.4, 2.5), (0, 0, 0)),
      ((1.6, 1.2, 1.2), (5, 7.4, 2.5), (0, 0, 0)),
      ((1.6, 1.2, 1.2), (8.5, 7.4, 2.5), (0, 0, 0)),
      ((5.5, 0.4, 3.3), (10, 7.3, - 3), (0, 0, 0)),
      ((7, 4.5, 5), (4, 5, - 8), (0, 0, 0)),
      ((0.7, 0.7, 0.3), (- 8, 5, - 19.6), (0, 0, 0)),
      ((0.7, 0.7, 0.3), (- 5, 5, - 19.6), (0, 0, 0)),
      ((0.7, 0.7, 0.3), (- 2, 5, - 19.6), (0, 0, 0))]
     (\<lambda>x. True) buildElec"
  unfolding buildElec_def Let_def
  by ((rule places_rules
        | (simp add: upt_4 is_group_def box_of_def object3d_def; fail))+)


lemma boxes_rev: "boxes (rev obs) = rev (boxes obs)"
  by (induction obs) (simp_all split: option.splits)

lemma group_step_kids:
  assumes "\<exists>bd. b = group nm bd"
  shows "\<exists>g. is_group g \<and>
          kids (snd (run_state (do { g \<leftarrow> b; add (set_attrs (\<lambda>n. n\<lparr>position := pos\<rparr>) g) }) s))
           = g # kids s"
proof -
  from assms obtain bd where b: "b = group nm bd" by blast
  show ?thesis
    by (rule exI [of _ "set_attrs (\<lambda>n. n\<lparr>position := pos\<rparr>) (fst (run_state b s))"])
       (simp add: b split_def add_def group_kids is_group_def set_attrs_def group_attrs
          object3d_def)
qed

lemma appends_assemblage_tail:
  "appends (do {
     buildPanneau;
     buildFluxEau;
     labelSprite ''SORBANT'' 0 (Y_SORBANT + 30) 32 ''#d4a843'' 32;
     labelSprite ''PELTIER TEC'' 0 (Y_PELTIER + 22) 32 ''#4ab8e8'' 32;
     labelSprite (''FILTRATION + R'' @ [CHR 0xC3, CHR 0x89] @ ''SERVOIR'')
       0 (Y_FILTR + 22) 28 ''#4db6ac'' 50;
     labelSprite ([CHR 0xC3, CHR 0x89] @ ''LECTRONIQUE'') 0 (Y_ELEC + 8) 28 ''#78909c'' 32
   })"
  by (rule appends_rules appends_buildPanneau appends_buildFluxEau)+

lemma elec_parts_assemblage:
  assumes pl: "places xs Q buildElec"
  shows "boxes (elec_parts (fst (run_state buildAssemblage s))) = xs"
proof -
  define tail where "tail = do {
     buildPanneau;
     buildFluxEau;
     labelSprite ''SORBANT'' 0 (Y_SORBANT + 30) 32 ''#d4a843'' 32;
     labelSprite ''PELTIER TEC'' 0 (Y_PELTIER + 22) 32 ''#4ab8e8'' 32;
     labelSprite (''FILTRATION + R'' @ [CHR 0xC3, CHR 0x89] @ ''SERVOIR'')
       0 (Y_FILTR + 22) 28 ''#4db6ac'' 50;
     labelSprite ([CHR 0xC3, CHR 0x89] @ ''LECTRONIQUE'') 0 (Y_ELEC + 8) 28 ''#78909c'' 32
   }"
  define stepF where
    "stepF = do { g \<leftarrow> buildFiltration; add (set_attrs (\<lambda>n. n\<lparr>position := (0, Y_FILTR, 0)\<rparr>) g) }"
  define stepP where
    "stepP = do { g \<leftarrow> buildPeltier; add (set_attrs (\<lambda>n. n\<lparr>position := (0, Y_PELTIER, 0)\<rparr>) g) }"
  define stepS where
    "stepS = do { g \<leftarrow> buildSorbant; add (set_attrs (\<lambda>n. n\<lparr>position := (0, Y_SORBANT, 0)\<rparr>) g) }"
  define s0 where "s0 = s\<lparr>next_id := Suc (next_id s), kids := []\<rparr>"
  define s1 where "s1 = snd (run_state buildElec s0)"
  define s2 where "s2 = snd (run_state stepF s1)"
  define s3 where "s3 = snd (run_state stepP s2)"
  define s4 where "s4 = snd (run_state stepS s3)"
  define s5 where "s5 = snd (run_state tail s4)"
  have body: "buildAssemblage = group ''assemblage''
      (do { buildElec; stepF; stepP; stepS; tail })"
    by (simp add: buildAssemblage_def stepF_def stepP_def stepS_def tail_def)
  have ch: "children (fst (run_state buildAssemblage s)) = rev (kids s5)"
    by (simp add: body run_group split_def s5_def s4_def s3_def s2_def s1_def s0_def)
  have bf: "\<exists>bd. buildFiltration = group ''filtration'' bd"
    unfolding buildFiltration_def by (rule exI, rule refl)
  have bp: "\<exists>bd. buildPeltier = group ''peltier'' bd"
    unfolding buildPeltier_def by (rule exI, rule refl)
  have bs: "\<exists>bd. buildSorbant = group ''sorbant'' bd"
    unfolding buildSorbant_def by (rule exI, rule refl)
  from pl obtain e where e: "kids s1 = e" "list_all (\<lambda>c. \<not> is_group c) e" "boxes e = rev xs"
    by (auto simp: places_def s1_def s0_def dest: spec [of _ s0])
  from group_step_kids [OF bf, of "(0, Y_FILTR, 0)" s1] obtain f
    where f: "is_group f" "kids s2 = f # kids s1"
    by (auto simp: s2_def stepF_def)
  from group_step_kids [OF bp, of "(0, Y_PELTIER, 0)" s2] obtain p
    where p: "kids s3 = p # kids s2"
    by (auto simp: s3_def stepP_def)
  from group_step_kids [OF bs, of "(0, Y_SORBANT, 0)" s3] obtain so
    where so: "kids s4 = so # kids s3"
    by (auto simp: s4_def stepS_def)
  from appends_assemblage_tail obtain t where t: "kids s5 = t @ kids s4"
    by (auto simp: appends_def s5_def tail_def dest: spec [of _ s4])
  have "rev (kids s5) = rev e @ f # p # so # rev t"
    by (simp add: t so p f e)
  moreover have "takeWhile (\<lambda>c. \<not> is_group c) (rev e @ f # p # so # rev t)
      = rev e @ takeWhile (\<lambda>c. \<not> is_group c) (f # p # so # rev t)"
    using e(2) by (intro takeWhile_append2) (auto simp: list_all_iff)
  ultimately have "elec_parts (fst (run_state buildAssemblage s)) = rev e"
    using f(1) by (simp add: elec_parts_def ch)
  then show ?thesis by (simp add: boxes_rev e(3))
qed


text \<open>
  C5. Whatever the state \<^verbatim>\<open>buildAssemblage()\<close> is called in, the children of the group it
  returns that are groups are, in order, the filtration group at \<open>(0, 11, 0)\<close>, the Peltier
  group at \<open>(0, 33, 0)\<close> and the sorbant group at \<open>(0, 50, 0)\<close>. The electronics parts are
  children of the assembly group itself, placed in its frame (offset \<open>Y_ELEC = 0\<close>): their
  boxes are the six panels of the case, the battery, the circuit board, four relays, the
  controller, the charge regulator and three lamps, at the positions listed, and the case
  stands on the plane \<open>y = 0\<close>, its walls reaching from 0 to 10 and its floor panel from 0
  to 0.5.
\<close>

theorem assemblage_offsets:
  "map (\<lambda>c. (name (attrs c), position (attrs c)))
     (filter is_group (children (fst (run_state buildAssemblage s))))
   = [(''filtration'', (0, 11, 0)), (''peltier'', (0, 33, 0)), (''sorbant'', (0, 50, 0))]
   \<and> Y_ELEC = 0
   \<and> boxes (elec_parts (fst (run_state buildAssemblage s))) =
       [((50, 10, 0.5), (0, 5, - 20), (0, 0, 0)),
        ((50, 10, 0.5), (0, 5, 20), (0, 0, 0)),
        ((0.5, 10, 40), (- 25, 5, 0), (0, 0, 0)),
        ((0.5, 10, 40), (25, 5, 0), (0, 0, 0)),
        ((50, 0.5, 40), (0, 0.25, 0), (0, 0, 0)),
        ((50, 0.5, 40), (0, 9.75, 0), (0, 0, 0)),
        ((15, 8, 6.5), (- 13, 5, 0), (0, 0, 0)),
        ((20, 0.35, 13), (8, 6.5, 0), (0, 0, 0)),
        ((1.6, 1.2, 1.2), (- 2, 7.4, 2.5), (0, 0, 0)),
        ((1.6, 1.2, 1.2), (1.5, 7.4, 2.5), (0, 0, 0)),
        ((1.6, 1.2, 1.2), (5, 7.4, 2.5), (0, 0, 0)),
        ((1.6, 1.2, 1.2), (8.5, 7.4, 2.5), (0, 0, 0)),
        ((5.5, 0.4, 3.3), (10, 7.3, - 3), (0, 0, 0)),
        ((7, 4.5, 5), (4, 5, - 8), (0, 0, 0)),
        ((0.7, 0.7, 0.3), (- 8, 5, - 19.6), (0, 0, 0)),
        ((0.7, 0.7, 0.3), (- 5, 5, - 19.6), (0, 0, 0)),
        ((0.7, 0.7, 0.3), (- 2, 5, - 19.6), (0, 0, 0))]
   \<and> map y_span (take 6 (boxes (elec_parts (fst (run_state buildAssemblage s)))))
       = [(Y_ELEC, 10), (Y_ELEC, 10), (Y_ELEC, 10), (Y_ELEC, 10), (Y_ELEC, 0.5), (9.5, 10)]"
proof -
  define tail where "tail = do {
     buildPanneau;
     buildFluxEau;
     labelSprite ''SORBANT'' 0 (Y_SORBANT + 30) 32 ''#d4a843'' 32;
     labelSprite ''PELTIER TEC'' 0 (Y_PELTIER + 22) 32 ''#4ab8e8'' 32;
     labelSprite (''FILTRATION + R'' @ [CHR 0xC3, CHR 0x89] @ ''SERVOIR'')
       0 (Y_FILTR + 22) 28 ''#4db6ac'' 50;
     labelSprite ([CHR 0xC3, CHR 0x89] @ ''LECTRONIQUE'') 0 (Y_ELEC + 8) 28 ''#78909c'' 32
   }"
  define stepF where
    "stepF = do { g \<leftarrow> buildFiltration; add (set_attrs (\<lambda>n. n\<lparr>position := (0, Y_FILTR, 0)\<rparr>) g) }"
  define stepP where
    "stepP = do { g \<leftarrow> buildPeltier; add (set_attrs (\<lambda>n. n\<lparr>position := (0, Y_PELTIER, 0)\<rparr>) g) }"
  define stepS where
    "stepS = do { g \<leftarrow> buildSorbant; add (set_attrs (\<lambda>n. n\<lparr>position := (0, Y_SORBANT, 0)\<rparr>) g) }"
  define s0 where "s0 = s\<lparr>next_id := Suc (next_id s), kids := []\<rparr>"
  define s1 where "s1 = snd (run_state buildElec s0)"
  define s2 where "s2 = snd (run_state stepF s1)"
  define s3 where "s3 = snd (run_state stepP s2)"
  define s4 where "s4 = snd (run_state stepS s3)"
  define s5 where "s5 = snd (run_state tail s4)"
  have body: "buildAssemblage = group ''assemblage''
      (do { buildElec; stepF; stepP; stepS; tail })"
    by (simp add: buildAssemblage_def stepF_def stepP_def stepS_def tail_def)
  have ch: "children (fst (run_state buildAssemblage s)) = rev (kids s5)"
    by (simp add: body run_group split_def s5_def s4_def s3_def s2_def s1_def s0_def)
  have tl: "\<And>gr n0 k. allocates gr n0 k any_result tail"
    unfolding tail_def by (rule allocates_assemblage_tail)
  have bf: "\<exists>bd. buildFiltration = group ''filtration'' bd"
    unfolding buildFiltration_def by (rule exI, rule refl)
  have bp: "\<exists>bd. buildPeltier = group ''peltier'' bd"
    unfolding buildPeltier_def by (rule exI, rule refl)
  have bs: "\<exists>bd. buildSorbant = group ''sorbant'' bd"
    unfolding buildSorbant_def by (rule exI, rule refl)
  have b0: "bounded_kids s0" and g0: "group_kids_at s0 = []"
    by (simp_all add: s0_def bounded_kids_def group_kids_at_def)
  note e = no_group_step [OF allocates_buildElec b0, folded s1_def]
  note f = group_step [OF allocates_buildFiltration bf e(1), where pos = "(0, Y_FILTR, 0)",
      folded stepF_def s2_def]
  note p = group_step [OF allocates_buildPeltier bp f(1), where pos = "(0, Y_PELTIER, 0)",
      folded stepP_def s3_def]
  note so = group_step [OF allocates_buildSorbant bs p(1), where pos = "(0, Y_SORBANT, 0)",
      folded stepS_def s4_def]
  note t = no_group_step [OF tl so(1), folded s5_def]
  have "group_kids_at s5
        = [(''sorbant'', (0, Y_SORBANT, 0)), (''peltier'', (0, Y_PELTIER, 0)),
           (''filtration'', (0, Y_FILTR, 0))]"
    by (simp add: t(2) so(2) p(2) f(2) e(2) g0)
  then have "map (\<lambda>c. (name (attrs c), position (attrs c))) (filter is_group (rev (kids s5)))
        = [(''filtration'', (0, Y_FILTR, 0)), (''peltier'', (0, Y_PELTIER, 0)),
           (''sorbant'', (0, Y_SORBANT, 0))]"
    by (simp add: group_kids_at_def rev_filter [symmetric] rev_map [symmetric] del: rev_map)
  then have groups: "map (\<lambda>c. (name (attrs c), position (attrs c)))
       (filter is_group (children (fst (run_state buildAssemblage s))))
     = [(''filtration'', (0, 11, 0)), (''peltier'', (0, 33, 0)), (''sorbant'', (0, 50, 0))]"
    by (simp add: ch Y_FILTR_def Y_PELTIER_def Y_SORBANT_def)
  have y: "Y_ELEC = 0" by (simp add: Y_ELEC_def)
  note parts = elec_parts_assemblage [OF places_buildElec, of s]
  have spans: "map y_span (take 6 (boxes (elec_parts (fst (run_state buildAssemblage s)))))
       = [(Y_ELEC, 10), (Y_ELEC, 10), (Y_ELEC, 10), (Y_ELEC, 10), (Y_ELEC, 0.5), (9.5, 10)]"
    unfolding parts by (simp add: Y_ELEC_def)
  show ?thesis by (intro conjI groups y parts spans)
qed

section \<open>Two calls of an assembler\<close>

lemma renames_bind:
  "renames k sh m1 m2 \<Longrightarrow> (\<And>x. renames k sh' (f1 x) (f2 (sh k x))) \<Longrightarrow>
   renames k sh' (State_Monad.bind m1 f1) (State_Monad.bind m2 f2)"
  by (simp add: renames_def split_def)

lemma renames_return:
  "y = sh k x \<Longrightarrow> renames k sh (State_Monad.return x) (State_Monad.return y)"
  by (simp add: renames_def)

lemma renames_fresh: "renames k (\<lambda>k i. i + k) fresh fresh"
  by (simp add: renames_def fresh_def shift_state_def)

lemma renames_new_geometry:
  "sh2 = sh1 \<Longrightarrow> renames k shift_geo (new_geometry sh1) (new_geometry sh2)"
  by (simp add: renames_def new_geometry_def fresh_def shift_state_def shift_geo_def)

lemma renames_new_material:
  "m2 = m1\<lparr>map_tex := map_option (shift_tex k) (map_tex m1)\<rparr> \<Longrightarrow>
   renames k shift_mat (new_material m1) (new_material m2)"
  by (simp add: renames_def new_material_def fresh_def shift_state_def shift_mat_def)

lemma renames_mat: "renames k shift_mat (mat c r m opac) (mat c r m opac)"
  unfolding mat_def
  by (rule renames_new_material) (simp add: mat_params_def material_defaults_def Let_def)

lemma renames_add:
  "ob2 = shift_obj k ob1 \<Longrightarrow> renames k (\<lambda>k v. v) (add ob1) (add ob2)"
  by (simp add: renames_def add_def shift_state_def)

lemma shift_obj_Obj [simp]: "shift_obj k (Obj n cs) = Obj (shift_node k n) (map (shift_obj k) cs)"
  by (simp add: shift_obj_def)

lemma attrs_shift [simp]: "attrs (shift_obj k ob) = shift_node k (attrs ob)"
  by (cases ob) simp

lemma children_shift [simp]: "children (shift_obj k ob) = map (shift_obj k) (children ob)"
  by (cases ob) simp

lemma oid_shift [simp]: "oid (shift_node k n) = oid n + k"
  by (simp add: shift_node_def)

lemma upd_obj_shift:
  "commutes f \<Longrightarrow>
   upd_obj (i + k) f (map (shift_obj k) obs) = map (shift_obj k) (upd_obj i f obs)"
  by (induction obs) (auto simp: commutes_def)

lemma renames_modify:
  "commutes f \<Longrightarrow> renames k shift_obj (modify ob f) (modify (shift_obj k ob) f)"
  by (simp add: renames_def modify_def shift_state_def upd_obj_shift)
     (simp add: commutes_def)

lemma commutes_simps [simp]:
  "commutes (\<lambda>n. n\<lparr>position := p\<rparr>)" "commutes (\<lambda>n. n\<lparr>rotation := q\<rparr>)"
  "commutes (\<lambda>n. n\<lparr>castShadow := b\<rparr>)" "commutes (\<lambda>n. n\<lparr>isNappe := b\<rparr>)"
  "commutes (\<lambda>n. n\<lparr>visible := b\<rparr>)"
  "commutes (set_rot_x v)" "commutes (set_rot_z v)"
  by (simp_all add: commutes_def shift_node_def set_rot_x_def set_rot_z_def split_def)

lemma shift_node_object3d [simp]:
  "shift_node k (object3d i b) = object3d (i + k) (shift_body k b)"
  by (simp add: shift_node_def object3d_def)

lemma shift_node_updates [simp]:
  "shift_node k (n\<lparr>position := p\<rparr>) = (shift_node k n)\<lparr>position := p\<rparr>"
  "shift_node k (n\<lparr>rotation := q\<rparr>) = (shift_node k n)\<lparr>rotation := q\<rparr>"
  "shift_node k (n\<lparr>castShadow := b\<rparr>) = (shift_node k n)\<lparr>castShadow := b\<rparr>"
  "shift_node k (n\<lparr>receiveShadow := b\<rparr>) = (shift_node k n)\<lparr>receiveShadow := b\<rparr>"
  "shift_node k (n\<lparr>scale := p\<rparr>) = (shift_node k n)\<lparr>scale := p\<rparr>"
  "shift_node k (n\<lparr>isLabel := b\<rparr>) = (shift_node k n)\<lparr>isLabel := b\<rparr>"
  "shift_node k (n\<lparr>name := nm\<rparr>) = (shift_node k n)\<lparr>name := nm\<rparr>"
  "shift_node k (set_rot_x v n) = set_rot_x v (shift_node k n)"
  "shift_node k (set_rot_z v n) = set_rot_z v (shift_node k n)"
  by (simp_all add: shift_node_def set_rot_x_def set_rot_z_def split_def)

lemma renames_addM:
  "renames k shift_obj (addM geo mt) (addM (shift_geo k geo) (shift_mat k mt))"
  unfolding addM_def Let_def
  by ((rule renames_bind renames_fresh renames_add renames_return | (simp; fail))+)


lemmas ren_intros = renames_bind renames_fresh renames_new_geometry renames_mat
  renames_modify renames_add renames_return renames_addM

lemma renames_bx:
  "renames k shift_mat mc1 mc2 \<Longrightarrow>
   renames k shift_obj (bx w h d mc1 x y z rx ry rz) (bx w h d mc2 x y z rx ry rz)"
  unfolding bx_def
  by ((rule ren_intros | assumption | (simp; fail))+)

lemma renames_cy:
  "renames k shift_mat mc1 mc2 \<Longrightarrow>
   renames k shift_obj (cy r h mc1 x y z rx rz) (cy r h mc2 x y z rx rz)"
  unfolding cy_def
  by ((rule ren_intros | assumption | (simp; fail))+)

lemma geometry_of_shift [simp]: "geometry_of (shift_obj k m) = geometry_of m"
  by (cases m; cases "body (attrs m)")
     (simp_all add: geometry_of_def shift_node_def shift_geo_def)

lemma position_shift [simp]:
  "position (shift_node k n) = position n" "rotation (shift_node k n) = rotation n"
  by (simp_all add: shift_node_def)

lemma renames_edgeLine:
  "renames k (\<lambda>k v. v) (edgeLine m c op) (edgeLine (shift_obj k m) c op)"
  unfolding edgeLine_def
  by ((rule ren_intros renames_new_material
        | (simp add: line_material_def material_defaults_def; fail))+)

lemma renames_pipe: "renames k (\<lambda>k v. v) (pipe pts r) (pipe pts r)"
  unfolding pipe_def
  by ((rule ren_intros | (simp; fail))+)

lemma renames_labelSprite:
  "renames k (\<lambda>k v. v) (labelSprite text x y z hex sw) (labelSprite text x y z hex sw)"
  unfolding labelSprite_def
  by ((rule ren_intros renames_new_material
        | (simp add: material_defaults_def shift_tex_def shift_mat_def; fail))+)

lemma renames_makeTrapWall:
  "renames k shift_mat mc1 mc2 \<Longrightarrow>
   renames k shift_obj (makeTrapWall x mc1) (makeTrapWall x mc2)"
  unfolding makeTrapWall_def Let_def
  by ((rule ren_intros | assumption | (simp; fail))+)

lemma renames_for_each:
  "(\<And>x. renames k (\<lambda>k v. v) (f1 x) (f2 x)) \<Longrightarrow>
   renames k (\<lambda>k v. v) (for_each xs f1) (for_each xs f2)"
  by (induction xs) (auto intro!: renames_bind renames_return)

lemma shift_state_simps [simp]:
  "next_id (shift_state k s) = next_id s + k"
  "kids (shift_state k s) = map (shift_obj k) (kids s)"
  by (simp_all add: shift_state_def)

lemma renames_group:
  assumes "renames k (\<lambda>k v. v) bd1 bd2"
  shows "renames k shift_obj (group nm bd1) (group nm bd2)"
proof -
  have "\<And>s. run_state bd2 (shift_state k s) = (fst (run_state bd1 s), shift_state k (snd (run_state bd1 s)))"
    using assms by (simp add: renames_def split_def)
  note b = this
  have e: "\<And>s. (shift_state k s)\<lparr>next_id := Suc (next_id s + k), kids := []\<rparr>
        = shift_state k (s\<lparr>next_id := Suc (next_id s), kids := []\<rparr>)"
    by (simp add: shift_state_def)
  show ?thesis
    unfolding renames_def
    by (simp add: run_group e b rev_map)
qed


lemmas ren_rules = ren_intros renames_bx renames_cy renames_edgeLine renames_pipe
  renames_labelSprite renames_makeTrapWall renames_for_each renames_new_material

lemma renames_peltier_tec:
  "renames k (\<lambda>k v. v) (peltier_tec a b c d) (peltier_tec a b c d)"
  unfolding peltier_tec_def peltier_M_defs
  by ((rule ren_rules | (simp; fail))+)

lemma renames_peltier_fin:
  "renames k (\<lambda>k v. v) (peltier_fin a b c i) (peltier_fin a b c i)"
  unfolding peltier_fin_def peltier_M_defs Let_def
  by ((rule ren_rules | (simp; fail))+)

lemma renames_fan_blade:
  "renames k (\<lambda>k v. v) (fan_blade a b c i) (fan_blade a b c i)"
  unfolding fan_blade_def peltier_M_defs Let_def
  by ((rule ren_rules | (simp; fail))+)

lemma renames_flow_arrow:
  "renames k (\<lambda>k v. v) (flow_arrow am a b c d e) (flow_arrow (shift_mat k am) a b c d e)"
  unfolding flow_arrow_def
  by ((rule ren_rules | (simp; fail))+)

lemma renames_peltier_fan:
  "renames k (\<lambda>k v. v) (peltier_fan am sX) (peltier_fan (shift_mat k am) sX)"
  unfolding peltier_fan_def peltier_M_defs Let_def
  by ((rule ren_rules renames_fan_blade renames_flow_arrow | (simp; fail))+)

lemma renames_buildPeltier: "renames k shift_obj buildPeltier buildPeltier"
  unfolding buildPeltier_def peltier_M_defs Let_def
  by (rule renames_group)
     ((rule ren_rules renames_peltier_tec renames_peltier_fin renames_peltier_fan
        | (simp add: material_defaults_def; fail))+)

lemma renames_buildSorbant: "renames k shift_obj buildSorbant buildSorbant"
  unfolding buildSorbant_def sorbant_M_defs Let_def
  by (rule renames_group)
     ((rule ren_rules | (simp add: material_defaults_def shift_tex_def; fail))+)

lemma renames_mkCan:
  "renames k shift_mat mc1 mc2 \<Longrightarrow> renames k (\<lambda>k v. v) (mkCan x mc1) (mkCan x mc2)"
  unfolding mkCan_def filtration_M_defs Let_def
  by ((rule ren_rules | assumption | (simp; fail))+)

lemma renames_mkUVC: "renames k (\<lambda>k v. v) (mkUVC x y) (mkUVC x y)"
  unfolding mkUVC_def filtration_M_defs Let_def
  by ((rule ren_rules | (simp; fail))+)

lemma renames_filtration_foot:
  "renames k (\<lambda>k v. v) (filtration_foot p) (filtration_foot p)"
  unfolding filtration_foot_def filtration_M_defs split_def
  by ((rule ren_rules | (simp; fail))+)

lemma renames_filtration_hc:
  "renames k (\<lambda>k v. v) (filtration_hc a b c d e) (filtration_hc a b c d e)"
  unfolding filtration_hc_def filtration_M_defs
  by ((rule ren_rules | (simp; fail))+)

lemma renames_buildFiltration: "renames k shift_obj buildFiltration buildFiltration"
  unfolding buildFiltration_def filtration_M_defs Let_def
  by (rule renames_group)
     ((rule ren_rules renames_mkCan renames_mkUVC renames_filtration_foot
          renames_filtration_hc
        | (simp; fail))+)

lemma renames_buildElec: "renames k (\<lambda>k v. v) buildElec buildElec"
  unfolding buildElec_def Let_def
  by ((rule ren_rules | (simp add: material_defaults_def; fail))+)

lemma renames_buildPanneau: "renames k (\<lambda>k v. v) buildPanneau buildPanneau"
  unfolding buildPanneau_def Let_def
  by ((rule ren_rules | (simp; fail))+)

lemma renames_buildFluxEau: "renames k (\<lambda>k v. v) buildFluxEau buildFluxEau"
  unfolding buildFluxEau_def Let_def
  by ((rule ren_rules | (simp; fail))+)

lemma set_attrs_shift:
  "commutes f \<Longrightarrow> set_attrs f (shift_obj k ob) = shift_obj k (set_attrs f ob)"
  by (cases ob) (simp add: set_attrs_def commutes_def)

lemma renames_buildAssemblage: "renames k shift_obj buildAssemblage buildAssemblage"
  unfolding buildAssemblage_def
  by (rule renames_group)
     ((rule ren_rules renames_buildElec renames_buildPanneau renames_buildFluxEau
          renames_buildFiltration renames_buildPeltier renames_buildSorbant
        | (simp add: set_attrs_shift; fail))+)

lemma erase_shift_tex: "erase_tex (shift_tex k tx) = erase_tex tx"
  by (simp add: erase_tex_def shift_tex_def)

lemma erase_shift_mat: "erase_mat (shift_mat k m) = erase_mat m"
  by (cases "map_tex m") (simp_all add: erase_mat_def shift_mat_def erase_shift_tex)

lemma erase_shift_geo: "erase_geo (shift_geo k g) = erase_geo g"
  by (simp add: erase_geo_def shift_geo_def)

lemma erase_shift_body: "erase_body (shift_body k b) = erase_body b"
  by (cases b) (simp_all add: erase_shift_mat erase_shift_geo)

lemma erase_shift_node: "erase_node (shift_node k n) = erase_node n"
  by (simp add: erase_node_def shift_node_def erase_shift_body)

lemma erase_shift: "erase_ids (shift_obj k ob) = erase_ids ob"
  by (induction ob) (simp add: erase_ids_def shift_obj_def erase_shift_node)

lemma obj_ids_Obj:
  "set (obj_ids (Obj n cs)) = set (node_ids n) \<union> (\<Union>c \<in> set cs. set (obj_ids c))"
  by (auto simp: obj_ids_def)

lemma set_visible_other: "i \<notin> set (obj_ids ob) \<Longrightarrow> set_visible_at i v ob = ob"
proof (induction ob)
  case (Obj n cs)
  have "map (set_visible_at i v) cs = cs"
    using Obj by (intro map_idI) (auto simp: obj_ids_Obj)
  moreover have "oid n \<noteq> i" using Obj.prems by (auto simp: obj_ids_Obj node_ids_def)
  ultimately show ?case by (simp add: set_visible_at_def)
qed

lemma body_wireframe_other: "i \<notin> set (body_ids b) \<Longrightarrow> body_wireframe_at i w b = b"
  by (cases b) (auto simp: mat_wireframe_at_def)

lemma set_wireframe_other: "i \<notin> set (obj_ids ob) \<Longrightarrow> set_wireframe_at i w ob = ob"
proof (induction ob)
  case (Obj n cs)
  have "map (set_wireframe_at i w) cs = cs"
    using Obj by (intro map_idI) (auto simp: obj_ids_Obj)
  moreover have "body_wireframe_at i w (body n) = body n"
    using Obj.prems by (intro body_wireframe_other) (auto simp: obj_ids_Obj node_ids_def)
  ultimately show ?case by (simp add: set_wireframe_at_def)
qed


lemma bstate_updates: "s\<lparr>next_id := a, kids := b\<rparr> = \<lparr>next_id = a, kids = b\<rparr>"
  by (cases s) simp

lemma group_from_start:
  "fst (run_state (group nm bd) s) = fst (run_state (group nm bd) \<lparr>next_id = next_id s, kids = []\<rparr>)"
  "next_id (snd (run_state (group nm bd) s))
     = next_id (snd (run_state (group nm bd) \<lparr>next_id = next_id s, kids = []\<rparr>))"
  by (simp_all add: run_group bstate_updates)

lemma assemblers_groups: "b \<in> set assemblers \<Longrightarrow> \<exists>nm bd. b = group nm bd"
  unfolding assemblers_def buildSorbant_def buildPeltier_def buildFiltration_def
    buildAssemblage_def
  by (elim set_ConsD [elim_format] disjE) (blast | simp)+

lemma assemblers_allocate: "b \<in> set assemblers \<Longrightarrow> allocates gr n0 k (good_obj n0) b"
  by (auto simp: assemblers_def allocates_buildSorbant allocates_buildPeltier
        allocates_buildFiltration allocates_buildAssemblage)

lemma assemblers_rename: "b \<in> set assemblers \<Longrightarrow> renames k shift_obj b b"
  by (auto simp: assemblers_def renames_buildSorbant renames_buildPeltier
        renames_buildFiltration renames_buildAssemblage)

text \<open>
  An assembler called with the counter at \<open>n\<close> returns a tree whose identities lie between
  \<open>n\<close> and the counter it leaves, and the tree of a call with the counter at \<open>n + k\<close> is
  that tree moved by \<open>k\<close>.
\<close>

lemma assembler_ids:
  assumes "b \<in> set assemblers"
  shows "good_obj (next_id s) (next_id (snd (run_state b s))) (fst (run_state b s))"
    and "next_id s \<le> next_id (snd (run_state b s))"
proof -
  let ?s0 = "\<lparr>next_id = next_id s, kids = []\<rparr>"
  from assemblers_groups [OF assms] obtain nm bd where b: "b = group nm bd" by blast
  have g: "good_state False (next_id ?s0) ?s0" by (rule good_state_start) simp
  note st = allocates_state [OF assemblers_allocate [OF assms] g order_refl]
  show "good_obj (next_id s) (next_id (snd (run_state b s))) (fst (run_state b s))"
    using st(4) unfolding b group_from_start [of nm bd s] by simp
  show "next_id s \<le> next_id (snd (run_state b s))"
    using st(2) unfolding b group_from_start [of nm bd s] by simp
qed

lemma assembler_shift:
  assumes "b \<in> set assemblers" "next_id s' = next_id s + k"
  shows "fst (run_state b s') = shift_obj k (fst (run_state b s))"
proof -
  let ?s0 = "\<lparr>next_id = next_id s, kids = []\<rparr>"
  from assemblers_groups [OF assms(1)] obtain nm bd where b: "b = group nm bd" by blast
  have "shift_state k ?s0 = \<lparr>next_id = next_id s', kids = []\<rparr>"
    by (simp add: shift_state_def assms(2))
  moreover have "fst (run_state b (shift_state k ?s0)) = shift_obj k (fst (run_state b ?s0))"
    using assemblers_rename [OF assms(1), of k] by (simp add: renames_def split_def)
  ultimately show ?thesis
    unfolding b group_from_start(1) [of nm bd s] group_from_start(1) [of nm bd s'] by simp
qed

lemma twice_builds:
  "first_build b s = fst (run_state b s)"
  "second_build b s = fst (run_state b (snd (run_state b s)))"
  by (simp_all add: first_build_def second_build_def twice_def split_def)

lemma good_obj_ids: "good_obj n0 k ob \<Longrightarrow> i \<in> set (obj_ids ob) \<Longrightarrow> n0 \<le> i \<and> i < k"
  by (auto simp: good_obj_def list_all_iff)

lemma oid_in_ids: "oid (attrs ob) \<in> set (obj_ids ob)"
  by (cases ob) (simp add: obj_ids_def node_ids_def)

lemma attrs_set_visible_at:
  "attrs (set_visible_at i v ob)
     = (if oid (attrs ob) = i then (attrs ob)\<lparr>visible := v\<rparr> else attrs ob)"
  by (cases ob) (simp add: set_visible_at_def)

text \<open>
  C6. Two calls in succession of a module assembler, from any state of the identity
  counter: the two modules are congruent (equal once identities are forgotten), no object,
  material, geometry or texture of one occurs in the other, and setting \<^verbatim>\<open>visible\<close> on an
  object of one, or \<^verbatim>\<open>wireframe\<close> on a material of one, leaves the other as it is.
\<close>

theorem assemblers_independent:
  "b \<in> set assemblers \<Longrightarrow>
   congruent (first_build b s) (second_build b s)
   \<and> set (obj_ids (first_build b s)) \<inter> set (obj_ids (second_build b s)) = {}
   \<and> (\<forall>i \<in> set (obj_ids (first_build b s)). \<forall>v.
         set_visible_at i v (second_build b s) = second_build b s
         \<and> set_wireframe_at i v (second_build b s) = second_build b s)
   \<and> (\<forall>i \<in> set (obj_ids (second_build b s)). \<forall>v.
         set_visible_at i v (first_build b s) = first_build b s
         \<and> set_wireframe_at i v (first_build b s) = first_build b s)"
proof -
  assume b: "b \<in> set assemblers"
  define s1 where "s1 = snd (run_state b s)"
  define g1 where "g1 = fst (run_state b s)"
  define g2 where "g2 = fst (run_state b s1)"
  have fb: "first_build b s = g1" and sb: "second_build b s = g2"
    by (simp_all add: twice_builds g1_def g2_def s1_def)
  note i1 = assembler_ids [OF b, of s, folded s1_def g1_def]
  note i2 = assembler_ids [OF b, of s1, folded g2_def]
  have "next_id s1 = next_id s + (next_id s1 - next_id s)" using i1(2) by simp
  from assembler_shift [OF b this]
  have "g2 = shift_obj (next_id s1 - next_id s) g1" by (simp add: g1_def g2_def)
  then have c: "congruent g1 g2" by (simp add: congruent_def erase_shift)
  have d: "i \<notin> set (obj_ids g2)" if "i \<in> set (obj_ids g1)" for i
    using good_obj_ids [OF i1(1) that] good_obj_ids [OF i2(1), of i] by auto
  have e: "i \<notin> set (obj_ids g1)" if "i \<in> set (obj_ids g2)" for i
    using d that by blast
  show ?thesis
    unfolding fb sb using c d e
    by (auto simp: set_visible_other set_wireframe_other)
qed

theorem assemblers_independent_witness:
  "buildPeltier \<in> set assemblers
   \<and> 0 \<in> set (obj_ids (first_build buildPeltier \<lparr>next_id = 0, kids = []\<rparr>))
   \<and> visible (attrs (first_build buildPeltier \<lparr>next_id = 0, kids = []\<rparr>))
   \<and> \<not> visible (attrs (set_visible_at 0 False (first_build buildPeltier \<lparr>next_id = 0, kids = []\<rparr>)))
   \<and> set_visible_at 0 False (second_build buildPeltier \<lparr>next_id = 0, kids = []\<rparr>)
       = second_build buildPeltier \<lparr>next_id = 0, kids = []\<rparr>"
proof -
  let ?s = "\<lparr>next_id = 0, kids = []\<rparr>"
  have m: "buildPeltier \<in> set assemblers" by (simp add: assemblers_def)
  have a: "attrs (first_build buildPeltier ?s) = (object3d 0 GroupB)\<lparr>name := ''peltier''\<rparr>"
    by (simp add: twice_builds buildPeltier_def group_attrs)
  have o: "0 \<in> set (obj_ids (first_build buildPeltier ?s))"
    using oid_in_ids [of "first_build buildPeltier ?s"] by (simp add: a object3d_def)
  from assemblers_independent [OF m, of ?s] o
  have "set_visible_at 0 False (second_build buildPeltier ?s) = second_build buildPeltier ?s"
    by blast
  then show ?thesis using m o by (simp add: attrs_set_visible_at a object3d_def)
qed

end
